theory Spec2Isabelle
  imports Main "HOL-Library.Word"
begin

section \<open>Go values, errors and strings\<close>

text \<open>
  A Go \<open>error\<close> is either \<open>nil\<close> or a value carrying a message: \<open>None\<close> is \<open>nil\<close>,
  \<open>Some msg\<close> is an error whose \<open>Error()\<close> string is \<open>msg\<close>.  \<open>fmt.Errorf("p: %w", err)\<close>
  yields the message \<open>p: \<close> followed by the message of \<open>err\<close>.
\<close>

type_synonym error = "string option"

text \<open>A \<open>float64\<close> is kept as its IEEE-754 bit pattern; arithmetic on it is a parameter.\<close>

type_synonym float64 = "64 word"

text \<open>The dynamic values an \<open>interface{}\<close> holds in this program.\<close>

datatype go_value =
    VNil
  | VBool bool
  | VInt int
  | VFloat float64
  | VString string
  | VList "go_value list"
  | VMap "(string \<times> go_value) list"

text \<open>\<open>strings.HasPrefix\<close> and \<open>strings.Contains\<close>.\<close>

fun HasPrefix :: "string \<Rightarrow> string \<Rightarrow> bool" where
  "HasPrefix s [] = True"
| "HasPrefix [] (p # ps) = False"
| "HasPrefix (c # cs) (p # ps) = (c = p \<and> HasPrefix cs ps)"

fun Contains :: "string \<Rightarrow> string \<Rightarrow> bool" where
  "Contains [] substr = (substr = [])"
| "Contains (c # cs) substr = (HasPrefix (c # cs) substr \<or> Contains cs substr)"

section \<open>Time\<close>

text \<open>
  \<open>time.Duration\<close> is a signed 64-bit count of nanoseconds.  Durations are integers here and
  the one arithmetic operation of the program on them, doubling, wraps as the machine does.
\<close>

definition Millisecond :: int where
  "Millisecond = 1000000"

definition Second :: int where
  "Second = 1000000000"

definition wrap64 :: "int \<Rightarrow> int" where
  "wrap64 x = (x + 2 ^ 63) mod 2 ^ 64 - 2 ^ 63"

definition maxDelay :: int where
  "maxDelay = 10 * Second"

text \<open>
  The delay update of both retry loops:
  \<^verbatim>\<open>delay *= 2; if delay > maxDelay { delay = maxDelay }\<close>
\<close>

definition nextDelay :: "int \<Rightarrow> int" where
  "nextDelay delay =
     (let delay = wrap64 (delay * 2)
      in if delay > maxDelay then maxDelay else delay)"

section \<open>The remote API and the program state\<close>

text \<open>
  \<open>MakeRequest\<close> and the response handlers (\<open>handleCredentialAPIResponse\<close>,
  \<open>handleAPIResponse\<close>) belong to the HTTP client, which is outside the files verified
  here.  What they return is a parameter: the remote side answers the \<open>n\<close>-th request of
  a run either with a transport error, or with a response that has a status code and on
  which the handler yields an error message (\<open>Inl\<close>) or the decoded body (\<open>Inr\<close>).
\<close>

datatype 'r http_result =
    TransportError string
  | Reply nat "string + 'r"

record 'b request =
  req_method :: string
  req_endpoint :: string
  req_body :: "'b option"

type_synonym ('b, 'r) client = "nat \<Rightarrow> 'b request \<Rightarrow> 'r http_result"

text \<open>
  \<open>schema.ResourceData\<close>: the identifier (\<open>d.Id()\<close>, \<open>d.SetId\<close>) and the typed attributes
  (\<open>d.Get\<close>, \<open>d.Set\<close>).  \<open>d.Set\<close> is the SDK's: it checks the value against the schema of
  the attribute and returns an error when the schema rejects it.  What \<open>d.Get\<close> then reads
  from a map attribute is decided inside the SDK, which is not part of these files; the
  resource data carries it as \<open>Set_rejected\<close>, a function of the rejected value and of the
  value held before, about which nothing is assumed.
\<close>

record 'a resource_data =
  rid :: string
  attrs :: 'a
  Set_rejected :: "(string \<times> go_value) list \<Rightarrow> (string \<rightharpoonup> go_value) \<Rightarrow> (string \<rightharpoonup> go_value)"

text \<open>
  The state threaded through every operation: the resource data \<open>d\<close>, the requests sent so
  far, the durations passed to \<open>time.Sleep\<close> so far, and how many UUIDs were drawn.
  Log output is not modelled.
\<close>

record ('a, 'b) prog_state =
  d :: "'a resource_data"
  sent :: "'b request list"
  slept :: "int list"
  uuids_used :: nat

definition SetId :: "string \<Rightarrow> ('a, 'b) prog_state \<Rightarrow> ('a, 'b) prog_state" where
  "SetId v st = st\<lparr>d := (d st)\<lparr>rid := v\<rparr>\<rparr>"

definition Sleep :: "int \<Rightarrow> ('a, 'b) prog_state \<Rightarrow> ('a, 'b) prog_state" where
  "Sleep dur st = st\<lparr>slept := slept st @ [dur]\<rparr>"

definition MakeRequest ::
  "('b, 'r) client \<Rightarrow> string \<Rightarrow> string \<Rightarrow> 'b option \<Rightarrow> ('a, 'b) prog_state
     \<Rightarrow> 'r http_result \<times> ('a, 'b) prog_state" where
  "MakeRequest client method endpoint body st =
     (let req = \<lparr>req_method = method, req_endpoint = endpoint, req_body = body\<rparr>
      in (client (length (sent st)) req, st\<lparr>sent := sent st @ [req]\<rparr>))"

section \<open>Credentials\<close>

record credential_attrs =
  credential_name :: string
  model_id :: string
  credential_info :: "string \<rightharpoonup> go_value"
  credential_values :: "string \<rightharpoonup> go_value"

text \<open>
  The decoded body of a credential read (\<open>CredentialResponse\<close>).  \<open>CredentialInfo\<close> is a Go
  map from the JSON object of the reply; it is listed as its entries, so that its values can
  be tested.
\<close>

record credential_response =
  CredentialName :: string
  CredentialInfo :: "(string \<times> go_value) list"

type_synonym 'b credential_state = "(credential_attrs, 'b) prog_state"

text \<open>
  The two calls of \<open>d.Set\<close> in the credential read.  Their errors are discarded by the
  caller.  \<open>credential_name\<close> is a string attribute and is given a Go string, which the schema
  accepts.  \<open>credential_info\<close> is a map attribute whose elements are strings (the schema is
  declared in \<open>resourceLiteLLMCredential\<close>, outside these files; strings are what the SDK
  takes the elements of a map to be, and what the repository's tests store): a map whose
  values are all strings is stored, any other map is rejected.
\<close>

definition isString :: "go_value \<Rightarrow> bool" where
  "isString v = (case v of VString s \<Rightarrow> True | _ \<Rightarrow> False)"

definition Set_credential_name ::
  "string \<Rightarrow> credential_attrs resource_data \<Rightarrow> credential_attrs resource_data" where
  "Set_credential_name v d0 = d0\<lparr>attrs := (attrs d0)\<lparr>credential_name := v\<rparr>\<rparr>"

definition Set_credential_info ::
  "(string \<times> go_value) list \<Rightarrow> credential_attrs resource_data
     \<Rightarrow> credential_attrs resource_data" where
  "Set_credential_info v d0 =
     (if list_all (\<lambda>(k, x). isString x) v
      then d0\<lparr>attrs := (attrs d0)\<lparr>credential_info := map_of v\<rparr>\<rparr>
      else d0\<lparr>attrs := (attrs d0)
                \<lparr>credential_info := Set_rejected d0 v (credential_info (attrs d0))\<rparr>\<rparr>)"

definition resourceLiteLLMCredentialRead ::
  "('b, credential_response) client \<Rightarrow> 'b credential_state \<Rightarrow> error \<times> 'b credential_state" where
  "resourceLiteLLMCredentialRead client st =
     (let credentialName = rid (d st);
          modelID = model_id (attrs (d st));
          endpoint = ''/credentials/by_name/'' @ credentialName;
          endpoint = (if modelID \<noteq> '''' then endpoint @ ''?model_id='' @ modelID else endpoint);
          (resp, st) = MakeRequest client ''GET'' endpoint None st
      in case resp of
           TransportError e \<Rightarrow> (Some (''failed to read credential: '' @ e), st)
         | Reply status handled \<Rightarrow>
             if status = 404 then (None, SetId '''' st)
             else (case handled of
                     Inl e \<Rightarrow>
                       if e = ''credential_not_found'' then (None, SetId '''' st)
                       else (Some (''failed to read credential: '' @ e), st)
                   | Inr credentialResp \<Rightarrow>
                       (let st = st\<lparr>d := Set_credential_name
                                        (CredentialName credentialResp) (d st)\<rparr>;
                            st = st\<lparr>d := Set_credential_info
                                        (CredentialInfo credentialResp) (d st)\<rparr>
                        in (None, st))))"

text \<open>
  One pass through the top of the loop body of \<open>retryCredentialRead\<close>: the read, then the
  repair of a read that reported success and left the identifier empty.
\<close>

definition credentialReadAttempt ::
  "('b, credential_response) client \<Rightarrow> string \<Rightarrow> 'b credential_state
     \<Rightarrow> error \<times> 'b credential_state" where
  "credentialReadAttempt m origID st =
     (let (err, st) = resourceLiteLLMCredentialRead m st
      in if err = None \<and> rid (d st) = ''''
         then (Some ''credential_not_found'', SetId origID st)
         else (err, st))"

function retryCredentialRead_loop ::
  "('b, credential_response) client \<Rightarrow> int \<Rightarrow> string \<Rightarrow> int \<Rightarrow> int \<Rightarrow> error
     \<Rightarrow> 'b credential_state \<Rightarrow> error \<times> 'b credential_state" where
  "retryCredentialRead_loop m maxRetries origID i delay err st =
     (if i < maxRetries then
        (case credentialReadAttempt m origID st of
           (None, st') \<Rightarrow> (None, st')
         | (Some msg, st') \<Rightarrow>
             if \<not> Contains msg ''credential_not_found'' then (Some msg, st')
             else if i < maxRetries - 1
               then retryCredentialRead_loop m maxRetries origID (i + 1) (nextDelay delay)
                      (Some msg) (Sleep delay st')
               else retryCredentialRead_loop m maxRetries origID (i + 1) delay (Some msg) st')
      else (err, st))"
  by pat_completeness auto
termination
  by (relation "measure (\<lambda>(m, maxRetries, origID, i, delay, err, st). nat (maxRetries - i))") auto

definition retryCredentialRead ::
  "('b, credential_response) client \<Rightarrow> int \<Rightarrow> 'b credential_state
     \<Rightarrow> error \<times> 'b credential_state" where
  "retryCredentialRead m maxRetries st =
     retryCredentialRead_loop m maxRetries (rid (d st)) 0 (1 * Second) None st"

record credential_request =
  cr_CredentialName :: string
  cr_ModelID :: string
  cr_CredentialInfo :: "string \<rightharpoonup> go_value"
  cr_CredentialValues :: "string \<rightharpoonup> go_value"

definition resourceLiteLLMCredentialCreate ::
  "(credential_request, credential_response) client \<Rightarrow> credential_request credential_state
     \<Rightarrow> error \<times> credential_request credential_state" where
  "resourceLiteLLMCredentialCreate m st =
     (let credentialName = credential_name (attrs (d st));
          credentialRequest =
            \<lparr>cr_CredentialName = credentialName,
             cr_ModelID = model_id (attrs (d st)),
             cr_CredentialInfo = credential_info (attrs (d st)),
             cr_CredentialValues = credential_values (attrs (d st))\<rparr>;
          (resp, st) = MakeRequest m ''POST'' ''/credentials'' (Some credentialRequest) st
      in case resp of
           TransportError e \<Rightarrow> (Some (''failed to create credential: '' @ e), st)
         | Reply status handled \<Rightarrow>
             (case handled of
                Inl e \<Rightarrow> (Some (''failed to create credential: '' @ e), st)
              | Inr body \<Rightarrow> retryCredentialRead m 5 (SetId credentialName st)))"

definition resourceLiteLLMCredentialUpdate ::
  "(credential_request, credential_response) client \<Rightarrow> credential_request credential_state
     \<Rightarrow> error \<times> credential_request credential_state" where
  "resourceLiteLLMCredentialUpdate m st =
     (let credentialName = rid (d st);
          credentialRequest =
            \<lparr>cr_CredentialName = credentialName,
             cr_ModelID = [],
             cr_CredentialInfo = credential_info (attrs (d st)),
             cr_CredentialValues = credential_values (attrs (d st))\<rparr>;
          (resp, st) =
            MakeRequest m ''PATCH'' (''/credentials/'' @ credentialName) (Some credentialRequest) st
      in case resp of
           TransportError e \<Rightarrow> (Some (''failed to update credential: '' @ e), st)
         | Reply status handled \<Rightarrow>
             (case handled of
                Inl e \<Rightarrow> (Some (''failed to update credential: '' @ e), st)
              | Inr body \<Rightarrow> retryCredentialRead m 5 st))"

section \<open>Models\<close>

text \<open>The attributes of a model resource that the program reads with \<open>d.Get\<close>.\<close>

record model_attrs =
  model_name :: string
  custom_llm_provider :: string
  base_model :: string
  tier :: string
  mode :: string
  team_id :: string
  tpm :: int
  rpm :: int
  model_api_key :: string
  model_api_base :: string
  api_version :: string
  input_cost_per_million_tokens :: float64
  output_cost_per_million_tokens :: float64
  input_cost_per_pixel :: float64
  output_cost_per_pixel :: float64
  input_cost_per_second :: float64
  output_cost_per_second :: float64
  aws_access_key_id :: string
  aws_secret_access_key :: string
  aws_region_name :: string
  aws_session_name :: string
  aws_role_name :: string
  vertex_project :: string
  vertex_location :: string
  vertex_credentials :: string
  reasoning_effort :: string
  thinking_enabled :: bool
  thinking_budget_tokens :: int
  merge_reasoning_content_in_choices :: bool
  additional_litellm_params :: "(string \<times> go_value) list"

text \<open>
  \<open>additional_litellm_params\<close> is a Go map; the list holds its entries in the order in which
  the \<open>range\<close> loop of one run visits them (a Go map has each key once).
\<close>

record model_info =
  mi_ID :: string
  mi_DBModel :: bool
  mi_BaseModel :: string
  mi_Tier :: string
  mi_Mode :: string
  mi_TeamID :: string

record model_request =
  mr_ModelName :: string
  mr_LiteLLMParams :: "string \<rightharpoonup> go_value"
  mr_ModelInfo :: model_info
  mr_Additional :: "string \<rightharpoonup> go_value"

text \<open>
  The decoded body of a model read (\<open>ModelResponse\<close>), with the fields that
  \<open>resourceLiteLLMModelRead\<close> uses.  \<open>Thinking\<close> is a Go map that may be \<open>nil\<close>.
\<close>

record litellm_params_response =
  lp_CustomLLMProvider :: string
  lp_TPM :: int
  lp_RPM :: int
  lp_APIBase :: string
  lp_APIVersion :: string
  lp_AWSRegionName :: string
  lp_Thinking :: "(string \<times> go_value) list option"
  lp_MergeReasoningContentInChoices :: bool

record model_response =
  resp_ModelName :: string
  resp_LiteLLMParams :: litellm_params_response
  resp_ModelInfo :: model_info

text \<open>
  What the program takes from outside these files: the standard library's parsers
  (\<open>json.Unmarshal\<close> into an \<open>interface{}\<close>, \<open>strconv.Atoi\<close>, \<open>strconv.ParseFloat\<close>,
  \<open>strings.TrimSpace\<close>), floating-point division and the conversion of a \<open>float64\<close> to an
  \<open>int\<close>, the UUID generator (its \<open>n\<close>-th draw), and the repository's helpers
  \<open>GetStringValue\<close> and \<open>GetIntValue\<close>, which are declared elsewhere.
\<close>

record externals =
  json_Unmarshal :: "string \<Rightarrow> go_value option"
  strconv_Atoi :: "string \<Rightarrow> int option"
  strconv_ParseFloat :: "string \<Rightarrow> float64 option"
  strings_TrimSpace :: "string \<Rightarrow> string"
  float64_div :: "float64 \<Rightarrow> float64 \<Rightarrow> float64"
  float64_to_int :: "float64 \<Rightarrow> int"
  uuid_New :: "nat \<Rightarrow> string"
  GetStringValue :: "string \<Rightarrow> string \<Rightarrow> string"
  GetIntValue :: "int \<Rightarrow> int \<Rightarrow> int"

text \<open>The \<open>float64\<close> constant \<open>1000000.0\<close>, and the test \<open>x > 0\<close> on a \<open>float64\<close>
  (positive, not zero, not a NaN).\<close>

definition float64_million :: float64 where
  "float64_million = 0x412E848000000000"

definition float64_positive :: "float64 \<Rightarrow> bool" where
  "float64_positive x = (0 < x \<and> x \<le> 0x7FF0000000000000)"

definition isRetryableModelError :: "error \<Rightarrow> bool" where
  "isRetryableModelError err =
     (case err of
        None \<Rightarrow> False
      | Some errStr \<Rightarrow>
          Contains errStr ''not found'' \<or>
          Contains errStr ''Model id ='' \<or>
          Contains errStr ''model_not_found'')"

definition endpointModelNew :: string where
  "endpointModelNew = ''/model/new''"

definition endpointModelUpdate :: string where
  "endpointModelUpdate = ''/model/update''"

definition endpointModelInfo :: string where
  "endpointModelInfo = ''/model/info''"

text \<open>The provider's meta value \<open>m\<close>: a \<open>*Client\<close>, or anything else.\<close>

datatype ('b, 'r) meta =
    Client "('b, 'r) client"
  | NotAClient

type_synonym model_state = "(model_attrs, model_request) prog_state"

text \<open>
  The attribute updates of a successful model read.  \<open>d.GetOk\<close> reports an attribute as
  set when its value is not the zero value of its type.  The calls \<open>d.Set(k, d.Get(k))\<close> of
  the source store what they read and change nothing.
\<close>

definition storeModelResponse :: "externals \<Rightarrow> model_response \<Rightarrow> model_attrs \<Rightarrow> model_attrs" where
  "storeModelResponse ext modelResp a0 =
     (let lp = resp_LiteLLMParams modelResp;
          mi = resp_ModelInfo modelResp;
          a = a0\<lparr>model_name := GetStringValue ext (resp_ModelName modelResp) (model_name a0)\<rparr>;
          a = a\<lparr>custom_llm_provider :=
                 GetStringValue ext (lp_CustomLLMProvider lp) (custom_llm_provider a)\<rparr>;
          a = a\<lparr>tpm := GetIntValue ext (lp_TPM lp) (tpm a)\<rparr>;
          a = a\<lparr>rpm := GetIntValue ext (lp_RPM lp) (rpm a)\<rparr>;
          a = a\<lparr>model_api_base := GetStringValue ext (lp_APIBase lp) (model_api_base a)\<rparr>;
          a = a\<lparr>api_version := GetStringValue ext (lp_APIVersion lp) (api_version a)\<rparr>;
          a = a\<lparr>base_model := GetStringValue ext (mi_BaseModel mi) (base_model a)\<rparr>;
          a = a\<lparr>tier := GetStringValue ext (mi_Tier mi) (tier a)\<rparr>;
          a = a\<lparr>mode := GetStringValue ext (mi_Mode mi) (mode a)\<rparr>;
          a = a\<lparr>team_id := GetStringValue ext (mi_TeamID mi) (team_id a)\<rparr>;
          a = a\<lparr>aws_region_name :=
                 GetStringValue ext (lp_AWSRegionName lp) (aws_region_name a)\<rparr>;
          a = (if thinking_enabled a then a
               else (case lp_Thinking lp of
                       None \<Rightarrow> a\<lparr>thinking_enabled := False\<rparr>
                     | Some thinking \<Rightarrow>
                         (case map_of thinking ''type'' of
                            Some (VString thinkingType) \<Rightarrow>
                              if thinkingType = ''enabled'' then
                                (case map_of thinking ''budget_tokens'' of
                                   Some (VFloat budgetTokens) \<Rightarrow>
                                     a\<lparr>thinking_enabled := True,
                                       thinking_budget_tokens :=
                                         float64_to_int ext budgetTokens\<rparr>
                                 | _ \<Rightarrow> a\<lparr>thinking_enabled := True\<rparr>)
                              else a\<lparr>thinking_enabled := False\<rparr>
                          | _ \<Rightarrow> a\<lparr>thinking_enabled := False\<rparr>)));
          a = (if merge_reasoning_content_in_choices a then a
               else a\<lparr>merge_reasoning_content_in_choices :=
                      lp_MergeReasoningContentInChoices lp\<rparr>)
      in a)"

definition resourceLiteLLMModelRead ::
  "externals \<Rightarrow> (model_request, model_response) meta \<Rightarrow> model_state \<Rightarrow> error \<times> model_state" where
  "resourceLiteLLMModelRead ext m st =
     (case m of
        NotAClient \<Rightarrow> (Some ''invalid type assertion for client'', st)
      | Client client \<Rightarrow>
          (let (resp, st) =
                 MakeRequest client ''GET''
                   (endpointModelInfo @ ''?litellm_model_id='' @ rid (d st)) None st
           in case resp of
                TransportError e \<Rightarrow> (Some (''failed to read model: '' @ e), st)
              | Reply status handled \<Rightarrow>
                  (case handled of
                     Inl e \<Rightarrow>
                       if e = ''model_not_found'' then (None, SetId '''' st)
                       else (Some (''failed to read model: '' @ e), st)
                   | Inr modelResp \<Rightarrow>
                       (None,
                        st\<lparr>d := (d st)\<lparr>attrs :=
                               storeModelResponse ext modelResp (attrs (d st))\<rparr>\<rparr>))))"

text \<open>
  The loop of \<open>retryModelRead\<close>.  After a failed read the source tests \<open>d.Id() == ""\<close>, and
  the body of that test writes a log line only; the test is therefore no branch here.  A read
  that returns \<open>nil\<close> ends the loop at once, whatever it did to the identifier.
\<close>

function retryModelRead_loop ::
  "externals \<Rightarrow> (model_request, model_response) meta \<Rightarrow> int \<Rightarrow> int \<Rightarrow> int \<Rightarrow> error
     \<Rightarrow> model_state \<Rightarrow> error \<times> model_state" where
  "retryModelRead_loop ext m maxRetries i delay err st =
     (if i < maxRetries then
        (case resourceLiteLLMModelRead ext m st of
           (None, st') \<Rightarrow> (None, st')
         | (Some msg, st') \<Rightarrow>
             if \<not> isRetryableModelError (Some msg) then (Some msg, st')
             else if i < maxRetries - 1
               then retryModelRead_loop ext m maxRetries (i + 1) (nextDelay delay)
                      (Some msg) (Sleep delay st')
               else retryModelRead_loop ext m maxRetries (i + 1) delay (Some msg) st')
      else (err, st))"
  by pat_completeness auto
termination
  by (relation "measure (\<lambda>(ext, m, maxRetries, i, delay, err, st). nat (maxRetries - i))") auto

definition retryModelRead ::
  "externals \<Rightarrow> (model_request, model_response) meta \<Rightarrow> int \<Rightarrow> model_state
     \<Rightarrow> error \<times> model_state" where
  "retryModelRead ext m maxRetries st =
     retryModelRead_loop ext m maxRetries 0 (500 * Millisecond) None
       (Sleep (200 * Millisecond) st)"

subsection \<open>The request payload\<close>

text \<open>The map \<open>litellmParams\<close> before the additional parameters are merged.\<close>

definition baseLitellmParams :: "externals \<Rightarrow> model_attrs \<Rightarrow> (string \<rightharpoonup> go_value)" where
  "baseLitellmParams ext a =
     (let inputCostPerToken = float64_div ext (input_cost_per_million_tokens a) float64_million;
          outputCostPerToken = float64_div ext (output_cost_per_million_tokens a) float64_million;
          customLLMProvider = custom_llm_provider a;
          baseModel = base_model a;
          modelName = customLLMProvider @ ''/'' @ baseModel;
          thinking =
            (if thinking_enabled a
             then Some (VMap [(''type'', VString ''enabled''),
                              (''budget_tokens'', VInt (thinking_budget_tokens a))])
             else None);
          p = [''custom_llm_provider'' \<mapsto> VString customLLMProvider,
               ''model'' \<mapsto> VString modelName,
               ''input_cost_per_token'' \<mapsto> VFloat inputCostPerToken,
               ''output_cost_per_token'' \<mapsto> VFloat outputCostPerToken,
               ''merge_reasoning_content_in_choices'' \<mapsto>
                 VBool (merge_reasoning_content_in_choices a)];
          p = (if tpm a > 0 then p(''tpm'' \<mapsto> VInt (tpm a)) else p);
          p = (if rpm a > 0 then p(''rpm'' \<mapsto> VInt (rpm a)) else p);
          p = (if model_api_key a \<noteq> ''''
               then p(''api_key'' \<mapsto> VString (model_api_key a)) else p);
          p = (if model_api_base a \<noteq> ''''
               then p(''api_base'' \<mapsto> VString (model_api_base a)) else p);
          p = (if api_version a \<noteq> ''''
               then p(''api_version'' \<mapsto> VString (api_version a)) else p);
          p = (if float64_positive (input_cost_per_pixel a)
               then p(''input_cost_per_pixel'' \<mapsto> VFloat (input_cost_per_pixel a)) else p);
          p = (if float64_positive (output_cost_per_pixel a)
               then p(''output_cost_per_pixel'' \<mapsto> VFloat (output_cost_per_pixel a)) else p);
          p = (if float64_positive (input_cost_per_second a)
               then p(''input_cost_per_second'' \<mapsto> VFloat (input_cost_per_second a)) else p);
          p = (if float64_positive (output_cost_per_second a)
               then p(''output_cost_per_second'' \<mapsto> VFloat (output_cost_per_second a)) else p);
          p = (if aws_access_key_id a \<noteq> ''''
               then p(''aws_access_key_id'' \<mapsto> VString (aws_access_key_id a)) else p);
          p = (if aws_secret_access_key a \<noteq> ''''
               then p(''aws_secret_access_key'' \<mapsto> VString (aws_secret_access_key a)) else p);
          p = (if aws_region_name a \<noteq> ''''
               then p(''aws_region_name'' \<mapsto> VString (aws_region_name a)) else p);
          p = (if aws_session_name a \<noteq> ''''
               then p(''aws_session_name'' \<mapsto> VString (aws_session_name a)) else p);
          p = (if aws_role_name a \<noteq> ''''
               then p(''aws_role_name'' \<mapsto> VString (aws_role_name a)) else p);
          p = (if vertex_project a \<noteq> ''''
               then p(''vertex_project'' \<mapsto> VString (vertex_project a)) else p);
          p = (if vertex_location a \<noteq> ''''
               then p(''vertex_location'' \<mapsto> VString (vertex_location a)) else p);
          p = (if vertex_credentials a \<noteq> ''''
               then p(''vertex_credentials'' \<mapsto> VString (vertex_credentials a)) else p);
          p = (if reasoning_effort a \<noteq> ''''
               then p(''reasoning_effort'' \<mapsto> VString (reasoning_effort a)) else p);
          p = (case thinking of Some t \<Rightarrow> p(''thinking'' \<mapsto> t) | None \<Rightarrow> p)
      in p)"

text \<open>
  The conversion of a string that is not taken as JSON; the source has this chain twice,
  word for word, once for a string whose JSON parse failed and once for a string that does
  not start like JSON.
\<close>

definition convertString :: "externals \<Rightarrow> string \<Rightarrow> go_value" where
  "convertString ext strValue =
     (if strValue = ''true'' then VBool True
      else if strValue = ''false'' then VBool False
      else (case strconv_Atoi ext strValue of
              Some intValue \<Rightarrow> VInt intValue
            | None \<Rightarrow>
                (case strconv_ParseFloat ext strValue of
                   Some floatValue \<Rightarrow> VFloat floatValue
                 | None \<Rightarrow> VString strValue)))"

text \<open>The strings among the items of a parsed drop list.\<close>

fun stringItems :: "go_value list \<Rightarrow> string list" where
  "stringItems [] = []"
| "stringItems (VString paramStr # items) = paramStr # stringItems items"
| "stringItems (item # items) = stringItems items"

text \<open>One iteration of the loop over the additional parameters.\<close>

definition mergeAdditionalParam ::
  "externals \<Rightarrow> string \<times> go_value \<Rightarrow> (string \<rightharpoonup> go_value) \<times> string list
     \<Rightarrow> (string \<rightharpoonup> go_value) \<times> string list" where
  "mergeAdditionalParam ext entry acc =
     (case (entry, acc) of ((key, val), (litellmParams, dropParams)) \<Rightarrow>
        (case val of
           VString strValue \<Rightarrow>
             (let trimmedValue = strings_TrimSpace ext strValue
              in if HasPrefix trimmedValue ''['' \<or> HasPrefix trimmedValue ''{'' then
                   (case json_Unmarshal ext strValue of
                      Some parsedValue \<Rightarrow>
                        if key = ''additional_drop_params'' then
                          (case parsedValue of
                             VList dropList \<Rightarrow>
                               (litellmParams, dropParams @ stringItems dropList)
                           | _ \<Rightarrow> (litellmParams, dropParams))
                        else (litellmParams(key \<mapsto> parsedValue), dropParams)
                    | None \<Rightarrow> (litellmParams(key \<mapsto> convertString ext strValue), dropParams))
                 else (litellmParams(key \<mapsto> convertString ext strValue), dropParams))
         | _ \<Rightarrow> (litellmParams(key \<mapsto> val), dropParams)))"

fun mergeAdditionalParams ::
  "externals \<Rightarrow> (string \<times> go_value) list \<Rightarrow> (string \<rightharpoonup> go_value) \<times> string list
     \<Rightarrow> (string \<rightharpoonup> go_value) \<times> string list" where
  "mergeAdditionalParams ext [] acc = acc"
| "mergeAdditionalParams ext (entry # entries) acc =
     mergeAdditionalParams ext entries (mergeAdditionalParam ext entry acc)"

fun applyDropParams :: "string list \<Rightarrow> (string \<rightharpoonup> go_value) \<Rightarrow> (string \<rightharpoonup> go_value)" where
  "applyDropParams [] litellmParams = litellmParams"
| "applyDropParams (paramToDrop # rest) litellmParams =
     applyDropParams rest (litellmParams(paramToDrop := None))"

text \<open>
  The block guarded by \<open>d.GetOk("additional_litellm_params")\<close>, which reports a map as set
  when it is not empty.
\<close>

definition addAdditionalParams ::
  "externals \<Rightarrow> (string \<times> go_value) list \<Rightarrow> (string \<rightharpoonup> go_value)
     \<Rightarrow> (string \<rightharpoonup> go_value)" where
  "addAdditionalParams ext additionalParams litellmParams =
     (if additionalParams \<noteq> [] then
        (case mergeAdditionalParams ext additionalParams (litellmParams, []) of
           (litellmParams, dropParams) \<Rightarrow> applyDropParams dropParams litellmParams)
      else litellmParams)"

definition buildModelRequest :: "externals \<Rightarrow> model_attrs \<Rightarrow> string \<Rightarrow> model_request" where
  "buildModelRequest ext a modelID =
     \<lparr>mr_ModelName = model_name a,
      mr_LiteLLMParams =
        addAdditionalParams ext (additional_litellm_params a) (baseLitellmParams ext a),
      mr_ModelInfo =
        \<lparr>mi_ID = modelID, mi_DBModel = True, mi_BaseModel = base_model a,
         mi_Tier = tier a, mi_Mode = mode a, mi_TeamID = team_id a\<rparr>,
      mr_Additional = Map.empty\<rparr>"

subsection \<open>Create or update\<close>

definition uuid_NewString :: "externals \<Rightarrow> ('a, 'b) prog_state \<Rightarrow> string \<times> ('a, 'b) prog_state" where
  "uuid_NewString ext st =
     (uuid_New ext (uuids_used st), st\<lparr>uuids_used := Suc (uuids_used st)\<rparr>)"

definition operationName :: "bool \<Rightarrow> string" where
  "operationName isUpdate = (if isUpdate then ''update'' else ''create'')"

function createOrUpdateModel ::
  "externals \<Rightarrow> (model_request, model_response) meta \<Rightarrow> bool \<Rightarrow> model_state \<Rightarrow> error \<times> model_state" where
  "createOrUpdateModel ext m isUpdate st =
     (case m of
        NotAClient \<Rightarrow> (Some ''invalid type assertion for client'', st)
      | Client client \<Rightarrow>
          (case (if \<not> isUpdate then uuid_NewString ext st else (rid (d st), st)) of
             (modelID, st1) \<Rightarrow>
               (case MakeRequest client ''POST''
                       (if isUpdate then endpointModelUpdate else endpointModelNew)
                       (Some (buildModelRequest ext (attrs (d st1)) modelID)) st1 of
                  (TransportError e, st2) \<Rightarrow>
                    (Some (''failed to '' @ operationName isUpdate @ '' model: '' @ e), st2)
                | (Reply status (Inl e), st2) \<Rightarrow>
                    if isUpdate \<and> e = ''model_not_found''
                    then createOrUpdateModel ext m False st2
                    else (Some (''failed to '' @ operationName isUpdate @ '' model: '' @ e), st2)
                | (Reply status (Inr body), st2) \<Rightarrow>
                    retryModelRead ext m 8 (SetId modelID st2))))"
  by pat_completeness auto
termination
  by (relation "measure (\<lambda>(ext, m, isUpdate, st). if isUpdate then 1 else 0)") auto

definition resourceLiteLLMModelCreate ::
  "externals \<Rightarrow> (model_request, model_response) meta \<Rightarrow> model_state \<Rightarrow> error \<times> model_state" where
  "resourceLiteLLMModelCreate ext m st = createOrUpdateModel ext m False st"

definition resourceLiteLLMModelUpdate ::
  "externals \<Rightarrow> (model_request, model_response) meta \<Rightarrow> model_state \<Rightarrow> error \<times> model_state" where
  "resourceLiteLLMModelUpdate ext m st = createOrUpdateModel ext m True st"

section \<open>Read outcomes and backoff sequences\<close>

text \<open>The delays slept by \<open>n\<close> consecutive retries, the first of them with \<open>delay\<close>.\<close>

fun backoffDelays :: "int \<Rightarrow> nat \<Rightarrow> int list" where
  "backoffDelays delay 0 = []"
| "backoffDelays delay (Suc n) = delay # backoffDelays (nextDelay delay) n"

text \<open>
  What \<open>resourceLiteLLMCredentialRead\<close> does with the reply \<open>r\<close> to its request: whether it
  clears the identifier, the error it returns, and the resource data it leaves.
\<close>

definition credentialClears :: "credential_response http_result \<Rightarrow> bool" where
  "credentialClears r =
     (case r of
        TransportError e \<Rightarrow> False
      | Reply status handled \<Rightarrow> status = 404 \<or> handled = Inl ''credential_not_found'')"

definition credentialReadError :: "credential_response http_result \<Rightarrow> error" where
  "credentialReadError r =
     (case r of
        TransportError e \<Rightarrow> Some (''failed to read credential: '' @ e)
      | Reply status handled \<Rightarrow>
          if status = 404 then None
          else (case handled of
                  Inl e \<Rightarrow>
                    if e = ''credential_not_found'' then None
                    else Some (''failed to read credential: '' @ e)
                | Inr credentialResp \<Rightarrow> None))"

definition credentialReadData ::
  "credential_response http_result \<Rightarrow> credential_attrs resource_data
     \<Rightarrow> credential_attrs resource_data" where
  "credentialReadData r d0 =
     (if credentialClears r then d0\<lparr>rid := []\<rparr>
      else (case r of
              Reply status (Inr credentialResp) \<Rightarrow>
                Set_credential_info (CredentialInfo credentialResp)
                  (Set_credential_name (CredentialName credentialResp) d0)
            | _ \<Rightarrow> d0))"

text \<open>
  A reply on which a credential read attempt reports not-found: the read clears the
  identifier, or it returns an error whose message contains the sentinel.
\<close>

definition credentialNotFound :: "credential_response http_result \<Rightarrow> bool" where
  "credentialNotFound r =
     (credentialClears r \<or>
      (case credentialReadError r of
         None \<Rightarrow> False
       | Some msg \<Rightarrow> Contains msg ''credential_not_found''))"

text \<open>
  The error with which an attempt of \<open>retryCredentialRead\<close> ends on such a reply: the
  sentinel when the read cleared the identifier, the read's own error otherwise.
\<close>

definition credentialAttemptError :: "credential_response http_result \<Rightarrow> error" where
  "credentialAttemptError r =
     (if credentialClears r then Some ''credential_not_found'' else credentialReadError r)"

text \<open>The same for \<open>resourceLiteLLMModelRead\<close> with a \<open>*Client\<close>.\<close>

definition modelClears :: "'r http_result \<Rightarrow> bool" where
  "modelClears r =
     (case r of
        TransportError e \<Rightarrow> False
      | Reply status handled \<Rightarrow>
          (case handled of Inl e \<Rightarrow> e = ''model_not_found'' | Inr modelResp \<Rightarrow> False))"

definition modelReadError :: "'r http_result \<Rightarrow> error" where
  "modelReadError r =
     (case r of
        TransportError e \<Rightarrow> Some (''failed to read model: '' @ e)
      | Reply status handled \<Rightarrow>
          (case handled of
             Inl e \<Rightarrow>
               if e = ''model_not_found'' then None
               else Some (''failed to read model: '' @ e)
           | Inr modelResp \<Rightarrow> None))"

definition modelReadData ::
  "externals \<Rightarrow> model_response http_result \<Rightarrow> model_attrs resource_data
     \<Rightarrow> model_attrs resource_data" where
  "modelReadData ext r d0 =
     (case r of
        TransportError e \<Rightarrow> d0
      | Reply status handled \<Rightarrow>
          (case handled of
             Inl e \<Rightarrow> if e = ''model_not_found'' then d0\<lparr>rid := []\<rparr> else d0
           | Inr modelResp \<Rightarrow> d0\<lparr>attrs := storeModelResponse ext modelResp (attrs d0)\<rparr>))"

text \<open>A reply on which a model read finds the model: the handler decodes it without error.\<close>

definition modelFound :: "'r http_result \<Rightarrow> bool" where
  "modelFound r =
     (case r of
        TransportError e \<Rightarrow> False
      | Reply status handled \<Rightarrow>
          (case handled of Inl e \<Rightarrow> False | Inr modelResp \<Rightarrow> True))"

text \<open>A reply on which a model read returns an error that is classified as retryable.\<close>

definition modelNotFound :: "'r http_result \<Rightarrow> bool" where
  "modelNotFound r = isRetryableModelError (modelReadError r)"

text \<open>A write whose response handler reports the sentinel \<open>model_not_found\<close>.\<close>

definition writeNotFound :: "'r http_result \<Rightarrow> bool" where
  "writeNotFound r =
     (case r of
        TransportError e \<Rightarrow> False
      | Reply status handled \<Rightarrow>
          (case handled of Inl e \<Rightarrow> e = ''model_not_found'' | Inr body \<Rightarrow> False))"

text \<open>A write that succeeds.\<close>

definition writeOk :: "'r http_result \<Rightarrow> bool" where
  "writeOk r =
     (case r of
        TransportError e \<Rightarrow> False
      | Reply status handled \<Rightarrow> (case handled of Inl e \<Rightarrow> False | Inr body \<Rightarrow> True))"

section \<open>Example inputs\<close>

text \<open>
  The resource data of the repository's credential tests, on an SDK that leaves the value
  held when it rejects a map.
\<close>

definition exampleCredentialState :: "credential_request credential_state" where
  "exampleCredentialState =
     \<lparr>d = \<lparr>rid = ''test-cred'',
            attrs = \<lparr>credential_name = ''test-cred'', model_id = [],
                     credential_info = Map.empty,
                     credential_values = [''key'' \<mapsto> VString ''val'']\<rparr>,
            Set_rejected = (\<lambda>v held. held)\<rparr>,
      sent = [], slept = [], uuids_used = 0\<rparr>"

definition exampleCredentialResponse :: credential_response where
  "exampleCredentialResponse =
     \<lparr>CredentialName = ''test-cred'', CredentialInfo = [(''provider'', VString ''aws'')]\<rparr>"

text \<open>A response whose \<open>credential_info\<close> holds a number (\<open>1.5\<close>), which the schema rejects.\<close>

definition exampleNumericResponse :: credential_response where
  "exampleNumericResponse =
     \<lparr>CredentialName = ''renamed'',
      CredentialInfo = [(''n'', VFloat 0x3FF8000000000000)]\<rparr>"

text \<open>A server that answers every request with status 200 and that response.\<close>

definition serverNumeric :: "('b, credential_response) client" where
  "serverNumeric n req = Reply 200 (Inr exampleNumericResponse)"

text \<open>A server that answers every request with status 200 and the credential.\<close>

definition serverFound :: "('b, credential_response) client" where
  "serverFound n req = Reply 200 (Inr exampleCredentialResponse)"

text \<open>A server that accepts the first request (the write) and answers 404 from then on.\<close>

definition serverThen404 :: "('b, credential_response) client" where
  "serverThen404 n req =
     (if n = 0 then Reply 200 (Inr exampleCredentialResponse) else Reply 404 (Inl []))"

text \<open>A server that answers 404 to every request.\<close>

definition server404 :: "('b, credential_response) client" where
  "server404 n req = Reply 404 (Inl [])"

text \<open>A server that answers 404 to the first \<open>k\<close> requests and then fails with status 500.\<close>

definition server404Then500 :: "nat \<Rightarrow> ('b, credential_response) client" where
  "server404Then500 k n req =
     (if n < k then Reply 404 (Inl []) else Reply 500 (Inl ''API request failed: 500''))"

text \<open>
  The standard library, the UUID generator and the helpers on the inputs of the examples
  below: the JSON texts \<open>null\<close> and \<open>["tpm"]\<close>, the number \<open>42\<close>, the quotient
  \<open>0.0 / 1000000.0\<close>, strings without surrounding white space, two UUID draws, and
  responses with empty fields, for which the helpers return the default.  Other inputs do
  not occur.
\<close>

definition dropListText :: string where
  "dropListText = ''['' @ [CHR 0x22] @ ''tpm'' @ [CHR 0x22] @ '']''"

definition exampleExternals :: "externals" where
  "exampleExternals =
     \<lparr>json_Unmarshal =
        (\<lambda>s. if s = ''null'' then Some VNil
             else if s = dropListText then Some (VList [VString ''tpm''])
             else None),
      strconv_Atoi = (\<lambda>s. if s = ''42'' then Some 42 else None),
      strconv_ParseFloat = (\<lambda>s. if s = ''42'' then Some 0x4045000000000000 else None),
      strings_TrimSpace = (\<lambda>s. s),
      float64_div = (\<lambda>x y. 0),
      float64_to_int = (\<lambda>x. 0),
      uuid_New =
        (\<lambda>n. if n = 0 then ''3b241101-e2bb-4255-8caf-4136c566a962''
             else ''9d2f7a1e-5b0c-4f6a-9a3e-0c1d2e3f4a5b''),
      GetStringValue = (\<lambda>apiValue defaultValue. defaultValue),
      GetIntValue = (\<lambda>apiValue defaultValue. defaultValue)\<rparr>"

text \<open>A model response whose fields are all empty.\<close>

definition exampleModelResponse :: model_response where
  "exampleModelResponse =
     \<lparr>resp_ModelName = [],
      resp_LiteLLMParams =
        \<lparr>lp_CustomLLMProvider = [], lp_TPM = 0, lp_RPM = 0, lp_APIBase = [],
         lp_APIVersion = [], lp_AWSRegionName = [], lp_Thinking = None,
         lp_MergeReasoningContentInChoices = False\<rparr>,
      resp_ModelInfo =
        \<lparr>mi_ID = [], mi_DBModel = False, mi_BaseModel = [], mi_Tier = [], mi_Mode = [],
         mi_TeamID = []\<rparr>\<rparr>"

definition exampleModelState :: model_state where
  "exampleModelState =
     \<lparr>d = \<lparr>rid = ''model-1'',
            attrs =
              \<lparr>model_name = ''gpt-4o'', custom_llm_provider = ''openai'',
               base_model = ''gpt-4o'', tier = ''free'', mode = ''chat'', team_id = [],
               tpm = 100, rpm = 0, model_api_key = [], model_api_base = [],
               api_version = [],
               input_cost_per_million_tokens = 0, output_cost_per_million_tokens = 0,
               input_cost_per_pixel = 0, output_cost_per_pixel = 0,
               input_cost_per_second = 0, output_cost_per_second = 0,
               aws_access_key_id = [], aws_secret_access_key = [], aws_region_name = [],
               aws_session_name = [], aws_role_name = [], vertex_project = [],
               vertex_location = [], vertex_credentials = [], reasoning_effort = [],
               thinking_enabled = False, thinking_budget_tokens = 0,
               merge_reasoning_content_in_choices = False,
               additional_litellm_params =
                 [(''user_tag'', VString ''null''),
                  (''additional_drop_params'', VString dropListText),
                  (''max_retries'', VString ''42'')]\<rparr>,
            Set_rejected = (\<lambda>v held. held)\<rparr>,
      sent = [], slept = [], uuids_used = 0\<rparr>"

text \<open>A server whose response handler reports \<open>model_not_found\<close> on every request.\<close>

definition modelServerGone :: "('b, model_response) client" where
  "modelServerGone n req = Reply 404 (Inl ''model_not_found'')"

text \<open>A server whose response handler reports another not-found error on every request.\<close>

definition modelServerNotFound :: "('b, model_response) client" where
  "modelServerNotFound n req = Reply 404 (Inl ''API request failed: model not found'')"

text \<open>The same for the first \<open>k\<close> requests, and a server error from then on.\<close>

definition modelServerNotFoundThen500 :: "nat \<Rightarrow> ('b, model_response) client" where
  "modelServerNotFoundThen500 k n req =
     (if n < k then Reply 404 (Inl ''API request failed: model not found'')
      else Reply 500 (Inl ''API request failed: 500''))"

text \<open>
  A server on which the model to update is gone: the handler reports \<open>model_not_found\<close> on
  the first request and every later request succeeds.
\<close>

definition modelServerRecreate :: "('b, model_response) client" where
  "modelServerRecreate n req =
     (if n = 0 then Reply 404 (Inl ''model_not_found'') else Reply 200 (Inr exampleModelResponse))"

text \<open>
  A server on which the model to update is gone and the model created in its place is not
  yet visible: the handler reports \<open>model_not_found\<close> on the first request (the update),
  accepts the second (the create) and reports \<open>model_not_found\<close> on every later one (the
  reads).
\<close>

definition modelServerRecreateThenGone :: "('b, model_response) client" where
  "modelServerRecreateThenGone n req =
     (if n = 1 then Reply 200 (Inr exampleModelResponse)
      else Reply 404 (Inl ''model_not_found''))"

text \<open>
  The prefixes with which the operations of the two resources wrap an error
  (\<open>fmt.Errorf("failed to ... : %w", err)\<close>), and whether a message starts with one.
\<close>

definition operationPrefixes :: "string list" where
  "operationPrefixes =
     [''failed to create credential: '', ''failed to read credential: '',
      ''failed to update credential: '', ''failed to delete credential: '',
      ''failed to create model: '', ''failed to read model: '',
      ''failed to update model: '', ''failed to delete model: '']"

definition hasOperationPrefix :: "string \<Rightarrow> bool" where
  "hasOperationPrefix msg = list_ex (HasPrefix msg) operationPrefixes"

text \<open>A model server that accepts the first request (the write) and reports a not-found
  error on every read after it.\<close>

definition modelServerThenNotFound :: "('b, model_response) client" where
  "modelServerThenNotFound n req =
     (if n = 0 then Reply 200 (Inr exampleModelResponse)
      else Reply 404 (Inl ''API request failed: model not found''))"

section \<open>Coercion of the additional parameters\<close>

text \<open>The test with which the loop decides to try a string as JSON.\<close>

definition looksLikeJSON :: "externals \<Rightarrow> string \<Rightarrow> bool" where
  "looksLikeJSON ext strValue =
     (HasPrefix (strings_TrimSpace ext strValue) ''['' \<or>
      HasPrefix (strings_TrimSpace ext strValue) ''{'')"

text \<open>
  The coercion in the words of the specification: a string value is first tried as JSON,
  then as the boolean literals, then as an integer, then as a float, else it stays a string.
\<close>

definition specCoerce :: "externals \<Rightarrow> string \<Rightarrow> go_value" where
  "specCoerce ext strValue =
     (case json_Unmarshal ext strValue of
        Some parsedValue \<Rightarrow> parsedValue
      | None \<Rightarrow>
          if strValue = ''true'' then VBool True
          else if strValue = ''false'' then VBool False
          else (case strconv_Atoi ext strValue of
                  Some intValue \<Rightarrow> VInt intValue
                | None \<Rightarrow>
                    (case strconv_ParseFloat ext strValue of
                       Some floatValue \<Rightarrow> VFloat floatValue
                     | None \<Rightarrow> VString strValue)))"

text \<open>The drop list that the loop over the additional parameters of \<open>a\<close> has collected.\<close>

definition dropParamsOf :: "externals \<Rightarrow> model_attrs \<Rightarrow> string list" where
  "dropParamsOf ext a =
     snd (mergeAdditionalParams ext (additional_litellm_params a) (baseLitellmParams ext a, []))"

section \<open>Strings and delays\<close>

declare retryCredentialRead_loop.simps [simp del]

declare retryModelRead_loop.simps [simp del]

declare createOrUpdateModel.simps [simp del]

lemma HasPrefix_iff: "HasPrefix s p \<longleftrightarrow> (\<exists>t. s = p @ t)"
  by (induction s p rule: HasPrefix.induct) auto

lemma Contains_iff: "Contains s sub \<longleftrightarrow> (\<exists>xs ys. s = xs @ sub @ ys)"
proof (induction s)
  case Nil
  then show ?case by auto
next
  case (Cons c cs)
  show ?case
  proof
    assume "Contains (c # cs) sub"
    then consider "HasPrefix (c # cs) sub" | "Contains cs sub" by auto
    then show "\<exists>xs ys. c # cs = xs @ sub @ ys"
    proof cases
      case 1
      then obtain t where "c # cs = sub @ t" by (auto simp: HasPrefix_iff)
      then have "c # cs = [] @ sub @ t" by simp
      then show ?thesis by blast
    next
      case 2
      then obtain xs ys where "cs = xs @ sub @ ys" using Cons.IH by auto
      then have "c # cs = (c # xs) @ sub @ ys" by simp
      then show ?thesis by blast
    qed
  next
    assume "\<exists>xs ys. c # cs = xs @ sub @ ys"
    then obtain xs ys where e: "c # cs = xs @ sub @ ys" by blast
    show "Contains (c # cs) sub"
    proof (cases xs)
      case Nil
      then have "HasPrefix (c # cs) sub" using e by (auto simp: HasPrefix_iff)
      then show ?thesis by simp
    next
      case (Cons x xs')
      then have "cs = xs' @ sub @ ys" using e by simp
      then have "Contains cs sub" using Cons.IH by blast
      then show ?thesis by simp
    qed
  qed
qed

lemma Contains_append_left: "Contains e sub \<Longrightarrow> Contains (p @ e) sub"
  unfolding Contains_iff
  by (metis append.assoc)

lemma nextDelay_min:
  assumes "0 \<le> delay" "delay \<le> maxDelay"
  shows "nextDelay delay = min (delay * 2) maxDelay"
proof -
  have "delay * 2 < 2 ^ 63" using assms by (simp add: maxDelay_def Second_def)
  then have "wrap64 (delay * 2) = delay * 2"
    using assms(1) by (simp add: wrap64_def)
  then show ?thesis by (simp add: nextDelay_def min_def)
qed

lemma nextDelay_bounds:
  assumes "0 \<le> delay" "delay \<le> maxDelay"
  shows "delay \<le> nextDelay delay" "nextDelay delay \<le> maxDelay" "0 \<le> nextDelay delay"
  using assms by (simp_all add: nextDelay_min min_def)

lemma backoffDelays_length [simp]: "length (backoffDelays delay n) = n"
  by (induction n arbitrary: delay) auto

lemma backoffDelays_snoc:
  "backoffDelays delay (Suc n) = backoffDelays delay n @ [(nextDelay ^^ n) delay]"
proof (induction n arbitrary: delay)
  case 0
  then show ?case by simp
next
  case (Suc n)
  have "backoffDelays delay (Suc (Suc n)) = delay # backoffDelays (nextDelay delay) (Suc n)"
    by simp
  also have "\<dots> = delay # (backoffDelays (nextDelay delay) n @ [(nextDelay ^^ n) (nextDelay delay)])"
    using Suc.IH by simp
  also have "\<dots> = backoffDelays delay (Suc n) @ [(nextDelay ^^ Suc n) delay]"
    by (simp add: funpow_swap1)
  finally show ?case .
qed

lemma backoffDelays_range:
  assumes "0 \<le> delay" "delay \<le> maxDelay" "x \<in> set (backoffDelays delay n)"
  shows "delay \<le> x \<and> x \<le> maxDelay"
  using assms
proof (induction n arbitrary: delay)
  case 0
  then show ?case by simp
next
  case (Suc n)
  from Suc.prems(3) consider "x = delay" | "x \<in> set (backoffDelays (nextDelay delay) n)"
    by auto
  then show ?case
  proof cases
    case 1
    then show ?thesis using Suc.prems by simp
  next
    case 2
    have "nextDelay delay \<le> x \<and> x \<le> maxDelay"
      using Suc.IH [OF nextDelay_bounds(3) nextDelay_bounds(2) 2] Suc.prems by simp
    then show ?thesis using nextDelay_bounds(1) [OF Suc.prems(1,2)] by linarith
  qed
qed

lemma backoffDelays_sorted:
  assumes "0 \<le> delay" "delay \<le> maxDelay"
  shows "sorted (backoffDelays delay n)"
  using assms
proof (induction n arbitrary: delay)
  case 0
  then show ?case by simp
next
  case (Suc n)
  have nd: "0 \<le> nextDelay delay" "nextDelay delay \<le> maxDelay" "delay \<le> nextDelay delay"
    using nextDelay_bounds [OF Suc.prems] by simp_all
  have "\<forall>x \<in> set (backoffDelays (nextDelay delay) n). delay \<le> x"
    using backoffDelays_range [OF nd(1) nd(2)] nd(3) by fastforce
  then show ?case using Suc.IH [OF nd(1) nd(2)] by simp
qed

lemma backoffDelays_nth:
  assumes "0 < delay" "delay \<le> maxDelay" "k < n"
  shows "backoffDelays delay n ! k = min (delay * 2 ^ k) maxDelay"
  using assms
proof (induction n arbitrary: delay k)
  case 0
  then show ?case by simp
next
  case (Suc n)
  show ?case
  proof (cases k)
    case 0
    then show ?thesis using Suc.prems by simp
  next
    case (Suc j)
    have nd: "0 < nextDelay delay" "nextDelay delay \<le> maxDelay"
      using nextDelay_bounds [of delay] Suc.prems by simp_all
    have j: "j < n" using Suc.prems(3) Suc by simp
    have "backoffDelays delay (Suc n) ! k = backoffDelays (nextDelay delay) n ! j"
      using Suc by simp
    also have "\<dots> = min (nextDelay delay * 2 ^ j) maxDelay"
      by (rule Suc.IH [OF nd j])
    also have "\<dots> = min (delay * 2 ^ k) maxDelay"
    proof (cases "delay * 2 \<le> maxDelay")
      case True
      then have "nextDelay delay = delay * 2"
        using Suc.prems by (simp add: nextDelay_min)
      then show ?thesis using Suc by (simp add: mult.assoc)
    next
      case False
      then have nm: "nextDelay delay = maxDelay"
        using Suc.prems by (simp add: nextDelay_min)
      have p: "(1::int) \<le> 2 ^ j" by simp
      have "maxDelay * 1 \<le> maxDelay * 2 ^ j"
        using p Suc.prems by (intro mult_left_mono) auto
      then have a: "min (maxDelay * 2 ^ j) maxDelay = maxDelay" by simp
      have "delay * 2 * 1 \<le> delay * 2 * 2 ^ j"
        using p Suc.prems by (intro mult_left_mono) auto
      then have "maxDelay < delay * 2 ^ k" using False Suc by (simp add: mult.assoc)
      then show ?thesis using nm a by simp
    qed
    finally show ?thesis .
  qed
qed

section \<open>The credential read and its retry loop\<close>

lemma credentialClears_error:
  "credentialClears r \<Longrightarrow> credentialReadError r = None"
  by (auto simp: credentialClears_def credentialReadError_def split: http_result.splits)

lemma credentialReadData_clears:
  "credentialClears r \<Longrightarrow> credentialReadData r d0 = d0\<lparr>rid := []\<rparr>"
  by (simp add: credentialReadData_def)

lemma credentialReadData_error:
  "credentialReadError r = Some e \<Longrightarrow> credentialReadData r d0 = d0"
  by (auto simp: credentialReadData_def credentialClears_def credentialReadError_def
      split: http_result.splits sum.splits if_splits)

lemma Set_credential_frame:
  "rid (Set_credential_name v d0) = rid d0"
  "rid (Set_credential_info w d0) = rid d0"
  "Set_rejected (Set_credential_name v d0) = Set_rejected d0"
  "Set_rejected (Set_credential_info w d0) = Set_rejected d0"
  "credential_values (attrs (Set_credential_name v d0)) = credential_values (attrs d0)"
  "credential_values (attrs (Set_credential_info w d0)) = credential_values (attrs d0)"
  "model_id (attrs (Set_credential_name v d0)) = model_id (attrs d0)"
  "model_id (attrs (Set_credential_info w d0)) = model_id (attrs d0)"
  by (simp_all add: Set_credential_name_def Set_credential_info_def)

lemma credentialReadData_rid:
  "\<not> credentialClears r \<Longrightarrow> rid (credentialReadData r d0) = rid d0"
  by (auto simp: credentialReadData_def Set_credential_frame
      split: http_result.splits sum.splits)

lemma credentialReadData_frame:
  "credential_values (attrs (credentialReadData r d0)) = credential_values (attrs d0)"
  "model_id (attrs (credentialReadData r d0)) = model_id (attrs d0)"
  by (auto simp: credentialReadData_def Set_credential_frame
      split: http_result.splits sum.splits)

lemma credential_read_cases:
  obtains req where
    "resourceLiteLLMCredentialRead m st =
       (credentialReadError (m (length (sent st)) req),
        st\<lparr>d := credentialReadData (m (length (sent st)) req) (d st),
           sent := sent st @ [req]\<rparr>)"
    "req_method req = ''GET''" "req_body req = None"
proof -
  let ?ep = "if model_id (attrs (d st)) \<noteq> []
             then (''/credentials/by_name/'' @ rid (d st)) @ ''?model_id='' @ model_id (attrs (d st))
             else ''/credentials/by_name/'' @ rid (d st)"
  let ?req = "\<lparr>req_method = ''GET'', req_endpoint = ?ep, req_body = None\<rparr> :: 'a request"
  have "resourceLiteLLMCredentialRead m st =
       (credentialReadError (m (length (sent st)) ?req),
        st\<lparr>d := credentialReadData (m (length (sent st)) ?req) (d st),
           sent := sent st @ [?req]\<rparr>)"
    by (simp add: resourceLiteLLMCredentialRead_def MakeRequest_def credentialReadError_def
        credentialReadData_def credentialClears_def SetId_def Let_def
        split: http_result.splits sum.splits)
  then show ?thesis using that [of ?req] by simp
qed

lemma credential_attempt_notfound:
  assumes "rid (d st) = origID"
    and "\<forall>req. credentialNotFound (m (length (sent st)) req)"
  shows "\<exists>msg st'. credentialReadAttempt m origID st = (Some msg, st') \<and>
           Contains msg ''credential_not_found'' \<and> d st' = d st \<and>
           length (sent st') = Suc (length (sent st)) \<and> slept st' = slept st \<and>
           uuids_used st' = uuids_used st \<and>
           (\<exists>req. credentialAttemptError (m (length (sent st)) req) = Some msg)"
proof -
  obtain req where r: "resourceLiteLLMCredentialRead m st =
       (credentialReadError (m (length (sent st)) req),
        st\<lparr>d := credentialReadData (m (length (sent st)) req) (d st),
           sent := sent st @ [req]\<rparr>)"
    by (rule credential_read_cases)
  have nf: "credentialNotFound (m (length (sent st)) req)" using assms(2) by simp
  show ?thesis
  proof (cases "credentialClears (m (length (sent st)) req)")
    case True
    then have "credentialReadAttempt m origID st =
        (Some ''credential_not_found'', st\<lparr>sent := sent st @ [req]\<rparr>)"
      using r assms(1)
      by (simp add: credentialReadAttempt_def SetId_def credentialClears_error
          credentialReadData_clears)
    moreover have "credentialAttemptError (m (length (sent st)) req) = Some ''credential_not_found''"
      using True by (simp add: credentialAttemptError_def)
    ultimately show ?thesis by auto
  next
    case False
    then obtain msg where msg: "credentialReadError (m (length (sent st)) req) = Some msg"
      "Contains msg ''credential_not_found''"
      using nf by (auto simp: credentialNotFound_def split: option.splits)
    then have "credentialReadAttempt m origID st = (Some msg, st\<lparr>sent := sent st @ [req]\<rparr>)"
      using r by (simp add: credentialReadAttempt_def credentialReadData_error)
    moreover have "credentialAttemptError (m (length (sent st)) req) = Some msg"
      using False msg by (simp add: credentialAttemptError_def)
    ultimately show ?thesis using msg(2) by auto
  qed
qed

lemma credential_attempt_error:
  assumes "\<forall>req. credentialReadError (m (length (sent st)) req) = Some e"
  shows "\<exists>st'. credentialReadAttempt m origID st = (Some e, st') \<and> d st' = d st \<and>
           length (sent st') = Suc (length (sent st)) \<and> slept st' = slept st \<and>
           uuids_used st' = uuids_used st"
proof -
  obtain req where r: "resourceLiteLLMCredentialRead m st =
       (credentialReadError (m (length (sent st)) req),
        st\<lparr>d := credentialReadData (m (length (sent st)) req) (d st),
           sent := sent st @ [req]\<rparr>)"
    by (rule credential_read_cases)
  have e: "credentialReadError (m (length (sent st)) req) = Some e" using assms by simp
  show ?thesis using r e
    by (simp add: credentialReadAttempt_def credentialReadData_error)
qed

lemma credential_attempt_general:
  assumes "credentialReadAttempt m origID st = (err, st')"
  shows "length (sent st') = Suc (length (sent st))"
    and "slept st' = slept st"
    and "uuids_used st' = uuids_used st"
    and "rid (d st) = origID \<Longrightarrow> rid (d st') = origID"
    and "err = None \<Longrightarrow> rid (d st') \<noteq> []"
    and "credential_values (attrs (d st')) = credential_values (attrs (d st))"
    and "model_id (attrs (d st')) = model_id (attrs (d st))"
proof -
  obtain req where r: "resourceLiteLLMCredentialRead m st =
       (credentialReadError (m (length (sent st)) req),
        st\<lparr>d := credentialReadData (m (length (sent st)) req) (d st),
           sent := sent st @ [req]\<rparr>)"
    by (rule credential_read_cases)
  let ?r = "m (length (sent st)) req"
  let ?st1 = "st\<lparr>d := credentialReadData ?r (d st), sent := sent st @ [req]\<rparr>"
  let ?c = "credentialReadError ?r = None \<and> rid (credentialReadData ?r (d st)) = []"
  have st': "st' = (if ?c then SetId origID ?st1 else ?st1)"
    and err: "err = (if ?c then Some ''credential_not_found'' else credentialReadError ?r)"
    using assms r by (auto simp: credentialReadAttempt_def split: if_splits)
  show "length (sent st') = Suc (length (sent st))"
    using st' by (simp add: SetId_def)
  show "slept st' = slept st"
    using st' by (simp add: SetId_def)
  show "uuids_used st' = uuids_used st"
    using st' by (simp add: SetId_def)
  show "rid (d st) = origID \<Longrightarrow> rid (d st') = origID"
    using st' credentialClears_error [of ?r] credentialReadData_rid [of ?r "d st"]
    by (cases "credentialClears ?r") (auto simp: SetId_def credentialReadData_clears)
  show "err = None \<Longrightarrow> rid (d st') \<noteq> []"
    using st' err by (auto split: if_splits)
  show "credential_values (attrs (d st')) = credential_values (attrs (d st))"
    using st' by (simp add: SetId_def credentialReadData_frame)
  show "model_id (attrs (d st')) = model_id (attrs (d st))"
    using st' by (simp add: SetId_def credentialReadData_frame)
qed

lemma credential_loop_exit:
  "\<not> i < maxRetries \<Longrightarrow> retryCredentialRead_loop m maxRetries origID i delay err st = (err, st)"
  by (subst retryCredentialRead_loop.simps) simp

lemma credential_loop_success:
  assumes "i < maxRetries" "credentialReadAttempt m origID st = (None, st')"
  shows "retryCredentialRead_loop m maxRetries origID i delay err st = (None, st')"
  using assms by (subst retryCredentialRead_loop.simps) simp

lemma credential_loop_fatal:
  assumes "i < maxRetries" "credentialReadAttempt m origID st = (Some msg, st')"
    "\<not> Contains msg ''credential_not_found''"
  shows "retryCredentialRead_loop m maxRetries origID i delay err st = (Some msg, st')"
  using assms by (subst retryCredentialRead_loop.simps) simp

lemma credential_loop_retry:
  assumes "i < maxRetries - 1" "credentialReadAttempt m origID st = (Some msg, st')"
    "Contains msg ''credential_not_found''"
  shows "retryCredentialRead_loop m maxRetries origID i delay err st =
         retryCredentialRead_loop m maxRetries origID (i + 1) (nextDelay delay) (Some msg)
           (Sleep delay st')"
  using assms by (subst retryCredentialRead_loop.simps) simp

lemma credential_loop_last:
  assumes "i = maxRetries - 1" "credentialReadAttempt m origID st = (Some msg, st')"
    "Contains msg ''credential_not_found''"
  shows "retryCredentialRead_loop m maxRetries origID i delay err st = (Some msg, st')"
  using assms
  by (subst retryCredentialRead_loop.simps) (simp add: credential_loop_exit)

lemma credential_loop_all_notfound:
  assumes "nat (maxRetries - i) = Suc n" "rid (d st) = origID"
    and "\<forall>j \<le> n. \<forall>req. credentialNotFound (m (length (sent st) + j) req)"
  shows "\<exists>msg st'. retryCredentialRead_loop m maxRetries origID i delay err st = (Some msg, st') \<and>
           Contains msg ''credential_not_found'' \<and> d st' = d st \<and>
           length (sent st') = length (sent st) + Suc n \<and>
           slept st' = slept st @ backoffDelays delay n \<and>
           uuids_used st' = uuids_used st \<and>
           (\<exists>req. credentialAttemptError (m (length (sent st) + n) req) = Some msg)"
  using assms
proof (induction n arbitrary: i delay err st)
  case 0
  then have i: "i = maxRetries - 1" by linarith
  have "\<forall>req. credentialNotFound (m (length (sent st)) req)" using "0.prems"(3) by simp
  from credential_attempt_notfound [where m = m and st = st and origID = origID,
      OF "0.prems"(2) this]
  obtain msg st' where a: "credentialReadAttempt m origID st = (Some msg, st')"
    "Contains msg ''credential_not_found''" "d st' = d st"
    "length (sent st') = Suc (length (sent st))" "slept st' = slept st"
    "uuids_used st' = uuids_used st"
    "\<exists>req. credentialAttemptError (m (length (sent st)) req) = Some msg"
    by blast
  show ?case using credential_loop_last [OF i a(1) a(2)] a by simp
next
  case (Suc n)
  then have i: "i < maxRetries - 1" by linarith
  have "\<forall>req. credentialNotFound (m (length (sent st)) req)"
    using Suc.prems(3) by (metis add.right_neutral le0)
  from credential_attempt_notfound [where m = m and st = st and origID = origID,
      OF Suc.prems(2) this]
  obtain msg st1 where a: "credentialReadAttempt m origID st = (Some msg, st1)"
    "Contains msg ''credential_not_found''" "d st1 = d st"
    "length (sent st1) = Suc (length (sent st))" "slept st1 = slept st"
    "uuids_used st1 = uuids_used st"
    by blast
  let ?st2 = "Sleep delay st1"
  have n: "nat (maxRetries - (i + 1)) = Suc n" using Suc.prems(1) by linarith
  have o: "rid (d ?st2) = origID" using a(3) Suc.prems(2) by (simp add: Sleep_def)
  have h: "\<forall>j \<le> n. \<forall>req. credentialNotFound (m (length (sent ?st2) + j) req)"
  proof (intro allI impI)
    fix j req
    assume "j \<le> n"
    then have "Suc j \<le> Suc n" by simp
    then have "credentialNotFound (m (length (sent st) + Suc j) req)"
      using Suc.prems(3) by blast
    then show "credentialNotFound (m (length (sent ?st2) + j) req)"
      using a(4) by (simp add: Sleep_def)
  qed
  from Suc.IH [OF n o h, of "nextDelay delay" "Some msg"]
  obtain msg' st' where b:
    "retryCredentialRead_loop m maxRetries origID (i + 1) (nextDelay delay) (Some msg) ?st2
       = (Some msg', st')"
    "Contains msg' ''credential_not_found''" "d st' = d ?st2"
    "length (sent st') = length (sent ?st2) + Suc n"
    "slept st' = slept ?st2 @ backoffDelays (nextDelay delay) n"
    "uuids_used st' = uuids_used ?st2"
    "\<exists>req. credentialAttemptError (m (length (sent ?st2) + n) req) = Some msg'"
    by blast
  have "\<exists>req. credentialAttemptError (m (length (sent st) + Suc n) req) = Some msg'"
    using b(7) a(4) by (simp add: Sleep_def)
  then show ?case
    using credential_loop_retry [OF i a(1) a(2)] a(3-6) b(1-6) by (simp add: Sleep_def)
qed

lemma credential_loop_fatal_at:
  assumes "int k < maxRetries - i" "rid (d st) = origID"
    and "\<forall>j < k. \<forall>req. credentialNotFound (m (length (sent st) + j) req)"
    and "\<forall>req. credentialReadError (m (length (sent st) + k) req) = Some e"
    and "\<not> Contains e ''credential_not_found''"
  shows "\<exists>st'. retryCredentialRead_loop m maxRetries origID i delay err st = (Some e, st') \<and>
           d st' = d st \<and>
           length (sent st') = length (sent st) + Suc k \<and>
           slept st' = slept st @ backoffDelays delay k \<and>
           uuids_used st' = uuids_used st"
  using assms(1-4)
proof (induction k arbitrary: i delay err st)
  case 0
  then have i: "i < maxRetries" by simp
  have "\<forall>req. credentialReadError (m (length (sent st)) req) = Some e"
    using "0.prems"(4) by simp
  from credential_attempt_error [where m = m and st = st and e = e and origID = origID,
      OF this]
  obtain st' where a: "credentialReadAttempt m origID st = (Some e, st')" "d st' = d st"
    "length (sent st') = Suc (length (sent st))" "slept st' = slept st"
    "uuids_used st' = uuids_used st"
    by blast
  show ?case using credential_loop_fatal [OF i a(1) assms(5)] a by simp
next
  case (Suc k)
  then have i: "i < maxRetries - 1" by linarith
  have "\<forall>req. credentialNotFound (m (length (sent st)) req)"
    using Suc.prems(3) by (metis add.right_neutral zero_less_Suc)
  from credential_attempt_notfound [where m = m and st = st and origID = origID,
      OF Suc.prems(2) this]
  obtain msg st1 where a: "credentialReadAttempt m origID st = (Some msg, st1)"
    "Contains msg ''credential_not_found''" "d st1 = d st"
    "length (sent st1) = Suc (length (sent st))" "slept st1 = slept st"
    "uuids_used st1 = uuids_used st"
    by blast
  let ?st2 = "Sleep delay st1"
  have n: "int k < maxRetries - (i + 1)" using Suc.prems(1) by linarith
  have o: "rid (d ?st2) = origID" using a(3) Suc.prems(2) by (simp add: Sleep_def)
  have h: "\<forall>j < k. \<forall>req. credentialNotFound (m (length (sent ?st2) + j) req)"
  proof (intro allI impI)
    fix j req
    assume "j < k"
    then have "Suc j < Suc k" by simp
    then have "credentialNotFound (m (length (sent st) + Suc j) req)"
      using Suc.prems(3) by blast
    then show "credentialNotFound (m (length (sent ?st2) + j) req)"
      using a(4) by (simp add: Sleep_def)
  qed
  have f: "\<forall>req. credentialReadError (m (length (sent ?st2) + k) req) = Some e"
    using Suc.prems(4) a(4) by (simp add: Sleep_def)
  from Suc.IH [OF n o h f, of "nextDelay delay" "Some msg"]
  obtain st' where b:
    "retryCredentialRead_loop m maxRetries origID (i + 1) (nextDelay delay) (Some msg) ?st2
       = (Some e, st')"
    "d st' = d ?st2"
    "length (sent st') = length (sent ?st2) + Suc k"
    "slept st' = slept ?st2 @ backoffDelays (nextDelay delay) k"
    "uuids_used st' = uuids_used ?st2"
    by blast
  show ?case
    using credential_loop_retry [OF i a(1) a(2)] a b by (simp add: Sleep_def)
qed

lemma credential_loop_general:
  assumes "nat (maxRetries - i) = n"
  shows "(\<exists>k. slept (snd (retryCredentialRead_loop m maxRetries origID i delay err st))
               = slept st @ backoffDelays delay k) \<and>
    (if i < maxRetries
     then length (sent st) < length (sent (snd (retryCredentialRead_loop m maxRetries origID i delay err st)))
     else sent (snd (retryCredentialRead_loop m maxRetries origID i delay err st)) = sent st) \<and>
    (rid (d st) = origID \<longrightarrow>
         rid (d (snd (retryCredentialRead_loop m maxRetries origID i delay err st))) = origID) \<and>
    (i < maxRetries \<longrightarrow>
         fst (retryCredentialRead_loop m maxRetries origID i delay err st) = None \<longrightarrow>
         rid (d (snd (retryCredentialRead_loop m maxRetries origID i delay err st))) \<noteq> []) \<and>
    credential_values (attrs (d (snd (retryCredentialRead_loop m maxRetries origID i delay err st))))
         = credential_values (attrs (d st))"
  using assms
proof (induction n arbitrary: i delay err st)
  case 0
  then have e: "\<not> i < maxRetries" by simp
  have "slept st = slept st @ backoffDelays delay 0" by simp
  then show ?case using credential_loop_exit [OF e] e by (metis snd_conv)
next
  case (Suc n)
  then have i: "i < maxRetries" by linarith
  obtain e1 st1 where a: "credentialReadAttempt m origID st = (e1, st1)"
    by (cases "credentialReadAttempt m origID st")
  note g = credential_attempt_general [OF a]
  let ?res = "retryCredentialRead_loop m maxRetries origID i delay err st"
  consider (ok) "e1 = None"
    | (fatal) msg where "e1 = Some msg" "\<not> Contains msg ''credential_not_found''"
    | (last) msg where "e1 = Some msg" "Contains msg ''credential_not_found''" "i = maxRetries - 1"
    | (retry) msg where "e1 = Some msg" "Contains msg ''credential_not_found''" "i < maxRetries - 1"
    using i by (cases e1) force+
  then have "(\<exists>k. slept (snd ?res) = slept st @ backoffDelays delay k) \<and>
      length (sent st) < length (sent (snd ?res)) \<and>
      (rid (d st) = origID \<longrightarrow> rid (d (snd ?res)) = origID) \<and>
      (fst ?res = None \<longrightarrow> rid (d (snd ?res)) \<noteq> []) \<and>
      credential_values (attrs (d (snd ?res))) = credential_values (attrs (d st))"
  proof cases
    case ok
    then have "?res = (None, st1)" using credential_loop_success [OF i] a by simp
    moreover have "slept st = slept st @ backoffDelays delay 0" by simp
    ultimately show ?thesis using g ok by (metis fst_conv snd_conv lessI)
  next
    case fatal
    then have "?res = (Some msg, st1)" using credential_loop_fatal [OF i] a by simp
    moreover have "slept st = slept st @ backoffDelays delay 0" by simp
    ultimately show ?thesis using g by (metis fst_conv snd_conv lessI option.distinct(1))
  next
    case last
    then have "?res = (Some msg, st1)" using credential_loop_last a by simp
    moreover have "slept st = slept st @ backoffDelays delay 0" by simp
    ultimately show ?thesis using g by (metis fst_conv snd_conv lessI option.distinct(1))
  next
    case retry
    let ?st2 = "Sleep delay st1"
    let ?rec = "retryCredentialRead_loop m maxRetries origID (i + 1) (nextDelay delay) (Some msg) ?st2"
    have r: "?res = ?rec" using credential_loop_retry [OF retry(3)] a retry by simp
    have n: "nat (maxRetries - (i + 1)) = n" using Suc.prems by linarith
    have i1: "i + 1 < maxRetries" using retry(3) by simp
    note ih = Suc.IH [OF n, of "nextDelay delay" "Some msg" ?st2]
    obtain k where k: "slept (snd ?rec) = slept ?st2 @ backoffDelays (nextDelay delay) k"
      using ih by blast
    have "slept (snd ?res) = slept st @ backoffDelays delay (Suc k)"
      using k r g(2) by (simp add: Sleep_def)
    then have A: "\<exists>k. slept (snd ?res) = slept st @ backoffDelays delay k" by blast
    have "length (sent ?st2) < length (sent (snd ?rec))" using ih i1 by simp
    then have B: "length (sent st) < length (sent (snd ?res))"
      using r g(1) by (simp add: Sleep_def)
    have "rid (d ?st2) = origID \<longrightarrow> rid (d (snd ?rec)) = origID" using ih by blast
    then have C: "rid (d st) = origID \<longrightarrow> rid (d (snd ?res)) = origID"
      using r g(4) by (simp add: Sleep_def)
    have D: "fst ?res = None \<longrightarrow> rid (d (snd ?res)) \<noteq> []"
      using ih i1 r by simp
    have "credential_values (attrs (d (snd ?rec))) = credential_values (attrs (d ?st2))"
      using ih by blast
    then have E: "credential_values (attrs (d (snd ?res))) = credential_values (attrs (d st))"
      using r g(6) by (simp add: Sleep_def)
    show ?thesis using A B C D E by blast
  qed
  then show ?case using i by simp
qed

section \<open>The model read and its retry loop\<close>

lemma modelReadData_error:
  "modelReadError r = Some e \<Longrightarrow> modelReadData ext r d0 = d0"
  by (auto simp: modelReadData_def modelReadError_def
      split: http_result.splits sum.splits if_splits)

lemma modelReadData_rid:
  "rid (modelReadData ext r d0) = (if modelClears r then [] else rid d0)"
  by (auto simp: modelReadData_def modelClears_def split: http_result.splits sum.splits)

lemma modelClears_error:
  "modelClears r \<Longrightarrow> modelReadError r = None"
  by (auto simp: modelClears_def modelReadError_def split: http_result.splits sum.splits)

lemma model_read_not_client:
  "resourceLiteLLMModelRead ext NotAClient st = (Some ''invalid type assertion for client'', st)"
  by (simp add: resourceLiteLLMModelRead_def)

lemma model_read_cases:
  obtains req where
    "resourceLiteLLMModelRead ext (Client c) st =
       (modelReadError (c (length (sent st)) req),
        st\<lparr>d := modelReadData ext (c (length (sent st)) req) (d st),
           sent := sent st @ [req]\<rparr>)"
    "req_method req = ''GET''" "req_body req = None"
proof -
  let ?req = "\<lparr>req_method = ''GET'',
               req_endpoint = endpointModelInfo @ ''?litellm_model_id='' @ rid (d st),
               req_body = None\<rparr> :: model_request request"
  have "resourceLiteLLMModelRead ext (Client c) st =
       (modelReadError (c (length (sent st)) ?req),
        st\<lparr>d := modelReadData ext (c (length (sent st)) ?req) (d st),
           sent := sent st @ [?req]\<rparr>)"
    by (simp add: resourceLiteLLMModelRead_def MakeRequest_def modelReadError_def
        modelReadData_def SetId_def Let_def split: http_result.splits sum.splits)
  then show ?thesis using that [of ?req] by simp
qed

lemma model_read_general:
  assumes "resourceLiteLLMModelRead ext m st = (err, st')"
  shows "slept st' = slept st"
    and "uuids_used st' = uuids_used st"
    and "\<exists>reqs. sent st' = sent st @ reqs \<and> length reqs \<le> 1 \<and>
           (\<forall>r \<in> set reqs. req_method r = ''GET'')"
    and "err \<noteq> None \<Longrightarrow> d st' = d st"
    and "rid (d st') = rid (d st) \<or> rid (d st') = []"
proof -
  have "slept st' = slept st \<and> uuids_used st' = uuids_used st \<and>
    (\<exists>reqs. sent st' = sent st @ reqs \<and> length reqs \<le> 1 \<and>
           (\<forall>r \<in> set reqs. req_method r = ''GET'')) \<and>
    (err \<noteq> None \<longrightarrow> d st' = d st) \<and>
    (rid (d st') = rid (d st) \<or> rid (d st') = [])"
  proof (cases m)
    case NotAClient
    then have "st' = st" using assms by (simp add: model_read_not_client)
    then show ?thesis by simp
  next
    case (Client c)
    obtain req where r: "resourceLiteLLMModelRead ext (Client c) st =
       (modelReadError (c (length (sent st)) req),
        st\<lparr>d := modelReadData ext (c (length (sent st)) req) (d st),
           sent := sent st @ [req]\<rparr>)"
      and g: "req_method req = ''GET''"
      by (rule model_read_cases)
    let ?r = "c (length (sent st)) req"
    have st': "st' = st\<lparr>d := modelReadData ext ?r (d st), sent := sent st @ [req]\<rparr>"
      and err: "err = modelReadError ?r"
      using assms r Client by simp_all
    have "sent st' = sent st @ [req] \<and> length [req] \<le> 1 \<and>
           (\<forall>r \<in> set [req]. req_method r = ''GET'')"
      using st' g by simp
    then have A: "\<exists>reqs. sent st' = sent st @ reqs \<and> length reqs \<le> 1 \<and>
           (\<forall>r \<in> set reqs. req_method r = ''GET'')" by blast
    have B: "err \<noteq> None \<longrightarrow> d st' = d st"
      using st' err modelReadData_error [of ?r _ ext "d st"] by auto
    have C: "rid (d st') = rid (d st) \<or> rid (d st') = []"
      using st' by (simp add: modelReadData_rid)
    show ?thesis using A B C st' by simp
  qed
  then show "slept st' = slept st"
    and "uuids_used st' = uuids_used st"
    and "\<exists>reqs. sent st' = sent st @ reqs \<and> length reqs \<le> 1 \<and>
           (\<forall>r \<in> set reqs. req_method r = ''GET'')"
    and "err \<noteq> None \<Longrightarrow> d st' = d st"
    and "rid (d st') = rid (d st) \<or> rid (d st') = []"
    by blast+
qed

lemma model_read_notfound:
  assumes "\<forall>req. modelNotFound (c (length (sent st) + 0) req)"
  shows "\<exists>msg st'. resourceLiteLLMModelRead ext (Client c) st = (Some msg, st') \<and>
           isRetryableModelError (Some msg) \<and> d st' = d st \<and>
           length (sent st') = Suc (length (sent st)) \<and> slept st' = slept st \<and>
           uuids_used st' = uuids_used st \<and>
           (\<exists>req. modelReadError (c (length (sent st)) req) = Some msg)"
proof -
  obtain req where r: "resourceLiteLLMModelRead ext (Client c) st =
       (modelReadError (c (length (sent st)) req),
        st\<lparr>d := modelReadData ext (c (length (sent st)) req) (d st),
           sent := sent st @ [req]\<rparr>)"
    by (rule model_read_cases)
  have nf: "isRetryableModelError (modelReadError (c (length (sent st)) req))"
    using assms by (simp add: modelNotFound_def)
  then obtain msg where msg: "modelReadError (c (length (sent st)) req) = Some msg"
    by (cases "modelReadError (c (length (sent st)) req)")
      (auto simp: isRetryableModelError_def)
  have "resourceLiteLLMModelRead ext (Client c) st = (Some msg, st\<lparr>sent := sent st @ [req]\<rparr>)"
    using r msg by (simp add: modelReadData_error)
  moreover have "isRetryableModelError (Some msg)" using nf msg by simp
  ultimately show ?thesis using msg by auto
qed

lemma model_read_error:
  assumes "\<forall>req. modelReadError (c (length (sent st) + 0) req) = Some e"
  shows "\<exists>st'. resourceLiteLLMModelRead ext (Client c) st = (Some e, st') \<and> d st' = d st \<and>
           length (sent st') = Suc (length (sent st)) \<and> slept st' = slept st \<and>
           uuids_used st' = uuids_used st"
proof -
  obtain req where r: "resourceLiteLLMModelRead ext (Client c) st =
       (modelReadError (c (length (sent st)) req),
        st\<lparr>d := modelReadData ext (c (length (sent st)) req) (d st),
           sent := sent st @ [req]\<rparr>)"
    by (rule model_read_cases)
  have e: "modelReadError (c (length (sent st)) req) = Some e" using assms by simp
  show ?thesis using r e by (simp add: modelReadData_error)
qed

lemma model_loop_exit:
  "\<not> i < maxRetries \<Longrightarrow> retryModelRead_loop ext m maxRetries i delay err st = (err, st)"
  by (subst retryModelRead_loop.simps) simp

lemma model_loop_success:
  assumes "i < maxRetries" "resourceLiteLLMModelRead ext m st = (None, st')"
  shows "retryModelRead_loop ext m maxRetries i delay err st = (None, st')"
  using assms by (subst retryModelRead_loop.simps) simp

lemma model_loop_fatal:
  assumes "i < maxRetries" "resourceLiteLLMModelRead ext m st = (Some msg, st')"
    "\<not> isRetryableModelError (Some msg)"
  shows "retryModelRead_loop ext m maxRetries i delay err st = (Some msg, st')"
  using assms by (subst retryModelRead_loop.simps) simp

lemma model_loop_retry:
  assumes "i < maxRetries - 1" "resourceLiteLLMModelRead ext m st = (Some msg, st')"
    "isRetryableModelError (Some msg)"
  shows "retryModelRead_loop ext m maxRetries i delay err st =
         retryModelRead_loop ext m maxRetries (i + 1) (nextDelay delay) (Some msg)
           (Sleep delay st')"
  using assms by (subst retryModelRead_loop.simps) simp

lemma model_loop_last:
  assumes "i = maxRetries - 1" "resourceLiteLLMModelRead ext m st = (Some msg, st')"
    "isRetryableModelError (Some msg)"
  shows "retryModelRead_loop ext m maxRetries i delay err st = (Some msg, st')"
  using assms
  by (subst retryModelRead_loop.simps) (simp add: model_loop_exit)

lemma model_loop_all_notfound:
  assumes "nat (maxRetries - i) = Suc n"
    and "\<forall>j \<le> n. \<forall>req. modelNotFound (c (length (sent st) + j) req)"
  shows "\<exists>msg st'. retryModelRead_loop ext (Client c) maxRetries i delay err st = (Some msg, st') \<and>
           isRetryableModelError (Some msg) \<and> d st' = d st \<and>
           length (sent st') = length (sent st) + Suc n \<and>
           slept st' = slept st @ backoffDelays delay n \<and>
           uuids_used st' = uuids_used st \<and>
           (\<exists>req. modelReadError (c (length (sent st) + n) req) = Some msg)"
  using assms
proof (induction n arbitrary: i delay err st)
  case 0
  then have i: "i = maxRetries - 1" by linarith
  have "\<forall>req. modelNotFound (c (length (sent st) + 0) req)" using "0.prems"(2) by simp
  from model_read_notfound [where c = c and st = st and ext = ext, OF this]
  obtain msg st' where a: "resourceLiteLLMModelRead ext (Client c) st = (Some msg, st')"
    "isRetryableModelError (Some msg)" "d st' = d st"
    "length (sent st') = Suc (length (sent st))" "slept st' = slept st"
    "uuids_used st' = uuids_used st"
    "\<exists>req. modelReadError (c (length (sent st)) req) = Some msg"
    by blast
  show ?case using model_loop_last [OF i a(1) a(2)] a by simp
next
  case (Suc n)
  then have i: "i < maxRetries - 1" by linarith
  have "\<forall>req. modelNotFound (c (length (sent st) + 0) req)"
    using Suc.prems(2) by blast
  from model_read_notfound [where c = c and st = st and ext = ext, OF this]
  obtain msg st1 where a: "resourceLiteLLMModelRead ext (Client c) st = (Some msg, st1)"
    "isRetryableModelError (Some msg)" "d st1 = d st"
    "length (sent st1) = Suc (length (sent st))" "slept st1 = slept st"
    "uuids_used st1 = uuids_used st"
    by blast
  let ?st2 = "Sleep delay st1"
  have n: "nat (maxRetries - (i + 1)) = Suc n" using Suc.prems(1) by linarith
  have h: "\<forall>j \<le> n. \<forall>req. modelNotFound (c (length (sent ?st2) + j) req)"
  proof (intro allI impI)
    fix j req
    assume "j \<le> n"
    then have "Suc j \<le> Suc n" by simp
    then have "modelNotFound (c (length (sent st) + Suc j) req)"
      using Suc.prems(2) by blast
    then show "modelNotFound (c (length (sent ?st2) + j) req)"
      using a(4) by (simp add: Sleep_def)
  qed
  from Suc.IH [OF n h, of "nextDelay delay" "Some msg"]
  obtain msg' st' where b:
    "retryModelRead_loop ext (Client c) maxRetries (i + 1) (nextDelay delay) (Some msg) ?st2
       = (Some msg', st')"
    "isRetryableModelError (Some msg')" "d st' = d ?st2"
    "length (sent st') = length (sent ?st2) + Suc n"
    "slept st' = slept ?st2 @ backoffDelays (nextDelay delay) n"
    "uuids_used st' = uuids_used ?st2"
    "\<exists>req. modelReadError (c (length (sent ?st2) + n) req) = Some msg'"
    by blast
  have "\<exists>req. modelReadError (c (length (sent st) + Suc n) req) = Some msg'"
    using b(7) a(4) by (simp add: Sleep_def)
  then show ?case
    using model_loop_retry [OF i a(1) a(2)] a(3-6) b(1-6) by (simp add: Sleep_def)
qed

lemma model_loop_fatal_at:
  assumes "int k < maxRetries - i"
    and "\<forall>j < k. \<forall>req. modelNotFound (c (length (sent st) + j) req)"
    and "\<forall>req. modelReadError (c (length (sent st) + k) req) = Some e"
    and "\<not> isRetryableModelError (Some e)"
  shows "\<exists>st'. retryModelRead_loop ext (Client c) maxRetries i delay err st = (Some e, st') \<and>
           d st' = d st \<and>
           length (sent st') = length (sent st) + Suc k \<and>
           slept st' = slept st @ backoffDelays delay k \<and>
           uuids_used st' = uuids_used st"
  using assms(1-3)
proof (induction k arbitrary: i delay err st)
  case 0
  then have i: "i < maxRetries" by simp
  have "\<forall>req. modelReadError (c (length (sent st) + 0) req) = Some e"
    using "0.prems"(3) by simp
  from model_read_error [where c = c and st = st and e = e and ext = ext, OF this]
  obtain st' where a: "resourceLiteLLMModelRead ext (Client c) st = (Some e, st')" "d st' = d st"
    "length (sent st') = Suc (length (sent st))" "slept st' = slept st"
    "uuids_used st' = uuids_used st"
    by blast
  show ?case using model_loop_fatal [OF i a(1) assms(4)] a by simp
next
  case (Suc k)
  then have i: "i < maxRetries - 1" by linarith
  have "\<forall>req. modelNotFound (c (length (sent st) + 0) req)"
    using Suc.prems(2) by blast
  from model_read_notfound [where c = c and st = st and ext = ext, OF this]
  obtain msg st1 where a: "resourceLiteLLMModelRead ext (Client c) st = (Some msg, st1)"
    "isRetryableModelError (Some msg)" "d st1 = d st"
    "length (sent st1) = Suc (length (sent st))" "slept st1 = slept st"
    "uuids_used st1 = uuids_used st"
    by blast
  let ?st2 = "Sleep delay st1"
  have n: "int k < maxRetries - (i + 1)" using Suc.prems(1) by linarith
  have h: "\<forall>j < k. \<forall>req. modelNotFound (c (length (sent ?st2) + j) req)"
  proof (intro allI impI)
    fix j req
    assume "j < k"
    then have "Suc j < Suc k" by simp
    then have "modelNotFound (c (length (sent st) + Suc j) req)"
      using Suc.prems(2) by blast
    then show "modelNotFound (c (length (sent ?st2) + j) req)"
      using a(4) by (simp add: Sleep_def)
  qed
  have f: "\<forall>req. modelReadError (c (length (sent ?st2) + k) req) = Some e"
    using Suc.prems(3) a(4) by (simp add: Sleep_def)
  from Suc.IH [OF n h f, of "nextDelay delay" "Some msg"]
  obtain st' where b:
    "retryModelRead_loop ext (Client c) maxRetries (i + 1) (nextDelay delay) (Some msg) ?st2
       = (Some e, st')"
    "d st' = d ?st2"
    "length (sent st') = length (sent ?st2) + Suc k"
    "slept st' = slept ?st2 @ backoffDelays (nextDelay delay) k"
    "uuids_used st' = uuids_used ?st2"
    by blast
  show ?case
    using model_loop_retry [OF i a(1) a(2)] a b by (simp add: Sleep_def)
qed

lemma model_loop_general:
  assumes "nat (maxRetries - i) = n"
  shows "(\<exists>k. slept (snd (retryModelRead_loop ext m maxRetries i delay err st))
               = slept st @ backoffDelays delay k) \<and>
    (\<exists>reqs. sent (snd (retryModelRead_loop ext m maxRetries i delay err st)) = sent st @ reqs \<and>
        (\<forall>r \<in> set reqs. req_method r = ''GET'')) \<and>
    (rid (d (snd (retryModelRead_loop ext m maxRetries i delay err st))) = rid (d st) \<or>
     rid (d (snd (retryModelRead_loop ext m maxRetries i delay err st))) = []) \<and>
    uuids_used (snd (retryModelRead_loop ext m maxRetries i delay err st)) = uuids_used st"
  using assms
proof (induction n arbitrary: i delay err st)
  case 0
  then have e: "\<not> i < maxRetries" by simp
  have "slept st = slept st @ backoffDelays delay 0" by simp
  moreover have "sent st = sent st @ [] \<and> (\<forall>r \<in> set []. req_method r = ''GET'')" by simp
  ultimately show ?case using model_loop_exit [OF e] by (metis snd_conv)
next
  case (Suc n)
  then have i: "i < maxRetries" by linarith
  obtain e1 st1 where a: "resourceLiteLLMModelRead ext m st = (e1, st1)"
    by (cases "resourceLiteLLMModelRead ext m st")
  note g = model_read_general [OF a]
  obtain reqs1 where q1: "sent st1 = sent st @ reqs1" "\<forall>r \<in> set reqs1. req_method r = ''GET''"
    using g(3) by blast
  let ?res = "retryModelRead_loop ext m maxRetries i delay err st"
  consider (stop) "?res = (e1, st1)"
    | (retry) msg where "e1 = Some msg" "isRetryableModelError (Some msg)" "i < maxRetries - 1"
        "?res = retryModelRead_loop ext m maxRetries (i + 1) (nextDelay delay) (Some msg)
                  (Sleep delay st1)"
  proof (cases e1)
    case None
    have "?res = (None, st1)"
      by (rule model_loop_success [OF i]) (use a None in simp)
    then show ?thesis using that(1) None by simp
  next
    case (Some msg)
    show ?thesis
    proof (cases "isRetryableModelError (Some msg)")
      case False
      have "?res = (Some msg, st1)"
        by (rule model_loop_fatal [OF i _ False]) (use a Some in simp)
      then show ?thesis using that(1) Some by simp
    next
      case True
      show ?thesis
      proof (cases "i < maxRetries - 1")
        case lt: True
        have "?res = retryModelRead_loop ext m maxRetries (i + 1) (nextDelay delay) (Some msg)
                  (Sleep delay st1)"
          by (rule model_loop_retry [OF lt _ True]) (use a Some in simp)
        then show ?thesis using that(2) Some True lt by simp
      next
        case False
        then have l: "i = maxRetries - 1" using i by simp
        have "?res = (Some msg, st1)"
          by (rule model_loop_last [OF l _ True]) (use a Some in simp)
        then show ?thesis using that(1) Some by simp
      qed
    qed
  qed
  then show ?case
  proof cases
    case stop
    have "slept st1 = slept st @ backoffDelays delay 0" using g(1) by simp
    then show ?thesis using stop g(2,5) q1 by (metis snd_conv)
  next
    case retry
    let ?st2 = "Sleep delay st1"
    let ?rec = "retryModelRead_loop ext m maxRetries (i + 1) (nextDelay delay) (Some msg) ?st2"
    have n: "nat (maxRetries - (i + 1)) = n" using Suc.prems by linarith
    note ih = Suc.IH [OF n, of "nextDelay delay" "Some msg" ?st2]
    have dd: "d st1 = d st" using g(4) retry(1) by simp
    obtain k where k: "slept (snd ?rec) = slept ?st2 @ backoffDelays (nextDelay delay) k"
      using ih by blast
    have "slept (snd ?res) = slept st @ backoffDelays delay (Suc k)"
      using k retry(4) g(1) by (simp add: Sleep_def)
    then have A: "\<exists>k. slept (snd ?res) = slept st @ backoffDelays delay k" by blast
    obtain reqs2 where q2: "sent (snd ?rec) = sent ?st2 @ reqs2"
      "\<forall>r \<in> set reqs2. req_method r = ''GET''"
      using ih by blast
    have "sent (snd ?res) = sent st @ (reqs1 @ reqs2) \<and>
          (\<forall>r \<in> set (reqs1 @ reqs2). req_method r = ''GET'')"
      using q1 q2 retry(4) by (auto simp: Sleep_def)
    then have B: "\<exists>reqs. sent (snd ?res) = sent st @ reqs \<and>
        (\<forall>r \<in> set reqs. req_method r = ''GET'')" by blast
    have "rid (d (snd ?rec)) = rid (d ?st2) \<or> rid (d (snd ?rec)) = []" using ih by blast
    then have C: "rid (d (snd ?res)) = rid (d st) \<or> rid (d (snd ?res)) = []"
      using retry(4) dd by (simp add: Sleep_def)
    have "uuids_used (snd ?rec) = uuids_used ?st2" using ih by blast
    then have D: "uuids_used (snd ?res) = uuids_used st"
      using retry(4) g(2) by (simp add: Sleep_def)
    show ?thesis using A B C D by blast
  qed
qed

lemma retryModelRead_general:
  "(\<exists>k. slept (snd (retryModelRead ext m maxRetries st))
               = slept st @ (200 * Millisecond) # backoffDelays (500 * Millisecond) k) \<and>
    (\<exists>reqs. sent (snd (retryModelRead ext m maxRetries st)) = sent st @ reqs \<and>
        (\<forall>r \<in> set reqs. req_method r = ''GET'')) \<and>
    (rid (d (snd (retryModelRead ext m maxRetries st))) = rid (d st) \<or>
     rid (d (snd (retryModelRead ext m maxRetries st))) = []) \<and>
    uuids_used (snd (retryModelRead ext m maxRetries st)) = uuids_used st"
  using model_loop_general [where maxRetries = maxRetries and i = 0 and ext = ext and m = m
      and delay = "500 * Millisecond" and err = None and st = "Sleep (200 * Millisecond) st",
      OF refl]
  by (simp add: retryModelRead_def Sleep_def)

lemma backoffDelays_Suc_nth:
  "Suc k < n \<Longrightarrow> backoffDelays delay n ! Suc k = nextDelay (backoffDelays delay n ! k)"
proof (induction n arbitrary: delay k)
  case 0
  then show ?case by simp
next
  case (Suc n)
  show ?case
  proof (cases k)
    case 0
    then show ?thesis using Suc.prems by (cases n) simp_all
  next
    case (Suc j)
    then have "Suc j < n" using Suc.prems by simp
    then show ?thesis using Suc.IH [of j "nextDelay delay"] Suc by simp
  qed
qed

lemma backoffDelays_doubling:
  assumes "0 \<le> delay" "delay \<le> maxDelay" "Suc k < n"
  shows "backoffDelays delay n ! Suc k = min (backoffDelays delay n ! k * 2) maxDelay"
proof -
  have "backoffDelays delay n ! k \<in> set (backoffDelays delay n)"
    using assms(3) by simp
  then have "delay \<le> backoffDelays delay n ! k \<and> backoffDelays delay n ! k \<le> maxDelay"
    using backoffDelays_range [OF assms(1,2)] by blast
  then show ?thesis
    using backoffDelays_Suc_nth [OF assms(3)] nextDelay_min assms(1) by simp
qed

section \<open>Backoff sequences of the two reconcilers\<close>

lemma second_in_range: "0 < 1 * Second" "1 * Second \<le> maxDelay"
  by (simp_all add: Second_def maxDelay_def)

lemma half_second_in_range: "0 < 500 * Millisecond" "500 * Millisecond \<le> maxDelay"
  by (simp_all add: Millisecond_def Second_def maxDelay_def)

lemma backoffDelays_facts:
  assumes "0 < delay" "delay \<le> maxDelay"
  shows "sorted (backoffDelays delay n) \<and>
         (\<forall>x \<in> set (backoffDelays delay n). 0 < x \<and> x \<le> maxDelay) \<and>
         (\<forall>k. Suc k < length (backoffDelays delay n) \<longrightarrow>
            backoffDelays delay n ! Suc k = min (backoffDelays delay n ! k * 2) maxDelay)"
proof -
  have z: "0 \<le> delay" using assms(1) by simp
  have "sorted (backoffDelays delay n)" using backoffDelays_sorted [OF z assms(2)] .
  moreover have "\<forall>x \<in> set (backoffDelays delay n). 0 < x \<and> x \<le> maxDelay"
    using backoffDelays_range [OF z assms(2)] assms(1) by fastforce
  moreover have "\<forall>k. Suc k < length (backoffDelays delay n) \<longrightarrow>
            backoffDelays delay n ! Suc k = min (backoffDelays delay n ! k * 2) maxDelay"
    using backoffDelays_doubling [OF z assms(2)] by simp
  ultimately show ?thesis by blast
qed

section \<open>Create or update: the write step\<close>

lemma create_cases:
  obtains req where
    "createOrUpdateModel ext (Client c) False st =
       (case c (length (sent st)) req of
          TransportError e \<Rightarrow>
            (Some (''failed to create model: '' @ e),
             st\<lparr>uuids_used := Suc (uuids_used st), sent := sent st @ [req]\<rparr>)
        | Reply status (Inl e) \<Rightarrow>
            (Some (''failed to create model: '' @ e),
             st\<lparr>uuids_used := Suc (uuids_used st), sent := sent st @ [req]\<rparr>)
        | Reply status (Inr body) \<Rightarrow>
            retryModelRead ext (Client c) 8
              (st\<lparr>uuids_used := Suc (uuids_used st), sent := sent st @ [req],
                  d := (d st)\<lparr>rid := uuid_New ext (uuids_used st)\<rparr>\<rparr>))"
    "req_method req = ''POST''" "req_endpoint req = endpointModelNew"
    "req_body req = Some (buildModelRequest ext (attrs (d st)) (uuid_New ext (uuids_used st)))"
proof -
  let ?req = "\<lparr>req_method = ''POST'', req_endpoint = endpointModelNew,
      req_body = Some (buildModelRequest ext (attrs (d st)) (uuid_New ext (uuids_used st)))\<rparr>"
  have "createOrUpdateModel ext (Client c) False st =
       (case c (length (sent st)) ?req of
          TransportError e \<Rightarrow>
            (Some (''failed to create model: '' @ e),
             st\<lparr>uuids_used := Suc (uuids_used st), sent := sent st @ [?req]\<rparr>)
        | Reply status (Inl e) \<Rightarrow>
            (Some (''failed to create model: '' @ e),
             st\<lparr>uuids_used := Suc (uuids_used st), sent := sent st @ [?req]\<rparr>)
        | Reply status (Inr body) \<Rightarrow>
            retryModelRead ext (Client c) 8
              (st\<lparr>uuids_used := Suc (uuids_used st), sent := sent st @ [?req],
                  d := (d st)\<lparr>rid := uuid_New ext (uuids_used st)\<rparr>\<rparr>))"
    by (subst createOrUpdateModel.simps)
      (simp add: MakeRequest_def uuid_NewString_def operationName_def SetId_def Let_def
        split: http_result.splits sum.splits)
  then show ?thesis using that [of ?req] by simp
qed

lemma update_cases:
  obtains req where
    "createOrUpdateModel ext (Client c) True st =
       (case c (length (sent st)) req of
          TransportError e \<Rightarrow>
            (Some (''failed to update model: '' @ e), st\<lparr>sent := sent st @ [req]\<rparr>)
        | Reply status (Inl e) \<Rightarrow>
            if e = ''model_not_found''
            then createOrUpdateModel ext (Client c) False (st\<lparr>sent := sent st @ [req]\<rparr>)
            else (Some (''failed to update model: '' @ e), st\<lparr>sent := sent st @ [req]\<rparr>)
        | Reply status (Inr body) \<Rightarrow>
            retryModelRead ext (Client c) 8 (st\<lparr>sent := sent st @ [req]\<rparr>))"
    "req_method req = ''POST''" "req_endpoint req = endpointModelUpdate"
    "req_body req = Some (buildModelRequest ext (attrs (d st)) (rid (d st)))"
proof -
  let ?req = "\<lparr>req_method = ''POST'', req_endpoint = endpointModelUpdate,
      req_body = Some (buildModelRequest ext (attrs (d st)) (rid (d st)))\<rparr>"
  have "createOrUpdateModel ext (Client c) True st =
       (case c (length (sent st)) ?req of
          TransportError e \<Rightarrow>
            (Some (''failed to update model: '' @ e), st\<lparr>sent := sent st @ [?req]\<rparr>)
        | Reply status (Inl e) \<Rightarrow>
            if e = ''model_not_found''
            then createOrUpdateModel ext (Client c) False (st\<lparr>sent := sent st @ [?req]\<rparr>)
            else (Some (''failed to update model: '' @ e), st\<lparr>sent := sent st @ [?req]\<rparr>)
        | Reply status (Inr body) \<Rightarrow>
            retryModelRead ext (Client c) 8 (st\<lparr>sent := sent st @ [?req]\<rparr>))"
    by (subst createOrUpdateModel.simps)
      (simp add: MakeRequest_def uuid_NewString_def operationName_def SetId_def Let_def
        split: http_result.splits sum.splits)
  then show ?thesis using that [of ?req] by simp
qed

lemma writeNotFound_iff: "writeNotFound r \<longleftrightarrow> (\<exists>status. r = Reply status (Inl ''model_not_found''))"
  by (auto simp: writeNotFound_def split: http_result.splits sum.splits)

lemma writeOk_iff: "writeOk r \<longleftrightarrow> (\<exists>status body. r = Reply status (Inr body))"
  by (auto simp: writeOk_def split: http_result.splits sum.splits)

lemma create_sends_one_post:
  "\<exists>new gets. sent (snd (createOrUpdateModel ext (Client c) False st)) = sent st @ new # gets \<and>
     req_method new = ''POST'' \<and> req_endpoint new = endpointModelNew \<and>
     (\<forall>g \<in> set gets. req_method g = ''GET'')"
proof -
  obtain req where r: "createOrUpdateModel ext (Client c) False st =
       (case c (length (sent st)) req of
          TransportError e \<Rightarrow>
            (Some (''failed to create model: '' @ e),
             st\<lparr>uuids_used := Suc (uuids_used st), sent := sent st @ [req]\<rparr>)
        | Reply status (Inl e) \<Rightarrow>
            (Some (''failed to create model: '' @ e),
             st\<lparr>uuids_used := Suc (uuids_used st), sent := sent st @ [req]\<rparr>)
        | Reply status (Inr body) \<Rightarrow>
            retryModelRead ext (Client c) 8
              (st\<lparr>uuids_used := Suc (uuids_used st), sent := sent st @ [req],
                  d := (d st)\<lparr>rid := uuid_New ext (uuids_used st)\<rparr>\<rparr>))"
    and p: "req_method req = ''POST''" "req_endpoint req = endpointModelNew"
    by (rule create_cases)
  let ?st1 = "st\<lparr>uuids_used := Suc (uuids_used st), sent := sent st @ [req],
                  d := (d st)\<lparr>rid := uuid_New ext (uuids_used st)\<rparr>\<rparr>"
  obtain gets where g: "sent (snd (retryModelRead ext (Client c) 8 ?st1)) = sent ?st1 @ gets"
    "\<forall>g \<in> set gets. req_method g = ''GET''"
    using retryModelRead_general [of ext "Client c" 8 ?st1] by blast
  have "sent (snd (createOrUpdateModel ext (Client c) False st)) = sent st @ req # [] \<or>
        sent (snd (createOrUpdateModel ext (Client c) False st)) = sent st @ req # gets"
    using r g(1) by (auto split: http_result.splits sum.splits)
  then show ?thesis using p g(2) by (metis empty_iff empty_set)
qed

section \<open>The identifier across a reconciliation\<close>

lemma retryCredentialRead_keeps_identifier:
  "rid (d (snd (retryCredentialRead m maxRetries st))) = rid (d st) \<and>
   (1 \<le> maxRetries \<longrightarrow> fst (retryCredentialRead m maxRetries st) = None \<longrightarrow>
      rid (d (snd (retryCredentialRead m maxRetries st))) \<noteq> [])"
  using credential_loop_general [where maxRetries = maxRetries and i = 0 and m = m
      and origID = "rid (d st)" and delay = "1 * Second" and err = None and st = st, OF refl]
  unfolding retryCredentialRead_def by (auto split: if_splits)

lemma model_reconciler_accepts_cleared_identifier:
  assumes "1 \<le> maxRetries" "\<forall>req. modelClears (c (length (sent st)) req)"
  shows "\<exists>req. retryModelRead ext (Client c) maxRetries st =
           (None, st\<lparr>d := (d st)\<lparr>rid := []\<rparr>, sent := sent st @ [req],
                     slept := slept st @ [200 * Millisecond]\<rparr>)"
proof -
  let ?st0 = "Sleep (200 * Millisecond) st"
  obtain req where r: "resourceLiteLLMModelRead ext (Client c) ?st0 =
       (modelReadError (c (length (sent ?st0)) req),
        ?st0\<lparr>d := modelReadData ext (c (length (sent ?st0)) req) (d ?st0),
           sent := sent ?st0 @ [req]\<rparr>)"
    by (rule model_read_cases)
  have cl: "modelClears (c (length (sent ?st0)) req)" using assms(2) by (simp add: Sleep_def)
  then have e: "modelReadError (c (length (sent ?st0)) req) = None"
    by (rule modelClears_error)
  have dd: "modelReadData ext (c (length (sent ?st0)) req) (d ?st0) = (d st)\<lparr>rid := []\<rparr>"
    using cl by (auto simp: modelReadData_def modelClears_def Sleep_def
        split: http_result.splits sum.splits)
  have i: "(0::int) < maxRetries" using assms(1) by simp
  have "retryModelRead_loop ext (Client c) maxRetries 0 (500 * Millisecond) None ?st0 =
      (None, ?st0\<lparr>d := modelReadData ext (c (length (sent ?st0)) req) (d ?st0),
           sent := sent ?st0 @ [req]\<rparr>)"
    by (rule model_loop_success [OF i]) (use r e in simp)
  then have "retryModelRead ext (Client c) maxRetries st =
           (None, st\<lparr>d := (d st)\<lparr>rid := []\<rparr>, sent := sent st @ [req],
                     slept := slept st @ [200 * Millisecond]\<rparr>)"
    unfolding retryModelRead_def dd by (simp add: Sleep_def)
  then show ?thesis by (rule exI)
qed

lemma model_reconciler_keeps_found_identifier:
  assumes "1 \<le> maxRetries" "\<forall>req. modelFound (c (length (sent st)) req)"
  shows "fst (retryModelRead ext (Client c) maxRetries st) = None \<and>
         rid (d (snd (retryModelRead ext (Client c) maxRetries st))) = rid (d st)"
proof -
  let ?st0 = "Sleep (200 * Millisecond) st"
  obtain req where r: "resourceLiteLLMModelRead ext (Client c) ?st0 =
       (modelReadError (c (length (sent ?st0)) req),
        ?st0\<lparr>d := modelReadData ext (c (length (sent ?st0)) req) (d ?st0),
           sent := sent ?st0 @ [req]\<rparr>)"
    by (rule model_read_cases)
  have f: "modelFound (c (length (sent ?st0)) req)" using assms(2) by (simp add: Sleep_def)
  then have e: "modelReadError (c (length (sent ?st0)) req) = None"
    by (auto simp: modelFound_def modelReadError_def split: http_result.splits sum.splits)
  have n: "\<not> modelClears (c (length (sent ?st0)) req)"
    using f by (auto simp: modelFound_def modelClears_def split: http_result.splits sum.splits)
  have i: "(0::int) < maxRetries" using assms(1) by simp
  have "retryModelRead_loop ext (Client c) maxRetries 0 (500 * Millisecond) None ?st0 =
      (None, ?st0\<lparr>d := modelReadData ext (c (length (sent ?st0)) req) (d ?st0),
           sent := sent ?st0 @ [req]\<rparr>)"
    by (rule model_loop_success [OF i]) (use r e in simp)
  then show ?thesis
    unfolding retryModelRead_def using n by (simp add: modelReadData_rid Sleep_def)
qed

section \<open>Merging the additional parameters\<close>

lemma applyDropParams_apply:
  "applyDropParams ds m p = (if p \<in> set ds then None else m p)"
  by (induction ds arbitrary: m) auto

lemma stringItems_set: "p \<in> set (stringItems items) \<longleftrightarrow> VString p \<in> set items"
  by (induction items rule: stringItems.induct) auto

lemma specCoerce_no_json:
  "json_Unmarshal ext s = None \<Longrightarrow> specCoerce ext s = convertString ext s"
  by (simp add: specCoerce_def convertString_def)

lemma specCoerce_json:
  "json_Unmarshal ext s = Some v \<Longrightarrow> specCoerce ext s = v"
  by (simp add: specCoerce_def)

lemma mergeAdditionalParam_other_key:
  "key \<noteq> fst entry \<Longrightarrow> fst (mergeAdditionalParam ext entry acc) key = fst acc key"
  by (cases entry; cases acc)
    (auto simp: mergeAdditionalParam_def Let_def split: go_value.splits option.splits)

lemma mergeAdditionalParam_drops_grow:
  "set (snd acc) \<subseteq> set (snd (mergeAdditionalParam ext entry acc))"
  by (cases entry; cases acc)
    (auto simp: mergeAdditionalParam_def Let_def split: go_value.splits option.splits)

lemma mergeAdditionalParam_string:
  assumes "key \<noteq> ''additional_drop_params''"
  shows "fst (mergeAdditionalParam ext (key, VString s) acc) key =
           Some (if looksLikeJSON ext s then specCoerce ext s else convertString ext s)"
  using assms
  by (cases acc)
    (auto simp: mergeAdditionalParam_def Let_def looksLikeJSON_def specCoerce_no_json
      specCoerce_json split: option.splits)

lemma mergeAdditionalParam_drop_list:
  assumes "looksLikeJSON ext s" "json_Unmarshal ext s = Some (VList items)"
  shows "set (stringItems items)
           \<subseteq> set (snd (mergeAdditionalParam ext (''additional_drop_params'', VString s) acc))"
  using assms
  by (cases acc) (auto simp: mergeAdditionalParam_def Let_def looksLikeJSON_def)

lemma mergeAdditionalParams_other_key:
  "key \<notin> fst ` set bag \<Longrightarrow> fst (mergeAdditionalParams ext bag acc) key = fst acc key"
proof (induction bag arbitrary: acc)
  case Nil
  then show ?case by simp
next
  case (Cons entry bag)
  then have "key \<noteq> fst entry" "key \<notin> fst ` set bag" by auto
  then show ?case
    using Cons.IH [of "mergeAdditionalParam ext entry acc"]
    by (simp add: mergeAdditionalParam_other_key)
qed

lemma mergeAdditionalParams_drops_grow:
  "set (snd acc) \<subseteq> set (snd (mergeAdditionalParams ext bag acc))"
proof (induction bag arbitrary: acc)
  case Nil
  then show ?case by simp
next
  case (Cons entry bag)
  show ?case
    using Cons.IH [of "mergeAdditionalParam ext entry acc"]
      mergeAdditionalParam_drops_grow [of acc ext entry]
    by auto
qed

lemma mergeAdditionalParams_string:
  assumes "distinct (map fst bag)" "(key, VString s) \<in> set bag"
    "key \<noteq> ''additional_drop_params''"
  shows "fst (mergeAdditionalParams ext bag acc) key =
           Some (if looksLikeJSON ext s then specCoerce ext s else convertString ext s)"
  using assms(1,2)
proof (induction bag arbitrary: acc)
  case Nil
  then show ?case by simp
next
  case (Cons entry bag)
  show ?case
  proof (cases "entry = (key, VString s)")
    case True
    then have "key \<notin> fst ` set bag" using Cons.prems(1) by auto
    then have "fst (mergeAdditionalParams ext bag (mergeAdditionalParam ext entry acc)) key
        = fst (mergeAdditionalParam ext entry acc) key"
      by (rule mergeAdditionalParams_other_key)
    then show ?thesis
      using True mergeAdditionalParam_string [OF assms(3), of ext s acc] by simp
  next
    case False
    then have "(key, VString s) \<in> set bag" using Cons.prems(2) by simp
    moreover have "distinct (map fst bag)" using Cons.prems(1) by simp
    ultimately show ?thesis
      using Cons.IH [of "mergeAdditionalParam ext entry acc"] by simp
  qed
qed

lemma mergeAdditionalParams_drop_list:
  assumes "(''additional_drop_params'', VString s) \<in> set bag"
    "looksLikeJSON ext s" "json_Unmarshal ext s = Some (VList items)"
  shows "set (stringItems items) \<subseteq> set (snd (mergeAdditionalParams ext bag acc))"
  using assms(1)
proof (induction bag arbitrary: acc)
  case Nil
  then show ?case by simp
next
  case (Cons entry bag)
  show ?case
  proof (cases "entry = (''additional_drop_params'', VString s)")
    case True
    have "set (stringItems items) \<subseteq> set (snd (mergeAdditionalParam ext entry acc))"
      unfolding True by (rule mergeAdditionalParam_drop_list [OF assms(2,3)])
    then show ?thesis
      using mergeAdditionalParams_drops_grow [of "mergeAdditionalParam ext entry acc" ext bag]
      by auto
  next
    case False
    then have "(''additional_drop_params'', VString s) \<in> set bag" using Cons.prems by simp
    then show ?thesis
      using Cons.IH [of "mergeAdditionalParam ext entry acc"] by simp
  qed
qed

lemma payload_params:
  "mr_LiteLLMParams (buildModelRequest ext a modelID) key =
     (if key \<in> set (dropParamsOf ext a) then None
      else fst (mergeAdditionalParams ext (additional_litellm_params a)
                  (baseLitellmParams ext a, [])) key)"
proof (cases "additional_litellm_params a = []")
  case True
  then show ?thesis
    by (simp add: buildModelRequest_def addAdditionalParams_def dropParamsOf_def)
next
  case False
  then show ?thesis
    by (simp add: buildModelRequest_def addAdditionalParams_def dropParamsOf_def
        applyDropParams_apply split: prod.splits)
qed

section \<open>The error of an exhausted budget\<close>

lemma credentialReadError_prefix:
  "credentialReadError r = Some msg \<Longrightarrow> \<exists>e. msg = ''failed to read credential: '' @ e"
  by (auto simp: credentialReadError_def split: http_result.splits sum.splits if_splits)

lemma modelReadError_prefix:
  "modelReadError r = Some msg \<Longrightarrow> \<exists>e. msg = ''failed to read model: '' @ e"
  by (auto simp: modelReadError_def split: http_result.splits sum.splits if_splits)

lemma credential_exhausted_last_error:
  assumes "1 \<le> maxRetries"
    and "\<forall>j < nat maxRetries. \<forall>req. credentialNotFound (m (length (sent st) + j) req)"
    and "\<forall>req. m (length (sent st) + (nat maxRetries - 1)) req = r"
  shows "fst (retryCredentialRead m maxRetries st) = credentialAttemptError r"
proof -
  obtain n where n: "nat maxRetries = Suc n" using assms(1) by (cases "nat maxRetries") auto
  then have n0: "nat (maxRetries - 0) = Suc n" by simp
  have h': "\<forall>j \<le> n. \<forall>req. credentialNotFound (m (length (sent st) + j) req)"
    using assms(2) n by simp
  from credential_loop_all_notfound [where maxRetries = maxRetries and i = 0 and n = n
      and st = st and origID = "rid (d st)" and m = m and delay = "1 * Second" and err = None,
      OF n0 refl h']
  obtain msg st' req where r:
    "retryCredentialRead_loop m maxRetries (rid (d st)) 0 (1 * Second) None st = (Some msg, st')"
    "credentialAttemptError (m (length (sent st) + n) req) = Some msg"
    by (elim exE conjE) (rule that; assumption)
  have "m (length (sent st) + n) req = r" using assms(3) n by simp
  then show ?thesis using r by (simp add: retryCredentialRead_def)
qed

lemma model_exhausted_last_error:
  assumes "1 \<le> maxRetries"
    and "\<forall>j < nat maxRetries. \<forall>req. modelNotFound (c (length (sent st) + j) req)"
    and "\<forall>req. c (length (sent st) + (nat maxRetries - 1)) req = r"
  shows "fst (retryModelRead ext (Client c) maxRetries st) = modelReadError r"
proof -
  obtain n where n: "nat maxRetries = Suc n" using assms(1) by (cases "nat maxRetries") auto
  then have n0: "nat (maxRetries - 0) = Suc n" by simp
  let ?st0 = "Sleep (200 * Millisecond) st"
  have h': "\<forall>j \<le> n. \<forall>req. modelNotFound (c (length (sent ?st0) + j) req)"
    using assms(2) n by (simp add: Sleep_def)
  from model_loop_all_notfound [where maxRetries = maxRetries and i = 0 and n = n
      and st = ?st0 and c = c and delay = "500 * Millisecond" and err = None and ext = ext,
      OF n0 h']
  obtain msg st' req where r:
    "retryModelRead_loop ext (Client c) maxRetries 0 (500 * Millisecond) None ?st0
       = (Some msg, st')"
    "modelReadError (c (length (sent ?st0) + n) req) = Some msg"
    by (elim exE conjE) (rule that; assumption)
  have "c (length (sent ?st0) + n) req = r" using assms(3) n by (simp add: Sleep_def)
  then show ?thesis using r by (simp add: retryModelRead_def)
qed

lemma upsert_write_ok:
  assumes "\<forall>req. writeOk (c (length (sent st)) req)"
  shows "\<exists>st2. createOrUpdateModel ext (Client c) isUpdate st = retryModelRead ext (Client c) 8 st2 \<and>
           length (sent st2) = Suc (length (sent st))"
proof (cases isUpdate)
  case True
  obtain upd where u: "createOrUpdateModel ext (Client c) True st =
       (case c (length (sent st)) upd of
          TransportError e \<Rightarrow>
            (Some (''failed to update model: '' @ e), st\<lparr>sent := sent st @ [upd]\<rparr>)
        | Reply status (Inl e) \<Rightarrow>
            if e = ''model_not_found''
            then createOrUpdateModel ext (Client c) False (st\<lparr>sent := sent st @ [upd]\<rparr>)
            else (Some (''failed to update model: '' @ e), st\<lparr>sent := sent st @ [upd]\<rparr>)
        | Reply status (Inr body) \<Rightarrow>
            retryModelRead ext (Client c) 8 (st\<lparr>sent := sent st @ [upd]\<rparr>))"
    by (rule update_cases)
  have "writeOk (c (length (sent st)) upd)" using assms by simp
  then obtain status body where "c (length (sent st)) upd = Reply status (Inr body)"
    by (auto simp: writeOk_iff)
  then have "createOrUpdateModel ext (Client c) True st =
      retryModelRead ext (Client c) 8 (st\<lparr>sent := sent st @ [upd]\<rparr>) \<and>
      length (sent (st\<lparr>sent := sent st @ [upd]\<rparr>)) = Suc (length (sent st))"
    using u by simp
  then show ?thesis using True
    by (intro exI [of _ "st\<lparr>sent := sent st @ [upd]\<rparr>"]) simp
next
  case False
  obtain new where n: "createOrUpdateModel ext (Client c) False st =
       (case c (length (sent st)) new of
          TransportError e \<Rightarrow>
            (Some (''failed to create model: '' @ e),
             st\<lparr>uuids_used := Suc (uuids_used st), sent := sent st @ [new]\<rparr>)
        | Reply status (Inl e) \<Rightarrow>
            (Some (''failed to create model: '' @ e),
             st\<lparr>uuids_used := Suc (uuids_used st), sent := sent st @ [new]\<rparr>)
        | Reply status (Inr body) \<Rightarrow>
            retryModelRead ext (Client c) 8
              (st\<lparr>uuids_used := Suc (uuids_used st), sent := sent st @ [new],
                  d := (d st)\<lparr>rid := uuid_New ext (uuids_used st)\<rparr>\<rparr>))"
    by (rule create_cases)
  let ?st2 = "st\<lparr>uuids_used := Suc (uuids_used st), sent := sent st @ [new],
                  d := (d st)\<lparr>rid := uuid_New ext (uuids_used st)\<rparr>\<rparr>"
  have "writeOk (c (length (sent st)) new)" using assms by simp
  then obtain status body where "c (length (sent st)) new = Reply status (Inr body)"
    by (auto simp: writeOk_iff)
  then have "createOrUpdateModel ext (Client c) False st =
      retryModelRead ext (Client c) 8 ?st2 \<and> length (sent ?st2) = Suc (length (sent st))"
    using n by simp
  then show ?thesis using False
    by (intro exI [of _ ?st2]) simp
qed

lemma credential_create_write_ok:
  assumes "\<forall>req. writeOk (m (length (sent st)) req)"
  shows "\<exists>st2. resourceLiteLLMCredentialCreate m st = retryCredentialRead m 5 st2 \<and>
           length (sent st2) = Suc (length (sent st))"
proof -
  let ?req = "\<lparr>req_method = ''POST'', req_endpoint = ''/credentials'',
      req_body = Some \<lparr>cr_CredentialName = credential_name (attrs (d st)),
             cr_ModelID = model_id (attrs (d st)),
             cr_CredentialInfo = credential_info (attrs (d st)),
             cr_CredentialValues = credential_values (attrs (d st))\<rparr>\<rparr>"
  let ?st2 = "SetId (credential_name (attrs (d st))) (st\<lparr>sent := sent st @ [?req]\<rparr>)"
  have "writeOk (m (length (sent st)) ?req)" using assms by simp
  then obtain status body where "m (length (sent st)) ?req = Reply status (Inr body)"
    by (auto simp: writeOk_iff)
  then have "resourceLiteLLMCredentialCreate m st = retryCredentialRead m 5 ?st2 \<and>
      length (sent ?st2) = Suc (length (sent st))"
    by (simp add: resourceLiteLLMCredentialCreate_def MakeRequest_def Let_def SetId_def)
  then show ?thesis by (rule exI)
qed

section \<open>The credential read leaves the stored secret values alone\<close>

lemma credential_read_keeps_values:
  "credential_values (attrs (d (snd (resourceLiteLLMCredentialRead m st))))
     = credential_values (attrs (d st))"
proof -
  obtain req where "resourceLiteLLMCredentialRead m st =
       (credentialReadError (m (length (sent st)) req),
        st\<lparr>d := credentialReadData (m (length (sent st)) req) (d st),
           sent := sent st @ [req]\<rparr>)"
    by (rule credential_read_cases)
  then show ?thesis by (simp add: credentialReadData_frame)
qed

text \<open>
  Claim C10.  When a credential read finds the resource (the reply is not a 404 and the
  handler decodes it without error), the read returns no error and the resource data
  afterwards is the one before with \<open>credential_name\<close> and \<open>credential_info\<close> replaced and
  nothing else changed: \<open>credential_name\<close> is the name of the response, and
  \<open>credential_info\<close> is the map of the response when all its values are strings and what
  the SDK leaves after the rejected \<open>d.Set\<close> otherwise.  In every case
  \<open>credential_values\<close>, \<open>model_id\<close> and the identifier are what they were.
\<close>

theorem credential_read_writes_name_and_info_only:
  assumes "\<forall>req. m (length (sent st)) req = Reply status (Inr credentialResp)"
    and "status \<noteq> 404"
  shows "fst (resourceLiteLLMCredentialRead m st) = None \<and>
         d (snd (resourceLiteLLMCredentialRead m st)) =
           (d st)\<lparr>attrs := (attrs (d st))
                    \<lparr>credential_name := CredentialName credentialResp,
                     credential_info :=
                       (if list_all (\<lambda>(k, x). isString x) (CredentialInfo credentialResp)
                        then map_of (CredentialInfo credentialResp)
                        else Set_rejected (d st) (CredentialInfo credentialResp)
                               (credential_info (attrs (d st))))\<rparr>\<rparr> \<and>
         credential_values (attrs (d (snd (resourceLiteLLMCredentialRead m st))))
           = credential_values (attrs (d st)) \<and>
         model_id (attrs (d (snd (resourceLiteLLMCredentialRead m st))))
           = model_id (attrs (d st)) \<and>
         rid (d (snd (resourceLiteLLMCredentialRead m st))) = rid (d st)"
proof -
  obtain req where r: "resourceLiteLLMCredentialRead m st =
       (credentialReadError (m (length (sent st)) req),
        st\<lparr>d := credentialReadData (m (length (sent st)) req) (d st),
           sent := sent st @ [req]\<rparr>)"
    by (rule credential_read_cases)
  have reply: "m (length (sent st)) req = Reply status (Inr credentialResp)"
    using assms(1) by simp
  have "credentialReadError (Reply status (Inr credentialResp)) = None"
    by (simp add: credentialReadError_def)
  moreover have "credentialReadData (Reply status (Inr credentialResp)) (d st) =
      (d st)\<lparr>attrs := (attrs (d st))
               \<lparr>credential_name := CredentialName credentialResp,
                credential_info :=
                  (if list_all (\<lambda>(k, x). isString x) (CredentialInfo credentialResp)
                   then map_of (CredentialInfo credentialResp)
                   else Set_rejected (d st) (CredentialInfo credentialResp)
                          (credential_info (attrs (d st))))\<rparr>\<rparr>"
    using assms(2)
    by (simp add: credentialReadData_def credentialClears_def Set_credential_name_def
        Set_credential_info_def)
  ultimately show ?thesis using r reply by simp
qed

theorem credential_read_writes_name_and_info_only_witness:
  "(\<forall>req. (serverFound :: (credential_request, credential_response) client)
             (length (sent exampleCredentialState)) req
           = Reply 200 (Inr exampleCredentialResponse)) \<and>
   (\<forall>req. (serverNumeric :: (credential_request, credential_response) client)
             (length (sent exampleCredentialState)) req
           = Reply 200 (Inr exampleNumericResponse)) \<and>
   (200 :: nat) \<noteq> 404 \<and>
   fst (resourceLiteLLMCredentialRead serverFound exampleCredentialState) = None \<and>
   credential_info (attrs (d (snd (resourceLiteLLMCredentialRead serverFound
       exampleCredentialState)))) ''provider'' = Some (VString ''aws'') \<and>
   credential_values (attrs (d (snd (resourceLiteLLMCredentialRead serverFound
       exampleCredentialState)))) ''key'' = Some (VString ''val'') \<and>
   rid (d (snd (resourceLiteLLMCredentialRead serverFound exampleCredentialState)))
     = ''test-cred'' \<and>
   fst (resourceLiteLLMCredentialRead serverNumeric exampleCredentialState) = None \<and>
   credential_name (attrs (d (snd (resourceLiteLLMCredentialRead serverNumeric
       exampleCredentialState)))) = ''renamed'' \<and>
   credential_info (attrs (d (snd (resourceLiteLLMCredentialRead serverNumeric
       exampleCredentialState)))) = Map.empty \<and>
   credential_values (attrs (d (snd (resourceLiteLLMCredentialRead serverNumeric
       exampleCredentialState)))) ''key'' = Some (VString ''val'')"
proof -
  have h: "\<forall>req. (serverFound :: (credential_request, credential_response) client)
             (length (sent exampleCredentialState)) req
           = Reply 200 (Inr exampleCredentialResponse)"
    by (simp add: serverFound_def)
  have h': "\<forall>req. (serverNumeric :: (credential_request, credential_response) client)
             (length (sent exampleCredentialState)) req
           = Reply 200 (Inr exampleNumericResponse)"
    by (simp add: serverNumeric_def)
  have n: "(200 :: nat) \<noteq> 404" by simp
  show ?thesis
    using h h' credential_read_writes_name_and_info_only
      [where m = serverFound and st = exampleCredentialState and status = 200
         and credentialResp = exampleCredentialResponse, OF h n]
      credential_read_writes_name_and_info_only
      [where m = serverNumeric and st = exampleCredentialState and status = 200
         and credentialResp = exampleNumericResponse, OF h' n]
    by (simp add: exampleCredentialState_def exampleCredentialResponse_def
        exampleNumericResponse_def isString_def)
qed

section \<open>Backoff\<close>

text \<open>
  Claim C6.  The cap is ten seconds.  On every delay between zero and the cap the update
  yields \<open>min (delay * 2) cap\<close>.  In every call of either reconciler, whatever the server
  answers and whatever the budget, the delays slept between attempts (for the model
  reconciler: after its one settle delay of 200 ms) form a sequence that never decreases,
  stays positive and at most the cap, and in which each delay is \<open>min\<close> of twice its
  predecessor and the cap.
\<close>


theorem backoff_doubles_capped_and_monotone:
  "maxDelay = 10 * Second \<and>
   (\<forall>delay. 0 \<le> delay \<and> delay \<le> maxDelay \<longrightarrow> nextDelay delay = min (delay * 2) maxDelay) \<and>
   (\<exists>ds. slept (snd (retryCredentialRead m maxRetries st)) = slept st @ ds \<and>
         sorted ds \<and> (\<forall>x \<in> set ds. 0 < x \<and> x \<le> maxDelay) \<and>
         (\<forall>k. Suc k < length ds \<longrightarrow> ds ! Suc k = min (ds ! k * 2) maxDelay)) \<and>
   (\<exists>ds. slept (snd (retryModelRead ext mm maxRetries' mst))
           = slept mst @ (200 * Millisecond) # ds \<and>
         sorted ds \<and> (\<forall>x \<in> set ds. 0 < x \<and> x \<le> maxDelay) \<and>
         (\<forall>k. Suc k < length ds \<longrightarrow> ds ! Suc k = min (ds ! k * 2) maxDelay))"
proof -
  have A: "maxDelay = 10 * Second" by (simp add: maxDelay_def)
  have B: "\<forall>delay. 0 \<le> delay \<and> delay \<le> maxDelay \<longrightarrow> nextDelay delay = min (delay * 2) maxDelay"
    using nextDelay_min by blast
  obtain k where k: "slept (snd (retryCredentialRead m maxRetries st))
      = slept st @ backoffDelays (1 * Second) k"
    using credential_loop_general [where maxRetries = maxRetries and i = 0 and m = m
        and origID = "rid (d st)" and delay = "1 * Second" and err = None and st = st, OF refl]
    unfolding retryCredentialRead_def by blast
  have C: "\<exists>ds. slept (snd (retryCredentialRead m maxRetries st)) = slept st @ ds \<and>
         sorted ds \<and> (\<forall>x \<in> set ds. 0 < x \<and> x \<le> maxDelay) \<and>
         (\<forall>k. Suc k < length ds \<longrightarrow> ds ! Suc k = min (ds ! k * 2) maxDelay)"
    using k backoffDelays_facts [OF second_in_range, of k] by blast
  obtain j where j: "slept (snd (retryModelRead ext mm maxRetries' mst))
      = slept mst @ (200 * Millisecond) # backoffDelays (500 * Millisecond) j"
    using retryModelRead_general [of ext mm maxRetries' mst] by blast
  have D: "\<exists>ds. slept (snd (retryModelRead ext mm maxRetries' mst))
           = slept mst @ (200 * Millisecond) # ds \<and>
         sorted ds \<and> (\<forall>x \<in> set ds. 0 < x \<and> x \<le> maxDelay) \<and>
         (\<forall>k. Suc k < length ds \<longrightarrow> ds ! Suc k = min (ds ! k * 2) maxDelay)"
    using j backoffDelays_facts [OF half_second_in_range, of j] by blast
  show ?thesis using A B C D by blast
qed

theorem backoff_doubles_capped_and_monotone_witness:
  "(0::int) \<le> 8 * Second \<and> 8 * Second \<le> maxDelay \<and> nextDelay (8 * Second) = 10 * Second \<and>
   (\<exists>ds. slept (snd (retryCredentialRead
                        (server404 :: (credential_request, credential_response) client) 5
                        exampleCredentialState)) = slept exampleCredentialState @ ds \<and>
         sorted ds \<and> (\<forall>x \<in> set ds. 0 < x \<and> x \<le> maxDelay) \<and>
         (\<forall>k. Suc k < length ds \<longrightarrow> ds ! Suc k = min (ds ! k * 2) maxDelay))"
proof -
  have h: "(0::int) \<le> 8 * Second \<and> 8 * Second \<le> maxDelay"
    by (simp add: Second_def maxDelay_def)
  have "nextDelay (8 * Second) = min (8 * Second * 2) maxDelay"
    using backoff_doubles_capped_and_monotone
      [where m = "server404 :: (credential_request, credential_response) client"
         and maxRetries = 5 and st = exampleCredentialState] h
    by blast
  then have n: "nextDelay (8 * Second) = 10 * Second"
    by (simp add: Second_def maxDelay_def)
  show ?thesis
    using h n backoff_doubles_capped_and_monotone
      [where m = "server404 :: (credential_request, credential_response) client"
         and maxRetries = 5 and st = exampleCredentialState]
    by blast
qed

section \<open>Error classification\<close>

text \<open>
  Claim C7.  \<open>isRetryableModelError\<close> is true exactly for a non-nil error whose message has
  one of \<open>not found\<close>, \<open>Model id =\<close>, \<open>model_not_found\<close> as a substring, and it is false for
  \<open>nil\<close>.  In the credential reconciler, an attempt that ends with an error and is not the
  last of the budget is followed by another read exactly when the message has
  \<open>credential_not_found\<close> as a substring; otherwise the loop returns that error at once.
\<close>


theorem retryable_iff_message_contains_pattern:
  "(isRetryableModelError err \<longleftrightarrow>
      (\<exists>msg. err = Some msg \<and>
         ((\<exists>xs ys. msg = xs @ ''not found'' @ ys) \<or>
          (\<exists>xs ys. msg = xs @ ''Model id ='' @ ys) \<or>
          (\<exists>xs ys. msg = xs @ ''model_not_found'' @ ys)))) \<and>
   \<not> isRetryableModelError None \<and>
   (i + 1 < maxRetries \<and> credentialReadAttempt m origID st = (Some e, st') \<longrightarrow>
      (length (sent st') <
         length (sent (snd (retryCredentialRead_loop m maxRetries origID i delay err0 st)))
       \<longleftrightarrow> (\<exists>xs ys. e = xs @ ''credential_not_found'' @ ys)) \<and>
      (\<not> (\<exists>xs ys. e = xs @ ''credential_not_found'' @ ys) \<longrightarrow>
         retryCredentialRead_loop m maxRetries origID i delay err0 st = (Some e, st')))"
proof -
  have A: "isRetryableModelError err \<longleftrightarrow>
      (\<exists>msg. err = Some msg \<and>
         ((\<exists>xs ys. msg = xs @ ''not found'' @ ys) \<or>
          (\<exists>xs ys. msg = xs @ ''Model id ='' @ ys) \<or>
          (\<exists>xs ys. msg = xs @ ''model_not_found'' @ ys)))"
    by (cases err) (simp_all add: isRetryableModelError_def Contains_iff)
  have B: "\<not> isRetryableModelError None" by (simp add: isRetryableModelError_def)
  have C: "length (sent st') <
         length (sent (snd (retryCredentialRead_loop m maxRetries origID i delay err0 st)))
       \<longleftrightarrow> (\<exists>xs ys. e = xs @ ''credential_not_found'' @ ys)"
    and D: "\<not> (\<exists>xs ys. e = xs @ ''credential_not_found'' @ ys) \<longrightarrow>
         retryCredentialRead_loop m maxRetries origID i delay err0 st = (Some e, st')"
    if i: "i + 1 < maxRetries" and a: "credentialReadAttempt m origID st = (Some e, st')"
  proof -
    have i0: "i < maxRetries" and i1: "i < maxRetries - 1" using i by simp_all
    show "length (sent st') <
         length (sent (snd (retryCredentialRead_loop m maxRetries origID i delay err0 st)))
       \<longleftrightarrow> (\<exists>xs ys. e = xs @ ''credential_not_found'' @ ys)"
    proof (cases "Contains e ''credential_not_found''")
      case True
      let ?st2 = "Sleep delay st'"
      have "retryCredentialRead_loop m maxRetries origID i delay err0 st =
            retryCredentialRead_loop m maxRetries origID (i + 1) (nextDelay delay) (Some e) ?st2"
        by (rule credential_loop_retry [OF i1 a True])
      moreover have "length (sent ?st2) < length (sent (snd
            (retryCredentialRead_loop m maxRetries origID (i + 1) (nextDelay delay) (Some e) ?st2)))"
        using credential_loop_general [where maxRetries = maxRetries and i = "i + 1" and m = m
            and origID = origID and delay = "nextDelay delay" and err = "Some e" and st = ?st2,
            OF refl] i
        by simp
      ultimately show ?thesis using True by (simp add: Sleep_def Contains_iff)
    next
      case False
      have "retryCredentialRead_loop m maxRetries origID i delay err0 st = (Some e, st')"
        by (rule credential_loop_fatal [OF i0 a False])
      then show ?thesis using False by (simp add: Contains_iff)
    qed
    show "\<not> (\<exists>xs ys. e = xs @ ''credential_not_found'' @ ys) \<longrightarrow>
         retryCredentialRead_loop m maxRetries origID i delay err0 st = (Some e, st')"
      using credential_loop_fatal [OF i0 a] by (simp add: Contains_iff)
  qed
  show ?thesis using A B C D by blast
qed

theorem retryable_iff_message_contains_pattern_witness:
  "(0::int) + 1 < 2 \<and>
   credentialReadAttempt (server404 :: (credential_request, credential_response) client)
       ''test-cred'' exampleCredentialState
     = (Some ''credential_not_found'',
        exampleCredentialState\<lparr>sent :=
          [\<lparr>req_method = ''GET'', req_endpoint = ''/credentials/by_name/test-cred'',
            req_body = None\<rparr>]\<rparr>) \<and>
   (\<exists>xs ys. ''credential_not_found'' = xs @ ''credential_not_found'' @ ys) \<and>
   1 < length (sent (snd (retryCredentialRead_loop
         (server404 :: (credential_request, credential_response) client) 2 ''test-cred'' 0
         (1 * Second) None exampleCredentialState))) \<and>
   isRetryableModelError (Some ''failed to read model: Model id = 7 is missing'') \<and>
   \<not> isRetryableModelError (Some ''failed to read model: API request failed: 500'')"
proof -
  let ?st' = "exampleCredentialState\<lparr>sent :=
          [\<lparr>req_method = ''GET'', req_endpoint = ''/credentials/by_name/test-cred'',
            req_body = None\<rparr>]\<rparr>"
  have i: "(0::int) + 1 < 2" by simp
  have a: "credentialReadAttempt (server404 :: (credential_request, credential_response) client)
       ''test-cred'' exampleCredentialState = (Some ''credential_not_found'', ?st')"
    by (simp add: credentialReadAttempt_def resourceLiteLLMCredentialRead_def MakeRequest_def
        server404_def SetId_def exampleCredentialState_def)
  have s: "\<exists>xs ys. ''credential_not_found'' = xs @ ''credential_not_found'' @ ys"
  proof -
    have "''credential_not_found'' = [] @ ''credential_not_found'' @ []" by simp
    then show ?thesis by (intro exI)
  qed
  note t = retryable_iff_message_contains_pattern
      [where i = 0 and maxRetries = 2
         and m = "server404 :: (credential_request, credential_response) client"
         and origID = "''test-cred''" and st = exampleCredentialState
         and e = "''credential_not_found''" and st' = ?st' and delay = "1 * Second"
         and ?err0.0 = None]
  have l: "length (sent ?st') = 1" by (simp add: exampleCredentialState_def)
  note c = t [THEN conjunct2, THEN conjunct2]
  have "length (sent ?st') < length (sent (snd (retryCredentialRead_loop
         (server404 :: (credential_request, credential_response) client) 2 ''test-cred'' 0
         (1 * Second) None exampleCredentialState)))"
    using c i a s by simp
  then have g: "1 < length (sent (snd (retryCredentialRead_loop
         (server404 :: (credential_request, credential_response) client) 2 ''test-cred'' 0
         (1 * Second) None exampleCredentialState)))"
    unfolding l .
  have m1: "isRetryableModelError (Some ''failed to read model: Model id = 7 is missing'')"
    by (simp add: isRetryableModelError_def)
  have m2: "\<not> isRetryableModelError (Some ''failed to read model: API request failed: 500'')"
    by (simp add: isRetryableModelError_def)
  show ?thesis using i a s g m1 m2 by (intro conjI)
qed

section \<open>Exhausting the attempt budget\<close>

text \<open>
  Claim C3.  The claim holds for \<open>retryCredentialRead\<close>: with a budget of \<open>N \<ge> 1\<close>, if each
  of the next \<open>N\<close> replies makes the read attempt report not-found (the read clears the
  identifier, or its error contains the sentinel), the reconciler sends exactly \<open>N\<close> read
  requests, sleeps exactly \<open>N - 1\<close> times between them, the \<open>k\<close>-th sleep lasting
  \<open>min (initial * 2 ^ k) cap\<close>, and returns a not-found error.  For \<open>retryModelRead\<close>, which
  sleeps its settle delay of 200 ms once before the first attempt, the same holds when each
  read returns an error that \<open>isRetryableModelError\<close> accepts.  It fails on the not-found
  outcome of the model read itself: when the handler reports \<open>model_not_found\<close> on the first
  read, the read clears the identifier and returns \<open>nil\<close>, and the reconciler returns \<open>nil\<close>
  after that one attempt, whatever the budget, without any backoff sleep and without a
  not-found error.
\<close>


theorem not_found_reads_and_attempt_budget:
  assumes "1 \<le> maxRetries"
  shows "((\<forall>j < nat maxRetries. \<forall>req. credentialNotFound (m (length (sent st) + j) req)) \<longrightarrow>
            (\<exists>msg st'. retryCredentialRead m maxRetries st = (Some msg, st') \<and>
               Contains msg ''credential_not_found'' \<and>
               length (sent st') = length (sent st) + nat maxRetries \<and>
               slept st' = slept st @ backoffDelays (1 * Second) (nat maxRetries - 1) \<and>
               length (slept st') = length (slept st) + (nat maxRetries - 1) \<and>
               (\<forall>k < nat maxRetries - 1.
                  backoffDelays (1 * Second) (nat maxRetries - 1) ! k
                    = min (1 * Second * 2 ^ k) maxDelay))) \<and>
         ((\<forall>j < nat maxRetries. \<forall>req. modelNotFound (c (length (sent mst) + j) req)) \<longrightarrow>
            (\<exists>msg st'. retryModelRead ext (Client c) maxRetries mst = (Some msg, st') \<and>
               isRetryableModelError (Some msg) \<and>
               length (sent st') = length (sent mst) + nat maxRetries \<and>
               slept st' = slept mst @ (200 * Millisecond) #
                             backoffDelays (500 * Millisecond) (nat maxRetries - 1) \<and>
               length (slept st') = length (slept mst) + 1 + (nat maxRetries - 1) \<and>
               (\<forall>k < nat maxRetries - 1.
                  backoffDelays (500 * Millisecond) (nat maxRetries - 1) ! k
                    = min (500 * Millisecond * 2 ^ k) maxDelay))) \<and>
         ((\<forall>req. modelClears (g (length (sent mst)) req)) \<longrightarrow>
            (\<exists>req. retryModelRead ext (Client g) maxRetries mst =
               (None, mst\<lparr>d := (d mst)\<lparr>rid := []\<rparr>, sent := sent mst @ [req],
                         slept := slept mst @ [200 * Millisecond]\<rparr>)))"
proof -
  obtain n where n: "nat maxRetries = Suc n" using assms by (cases "nat maxRetries") auto
  then have n0: "nat (maxRetries - 0) = Suc n" by simp
  have A: "\<exists>msg st'. retryCredentialRead m maxRetries st = (Some msg, st') \<and>
               Contains msg ''credential_not_found'' \<and>
               length (sent st') = length (sent st) + nat maxRetries \<and>
               slept st' = slept st @ backoffDelays (1 * Second) (nat maxRetries - 1) \<and>
               length (slept st') = length (slept st) + (nat maxRetries - 1) \<and>
               (\<forall>k < nat maxRetries - 1.
                  backoffDelays (1 * Second) (nat maxRetries - 1) ! k
                    = min (1 * Second * 2 ^ k) maxDelay)"
    if h: "\<forall>j < nat maxRetries. \<forall>req. credentialNotFound (m (length (sent st) + j) req)"
  proof -
    have h': "\<forall>j \<le> n. \<forall>req. credentialNotFound (m (length (sent st) + j) req)"
      using h n by simp
    from credential_loop_all_notfound [where maxRetries = maxRetries and i = 0 and n = n
        and st = st and origID = "rid (d st)" and m = m and delay = "1 * Second" and err = None,
        OF n0 refl h']
    obtain msg st' where r:
      "retryCredentialRead_loop m maxRetries (rid (d st)) 0 (1 * Second) None st = (Some msg, st')"
      "Contains msg ''credential_not_found''"
      "length (sent st') = length (sent st) + Suc n"
      "slept st' = slept st @ backoffDelays (1 * Second) n"
      by blast
    have "\<forall>k < n. backoffDelays (1 * Second) n ! k = min (1 * Second * 2 ^ k) maxDelay"
      using backoffDelays_nth [OF second_in_range] by blast
    then show ?thesis using r n by (simp add: retryCredentialRead_def)
  qed
  have B: "\<exists>msg st'. retryModelRead ext (Client c) maxRetries mst = (Some msg, st') \<and>
               isRetryableModelError (Some msg) \<and>
               length (sent st') = length (sent mst) + nat maxRetries \<and>
               slept st' = slept mst @ (200 * Millisecond) #
                             backoffDelays (500 * Millisecond) (nat maxRetries - 1) \<and>
               length (slept st') = length (slept mst) + 1 + (nat maxRetries - 1) \<and>
               (\<forall>k < nat maxRetries - 1.
                  backoffDelays (500 * Millisecond) (nat maxRetries - 1) ! k
                    = min (500 * Millisecond * 2 ^ k) maxDelay)"
    if h: "\<forall>j < nat maxRetries. \<forall>req. modelNotFound (c (length (sent mst) + j) req)"
  proof -
    let ?st0 = "Sleep (200 * Millisecond) mst"
    have h': "\<forall>j \<le> n. \<forall>req. modelNotFound (c (length (sent ?st0) + j) req)"
      using h n by (simp add: Sleep_def)
    from model_loop_all_notfound [where maxRetries = maxRetries and i = 0 and n = n
        and st = ?st0 and c = c and delay = "500 * Millisecond" and err = None and ext = ext,
        OF n0 h']
    obtain msg st' where r:
      "retryModelRead_loop ext (Client c) maxRetries 0 (500 * Millisecond) None ?st0
         = (Some msg, st')"
      "isRetryableModelError (Some msg)"
      "length (sent st') = length (sent ?st0) + Suc n"
      "slept st' = slept ?st0 @ backoffDelays (500 * Millisecond) n"
      by blast
    have "\<forall>k < n. backoffDelays (500 * Millisecond) n ! k
            = min (500 * Millisecond * 2 ^ k) maxDelay"
      using backoffDelays_nth [OF half_second_in_range] by blast
    then show ?thesis using r n by (simp add: retryModelRead_def Sleep_def)
  qed
  have C: "\<exists>req. retryModelRead ext (Client g) maxRetries mst =
               (None, mst\<lparr>d := (d mst)\<lparr>rid := []\<rparr>, sent := sent mst @ [req],
                         slept := slept mst @ [200 * Millisecond]\<rparr>)"
    if h: "\<forall>req. modelClears (g (length (sent mst)) req)"
    by (rule model_reconciler_accepts_cleared_identifier
        [where c = g and st = mst and maxRetries = maxRetries, OF assms h])
  show ?thesis
  proof (intro conjI impI)
    assume "\<forall>j < nat maxRetries. \<forall>req. credentialNotFound (m (length (sent st) + j) req)"
    then show "\<exists>msg st'. retryCredentialRead m maxRetries st = (Some msg, st') \<and>
               Contains msg ''credential_not_found'' \<and>
               length (sent st') = length (sent st) + nat maxRetries \<and>
               slept st' = slept st @ backoffDelays (1 * Second) (nat maxRetries - 1) \<and>
               length (slept st') = length (slept st) + (nat maxRetries - 1) \<and>
               (\<forall>k < nat maxRetries - 1.
                  backoffDelays (1 * Second) (nat maxRetries - 1) ! k
                    = min (1 * Second * 2 ^ k) maxDelay)"
      by (rule A)
  next
    assume "\<forall>j < nat maxRetries. \<forall>req. modelNotFound (c (length (sent mst) + j) req)"
    then show "\<exists>msg st'. retryModelRead ext (Client c) maxRetries mst = (Some msg, st') \<and>
               isRetryableModelError (Some msg) \<and>
               length (sent st') = length (sent mst) + nat maxRetries \<and>
               slept st' = slept mst @ (200 * Millisecond) #
                             backoffDelays (500 * Millisecond) (nat maxRetries - 1) \<and>
               length (slept st') = length (slept mst) + 1 + (nat maxRetries - 1) \<and>
               (\<forall>k < nat maxRetries - 1.
                  backoffDelays (500 * Millisecond) (nat maxRetries - 1) ! k
                    = min (500 * Millisecond * 2 ^ k) maxDelay)"
      by (rule B)
  next
    assume "\<forall>req. modelClears (g (length (sent mst)) req)"
    then show "\<exists>req. retryModelRead ext (Client g) maxRetries mst =
               (None, mst\<lparr>d := (d mst)\<lparr>rid := []\<rparr>, sent := sent mst @ [req],
                         slept := slept mst @ [200 * Millisecond]\<rparr>)"
      by (rule C)
  qed
qed

theorem not_found_reads_and_attempt_budget_witness:
  "(1::int) \<le> 3 \<and> (1::int) \<le> 8 \<and>
   (\<forall>n req. credentialNotFound
      ((server404 :: (credential_request, credential_response) client) n req)) \<and>
   (\<exists>msg st'. retryCredentialRead server404 3 exampleCredentialState = (Some msg, st') \<and>
          Contains msg ''credential_not_found'' \<and>
          length (sent st') = 3 \<and>
          slept st' = [1000000000, 2000000000]) \<and>
   (\<forall>n req. modelNotFound ((modelServerNotFound :: (model_request, model_response) client) n req)) \<and>
   (\<exists>msg st'. retryModelRead exampleExternals (Client modelServerNotFound) 3 exampleModelState
             = (Some msg, st') \<and>
          isRetryableModelError (Some msg) \<and>
          length (sent st') = 3 \<and>
          slept st' = [200000000, 500000000, 1000000000]) \<and>
   (\<forall>n req. modelClears ((modelServerGone :: (model_request, model_response) client) n req)) \<and>
   fst (retryModelRead exampleExternals (Client modelServerGone) 8 exampleModelState) = None \<and>
   length (sent (snd (retryModelRead exampleExternals (Client modelServerGone) 8
     exampleModelState))) = 1 \<and>
   slept (snd (retryModelRead exampleExternals (Client modelServerGone) 8 exampleModelState))
     = [200000000]"
proof -
  have b: "(1::int) \<le> 3" by simp
  have b8: "(1::int) \<le> 8" by simp
  have a3: "\<forall>n req. modelClears
      ((modelServerGone :: (model_request, model_response) client) n req)"
    by (simp add: modelServerGone_def modelClears_def)
  have h3: "\<forall>req. modelClears ((modelServerGone :: (model_request, model_response) client)
      (length (sent exampleModelState)) req)"
    using a3 by simp
  have a1: "\<forall>n req. credentialNotFound
      ((server404 :: (credential_request, credential_response) client) n req)"
    by (simp add: server404_def credentialNotFound_def credentialClears_def)
  have a2: "\<forall>n req. modelNotFound ((modelServerNotFound :: (model_request, model_response) client) n req)"
    by (simp add: modelServerNotFound_def modelNotFound_def modelReadError_def
        isRetryableModelError_def)
  have h1: "\<forall>j < nat 3. \<forall>req. credentialNotFound
      ((server404 :: (credential_request, credential_response) client)
         (length (sent exampleCredentialState) + j) req)"
    by (simp add: server404_def credentialNotFound_def credentialClears_def)
  have h2: "\<forall>j < nat 3. \<forall>req. modelNotFound
      ((modelServerNotFound :: (model_request, model_response) client)
         (length (sent exampleModelState) + j) req)"
    by (simp add: modelServerNotFound_def modelNotFound_def modelReadError_def
        isRetryableModelError_def)
  note t = not_found_reads_and_attempt_budget
      [where maxRetries = 3
         and m = "server404 :: (credential_request, credential_response) client"
         and st = exampleCredentialState
         and c = "modelServerNotFound :: (model_request, model_response) client"
         and g = "modelServerGone :: (model_request, model_response) client"
         and mst = exampleModelState and ext = exampleExternals, OF b]
  note t8 = not_found_reads_and_attempt_budget
      [where maxRetries = 8
         and m = "server404 :: (credential_request, credential_response) client"
         and st = exampleCredentialState
         and c = "modelServerNotFound :: (model_request, model_response) client"
         and g = "modelServerGone :: (model_request, model_response) client"
         and mst = exampleModelState and ext = exampleExternals, OF b8]
  from t8 have "(\<forall>req. modelClears
        ((modelServerGone :: (model_request, model_response) client)
           (length (sent exampleModelState)) req)) \<longrightarrow>
      (\<exists>req. retryModelRead exampleExternals (Client modelServerGone) 8 exampleModelState =
         (None, exampleModelState\<lparr>d := (d exampleModelState)\<lparr>rid := []\<rparr>,
                  sent := sent exampleModelState @ [req],
                  slept := slept exampleModelState @ [200 * Millisecond]\<rparr>))"
    by (elim conjE)
  then obtain req where c3:
    "retryModelRead exampleExternals (Client modelServerGone) 8 exampleModelState =
         (None, exampleModelState\<lparr>d := (d exampleModelState)\<lparr>rid := []\<rparr>,
                  sent := sent exampleModelState @ [req],
                  slept := slept exampleModelState @ [200 * Millisecond]\<rparr>)"
    using h3 by (elim impE exE) assumption
  have d1: "backoffDelays (1 * Second) (nat 3 - 1) = [1000000000, 2000000000]"
    by (simp add: eval_nat_numeral nextDelay_def wrap64_def Second_def maxDelay_def)
  have d2: "backoffDelays (500 * Millisecond) (nat 3 - 1) = [500000000, 1000000000]"
    by (simp add: eval_nat_numeral nextDelay_def wrap64_def Second_def Millisecond_def
        maxDelay_def)
  have e: "sent exampleCredentialState = []" "slept exampleCredentialState = []"
    "sent exampleModelState = []" "slept exampleModelState = []"
    by (simp_all add: exampleCredentialState_def exampleModelState_def)
  obtain msg st' where c1: "retryCredentialRead server404 3 exampleCredentialState
             = (Some msg, st')" "Contains msg ''credential_not_found''"
    "length (sent st') = length (sent exampleCredentialState) + nat 3"
    "slept st' = slept exampleCredentialState @ backoffDelays (1 * Second) (nat 3 - 1)"
    using t h1 by blast
  obtain msg2 st2 where c2: "retryModelRead exampleExternals (Client modelServerNotFound) 3
       exampleModelState = (Some msg2, st2)" "isRetryableModelError (Some msg2)"
    "length (sent st2) = length (sent exampleModelState) + nat 3"
    "slept st2 = slept exampleModelState @ (200 * Millisecond) #
                   backoffDelays (500 * Millisecond) (nat 3 - 1)"
    using t h2 by blast
  have "length (sent st') = 3" "slept st' = [1000000000, 2000000000]"
    using c1(3,4) d1 e by simp_all
  moreover have "length (sent st2) = 3" "slept st2 = [200000000, 500000000, 1000000000]"
    using c2(3,4) d2 e by (simp_all add: Millisecond_def)
  moreover have "fst (retryModelRead exampleExternals (Client modelServerGone) 8
        exampleModelState) = None"
    "length (sent (snd (retryModelRead exampleExternals (Client modelServerGone) 8
        exampleModelState))) = 1"
    "slept (snd (retryModelRead exampleExternals (Client modelServerGone) 8
        exampleModelState)) = [200000000]"
    using e by (simp_all add: c3 Millisecond_def)
  ultimately show ?thesis using b b8 a1 a2 a3 c1(1,2) c2(1,2) by blast
qed

section \<open>Fatal errors\<close>

text \<open>
  Claim C5.  If the first \<open>k\<close> attempts report not-found and attempt \<open>k\<close> (counted from
  zero, within the budget) ends with an error that is not classified as retryable, either
  reconciler returns exactly that error after \<open>k + 1\<close> read requests and the \<open>k\<close> sleeps that
  preceded them, whatever budget remains, and leaves the resource data as it was.
\<close>


theorem fatal_error_stops_retrying:
  assumes "int k < maxRetries"
  shows "((\<forall>j < k. \<forall>req. credentialNotFound (m (length (sent st) + j) req)) \<and>
          (\<forall>req. credentialReadError (m (length (sent st) + k) req) = Some e) \<and>
          \<not> Contains e ''credential_not_found'' \<longrightarrow>
            (\<exists>st'. retryCredentialRead m maxRetries st = (Some e, st') \<and>
               length (sent st') = length (sent st) + Suc k \<and>
               slept st' = slept st @ backoffDelays (1 * Second) k \<and>
               length (slept st') = length (slept st) + k \<and>
               d st' = d st)) \<and>
         ((\<forall>j < k. \<forall>req. modelNotFound (c (length (sent mst) + j) req)) \<and>
          (\<forall>req. modelReadError (c (length (sent mst) + k) req) = Some e') \<and>
          \<not> isRetryableModelError (Some e') \<longrightarrow>
            (\<exists>st'. retryModelRead ext (Client c) maxRetries mst = (Some e', st') \<and>
               length (sent st') = length (sent mst) + Suc k \<and>
               slept st' = slept mst @ (200 * Millisecond) # backoffDelays (500 * Millisecond) k \<and>
               length (slept st') = length (slept mst) + 1 + k \<and>
               d st' = d mst))"
proof -
  have k0: "int k < maxRetries - 0" using assms by simp
  have A: "\<exists>st'. retryCredentialRead m maxRetries st = (Some e, st') \<and>
               length (sent st') = length (sent st) + Suc k \<and>
               slept st' = slept st @ backoffDelays (1 * Second) k \<and>
               length (slept st') = length (slept st) + k \<and>
               d st' = d st"
    if h: "\<forall>j < k. \<forall>req. credentialNotFound (m (length (sent st) + j) req)"
      and f: "\<forall>req. credentialReadError (m (length (sent st) + k) req) = Some e"
      and nr: "\<not> Contains e ''credential_not_found''"
  proof -
    from credential_loop_fatal_at [where maxRetries = maxRetries and i = 0 and k = k
        and st = st and origID = "rid (d st)" and m = m and delay = "1 * Second" and err = None
        and e = e, OF k0 refl h f nr]
    obtain st' where r:
      "retryCredentialRead_loop m maxRetries (rid (d st)) 0 (1 * Second) None st = (Some e, st')"
      "d st' = d st"
      "length (sent st') = length (sent st) + Suc k"
      "slept st' = slept st @ backoffDelays (1 * Second) k"
      by blast
    then show ?thesis by (simp add: retryCredentialRead_def)
  qed
  have B: "\<exists>st'. retryModelRead ext (Client c) maxRetries mst = (Some e', st') \<and>
               length (sent st') = length (sent mst) + Suc k \<and>
               slept st' = slept mst @ (200 * Millisecond) # backoffDelays (500 * Millisecond) k \<and>
               length (slept st') = length (slept mst) + 1 + k \<and>
               d st' = d mst"
    if h: "\<forall>j < k. \<forall>req. modelNotFound (c (length (sent mst) + j) req)"
      and f: "\<forall>req. modelReadError (c (length (sent mst) + k) req) = Some e'"
      and nr: "\<not> isRetryableModelError (Some e')"
  proof -
    let ?st0 = "Sleep (200 * Millisecond) mst"
    have h': "\<forall>j < k. \<forall>req. modelNotFound (c (length (sent ?st0) + j) req)"
      using h by (simp add: Sleep_def)
    have f': "\<forall>req. modelReadError (c (length (sent ?st0) + k) req) = Some e'"
      using f by (simp add: Sleep_def)
    from model_loop_fatal_at [where maxRetries = maxRetries and i = 0 and k = k
        and st = ?st0 and c = c and delay = "500 * Millisecond" and err = None and ext = ext
        and e = e', OF k0 h' f' nr]
    obtain st' where r:
      "retryModelRead_loop ext (Client c) maxRetries 0 (500 * Millisecond) None ?st0
         = (Some e', st')"
      "d st' = d ?st0"
      "length (sent st') = length (sent ?st0) + Suc k"
      "slept st' = slept ?st0 @ backoffDelays (500 * Millisecond) k"
      by blast
    then show ?thesis by (simp add: retryModelRead_def Sleep_def)
  qed
  show ?thesis using A B by blast
qed

theorem fatal_error_stops_retrying_witness:
  "int 1 < 3 \<and>
   (\<forall>req. credentialNotFound
      ((server404Then500 1 :: (credential_request, credential_response) client) 0 req)) \<and>
   (\<forall>req. credentialReadError
      ((server404Then500 1 :: (credential_request, credential_response) client)
         (length (sent exampleCredentialState) + 1) req)
      = Some ''failed to read credential: API request failed: 500'') \<and>
   \<not> Contains ''failed to read credential: API request failed: 500'' ''credential_not_found'' \<and>
   (\<exists>st'. retryCredentialRead (server404Then500 1) 3 exampleCredentialState
            = (Some ''failed to read credential: API request failed: 500'', st') \<and>
          length (sent st') = 2 \<and> slept st' = [1000000000]) \<and>
   (\<forall>req. modelNotFound
      ((modelServerNotFoundThen500 1 :: (model_request, model_response) client) 0 req)) \<and>
   (\<forall>req. modelReadError
      ((modelServerNotFoundThen500 1 :: (model_request, model_response) client)
         (length (sent exampleModelState) + 1) req)
      = Some ''failed to read model: API request failed: 500'') \<and>
   \<not> isRetryableModelError (Some ''failed to read model: API request failed: 500'') \<and>
   (\<exists>st'. retryModelRead exampleExternals (Client (modelServerNotFoundThen500 1)) 3
            exampleModelState
            = (Some ''failed to read model: API request failed: 500'', st') \<and>
          length (sent st') = 2 \<and> slept st' = [200000000, 500000000])"
proof -
  have b: "int 1 < 3" by simp
  have a1: "\<forall>req. credentialNotFound
      ((server404Then500 1 :: (credential_request, credential_response) client) 0 req)"
    by (simp add: server404Then500_def credentialNotFound_def credentialClears_def)
  have a2: "\<forall>req. modelNotFound
      ((modelServerNotFoundThen500 1 :: (model_request, model_response) client) 0 req)"
    by (simp add: modelServerNotFoundThen500_def modelNotFound_def modelReadError_def
        isRetryableModelError_def)
  have e: "sent exampleCredentialState = []" "slept exampleCredentialState = []"
    "sent exampleModelState = []" "slept exampleModelState = []"
    by (simp_all add: exampleCredentialState_def exampleModelState_def)
  have h1: "\<forall>j < 1. \<forall>req. credentialNotFound
      ((server404Then500 1 :: (credential_request, credential_response) client)
         (length (sent exampleCredentialState) + j) req)"
    by (simp add: e server404Then500_def credentialNotFound_def credentialClears_def)
  have f1: "\<forall>req. credentialReadError
      ((server404Then500 1 :: (credential_request, credential_response) client)
         (length (sent exampleCredentialState) + 1) req)
      = Some ''failed to read credential: API request failed: 500''"
    by (simp add: e server404Then500_def credentialReadError_def)
  have n1: "\<not> Contains ''failed to read credential: API request failed: 500''
      ''credential_not_found''"
    by simp
  have h2: "\<forall>j < 1. \<forall>req. modelNotFound
      ((modelServerNotFoundThen500 1 :: (model_request, model_response) client)
         (length (sent exampleModelState) + j) req)"
    by (simp add: e modelServerNotFoundThen500_def modelNotFound_def modelReadError_def
        isRetryableModelError_def)
  have f2: "\<forall>req. modelReadError
      ((modelServerNotFoundThen500 1 :: (model_request, model_response) client)
         (length (sent exampleModelState) + 1) req)
      = Some ''failed to read model: API request failed: 500''"
    by (simp add: e modelServerNotFoundThen500_def modelReadError_def)
  have n2: "\<not> isRetryableModelError (Some ''failed to read model: API request failed: 500'')"
    by (simp add: isRetryableModelError_def)
  note t = fatal_error_stops_retrying
      [where maxRetries = 3 and k = 1
         and m = "server404Then500 1 :: (credential_request, credential_response) client"
         and st = exampleCredentialState
         and e = "''failed to read credential: API request failed: 500''"
         and c = "modelServerNotFoundThen500 1 :: (model_request, model_response) client"
         and mst = exampleModelState and ext = exampleExternals
         and e' = "''failed to read model: API request failed: 500''", OF b]
  have d1: "backoffDelays (1 * Second) 1 = [1000000000]"
    by (simp add: Second_def)
  have d2: "backoffDelays (500 * Millisecond) 1 = [500000000]"
    by (simp add: Millisecond_def)
  obtain st' where c1: "retryCredentialRead (server404Then500 1) 3 exampleCredentialState
            = (Some ''failed to read credential: API request failed: 500'', st')"
    "length (sent st') = length (sent exampleCredentialState) + Suc 1"
    "slept st' = slept exampleCredentialState @ backoffDelays (1 * Second) 1"
    using t h1 f1 n1 by blast
  obtain st2 where c2: "retryModelRead exampleExternals (Client (modelServerNotFoundThen500 1)) 3
            exampleModelState
            = (Some ''failed to read model: API request failed: 500'', st2)"
    "length (sent st2) = length (sent exampleModelState) + Suc 1"
    "slept st2 = slept exampleModelState @ (200 * Millisecond) #
                   backoffDelays (500 * Millisecond) 1"
    using t h2 f2 n2 by blast
  have "length (sent st') = 2" "slept st' = [1000000000]"
    using c1(2,3) d1 e by simp_all
  moreover have "length (sent st2) = 2" "slept st2 = [200000000, 500000000]"
    using c2(2,3) d2 e by (simp_all add: Millisecond_def)
  ultimately show ?thesis using b a1 f1 n1 a2 f2 n2 c1(1) c2(1) by blast
qed

section \<open>Update falls back to create\<close>

text \<open>
  Claim C2.  When the write of an update reports \<open>model_not_found\<close>, the update continues
  as the create call on the state after that write (the recursive call with
  \<open>isUpdate = false\<close>).  The whole call sends exactly two \<open>POST\<close> requests, the update and
  then one create; everything after them is a read.  If the create's own write reports
  \<open>model_not_found\<close> too, the call ends there with the error
  \<open>failed to create model: model_not_found\<close> and nothing further is sent.
\<close>

theorem update_falls_back_to_one_create:
  assumes "\<forall>req. writeNotFound (c (length (sent st)) req)"
  shows "\<exists>upd new gets.
           createOrUpdateModel ext (Client c) True st
             = createOrUpdateModel ext (Client c) False (st\<lparr>sent := sent st @ [upd]\<rparr>) \<and>
           sent (snd (createOrUpdateModel ext (Client c) True st)) = sent st @ upd # new # gets \<and>
           req_method upd = ''POST'' \<and> req_endpoint upd = endpointModelUpdate \<and>
           req_method new = ''POST'' \<and> req_endpoint new = endpointModelNew \<and>
           (\<forall>g \<in> set gets. req_method g = ''GET'') \<and>
           ((\<forall>req. writeNotFound (c (Suc (length (sent st))) req)) \<longrightarrow>
              createOrUpdateModel ext (Client c) True st
                = (Some ''failed to create model: model_not_found'',
                   st\<lparr>uuids_used := Suc (uuids_used st), sent := sent st @ [upd, new]\<rparr>))"
proof -
  obtain upd where u: "createOrUpdateModel ext (Client c) True st =
       (case c (length (sent st)) upd of
          TransportError e \<Rightarrow>
            (Some (''failed to update model: '' @ e), st\<lparr>sent := sent st @ [upd]\<rparr>)
        | Reply status (Inl e) \<Rightarrow>
            if e = ''model_not_found''
            then createOrUpdateModel ext (Client c) False (st\<lparr>sent := sent st @ [upd]\<rparr>)
            else (Some (''failed to update model: '' @ e), st\<lparr>sent := sent st @ [upd]\<rparr>)
        | Reply status (Inr body) \<Rightarrow>
            retryModelRead ext (Client c) 8 (st\<lparr>sent := sent st @ [upd]\<rparr>))"
    and pu: "req_method upd = ''POST''" "req_endpoint upd = endpointModelUpdate"
    by (rule update_cases)
  let ?st1 = "st\<lparr>sent := sent st @ [upd]\<rparr>"
  have "writeNotFound (c (length (sent st)) upd)" using assms by simp
  then obtain status where "c (length (sent st)) upd = Reply status (Inl ''model_not_found'')"
    by (auto simp: writeNotFound_iff)
  then have fb: "createOrUpdateModel ext (Client c) True st
      = createOrUpdateModel ext (Client c) False ?st1"
    using u by simp
  obtain new where n: "createOrUpdateModel ext (Client c) False ?st1 =
       (case c (length (sent ?st1)) new of
          TransportError e \<Rightarrow>
            (Some (''failed to create model: '' @ e),
             ?st1\<lparr>uuids_used := Suc (uuids_used ?st1), sent := sent ?st1 @ [new]\<rparr>)
        | Reply status (Inl e) \<Rightarrow>
            (Some (''failed to create model: '' @ e),
             ?st1\<lparr>uuids_used := Suc (uuids_used ?st1), sent := sent ?st1 @ [new]\<rparr>)
        | Reply status (Inr body) \<Rightarrow>
            retryModelRead ext (Client c) 8
              (?st1\<lparr>uuids_used := Suc (uuids_used ?st1), sent := sent ?st1 @ [new],
                  d := (d ?st1)\<lparr>rid := uuid_New ext (uuids_used ?st1)\<rparr>\<rparr>))"
    and pn: "req_method new = ''POST''" "req_endpoint new = endpointModelNew"
    by (rule create_cases)
  let ?st2 = "?st1\<lparr>uuids_used := Suc (uuids_used ?st1), sent := sent ?st1 @ [new],
                  d := (d ?st1)\<lparr>rid := uuid_New ext (uuids_used ?st1)\<rparr>\<rparr>"
  obtain gets0 where g0: "sent (snd (retryModelRead ext (Client c) 8 ?st2)) = sent ?st2 @ gets0"
    "\<forall>g \<in> set gets0. req_method g = ''GET''"
    using retryModelRead_general [of ext "Client c" 8 ?st2] by blast
  define gets where "gets = (case c (length (sent ?st1)) new of
      Reply status (Inr body) \<Rightarrow> gets0 | _ \<Rightarrow> [])"
  have s: "sent (snd (createOrUpdateModel ext (Client c) False ?st1)) = sent st @ upd # new # gets"
    using n g0(1) by (auto simp: gets_def split: http_result.splits sum.splits)
  have gg: "\<forall>g \<in> set gets. req_method g = ''GET''"
    using g0(2) by (auto simp: gets_def split: http_result.splits sum.splits)
  have second: "createOrUpdateModel ext (Client c) True st
                = (Some ''failed to create model: model_not_found'',
                   st\<lparr>uuids_used := Suc (uuids_used st), sent := sent st @ [upd, new]\<rparr>)"
    if "\<forall>req. writeNotFound (c (Suc (length (sent st))) req)"
  proof -
    have "writeNotFound (c (Suc (length (sent st))) new)" using that by simp
    then obtain status' where
      "c (Suc (length (sent st))) new = Reply status' (Inl ''model_not_found'')"
      by (auto simp: writeNotFound_iff)
    then show ?thesis using n fb by simp
  qed
  show ?thesis
    using fb s pu pn gg second by (intro exI [of _ upd] exI [of _ new] exI [of _ gets]) simp
qed

theorem update_falls_back_to_one_create_witness:
  "(\<forall>req. writeNotFound ((modelServerGone :: (model_request, model_response) client)
            (length (sent exampleModelState)) req)) \<and>
   (\<forall>req. writeNotFound ((modelServerGone :: (model_request, model_response) client)
            (Suc (length (sent exampleModelState))) req)) \<and>
   fst (createOrUpdateModel exampleExternals (Client modelServerGone) True exampleModelState)
     = Some ''failed to create model: model_not_found'' \<and>
   map req_endpoint (sent (snd (createOrUpdateModel exampleExternals (Client modelServerGone)
      True exampleModelState))) = [''/model/update'', ''/model/new'']"
proof -
  have h1: "\<forall>req. writeNotFound ((modelServerGone :: (model_request, model_response) client)
            (length (sent exampleModelState)) req)"
    by (simp add: modelServerGone_def writeNotFound_def)
  have h2: "\<forall>req. writeNotFound ((modelServerGone :: (model_request, model_response) client)
            (Suc (length (sent exampleModelState))) req)"
    by (simp add: modelServerGone_def writeNotFound_def)
  have e: "sent exampleModelState = []" by (simp add: exampleModelState_def)
  note t = update_falls_back_to_one_create
      [where c = "modelServerGone :: (model_request, model_response) client"
         and st = exampleModelState and ext = exampleExternals, OF h1]
  from t obtain upd new where r:
    "req_endpoint upd = endpointModelUpdate" "req_endpoint new = endpointModelNew"
    "(\<forall>req. writeNotFound ((modelServerGone :: (model_request, model_response) client)
            (Suc (length (sent exampleModelState))) req)) \<longrightarrow>
     createOrUpdateModel exampleExternals (Client modelServerGone) True exampleModelState
       = (Some ''failed to create model: model_not_found'',
          exampleModelState\<lparr>uuids_used := Suc (uuids_used exampleModelState),
             sent := sent exampleModelState @ [upd, new]\<rparr>)"
    by (elim exE conjE) (rule that; assumption)
  have r': "createOrUpdateModel exampleExternals (Client modelServerGone) True exampleModelState
       = (Some ''failed to create model: model_not_found'',
          exampleModelState\<lparr>uuids_used := Suc (uuids_used exampleModelState),
             sent := sent exampleModelState @ [upd, new]\<rparr>)"
    using r(3) h2 by (rule mp)
  have "fst (createOrUpdateModel exampleExternals (Client modelServerGone) True exampleModelState)
     = Some ''failed to create model: model_not_found''"
    by (simp add: r')
  moreover have "map req_endpoint (sent (snd (createOrUpdateModel exampleExternals
      (Client modelServerGone) True exampleModelState))) = [''/model/update'', ''/model/new'']"
    using r(1,2) by (simp add: r' e endpointModelUpdate_def endpointModelNew_def)
  ultimately show ?thesis using h1 h2 by (intro conjI)
qed

section \<open>The identifier after a fallback\<close>

text \<open>
  Claim C9.  When an update falls back to a create and that create's write succeeds, one
  UUID is drawn, the create request carries it as the model identifier (the update request
  carried the old one), and \<open>SetId\<close> assigns it: the reconciler starts on a state whose
  identifier is that UUID.  When the first read of the reconciler finds the model, the call
  returns \<open>nil\<close> and the identifier is that UUID, as the claim says.  The claim fails when
  the handler reports \<open>model_not_found\<close> on that read: the call returns \<open>nil\<close> as well, and
  the identifier is empty, not the UUID.  In every case the identifier at the end is the
  UUID or empty; it differs from the non-empty identifier the update was called with
  whenever the generator's draw differs from it, which is what the generator
  (\<open>uuid.New\<close>, outside these files) is relied on for.
\<close>

theorem fallback_identifier_is_uuid_or_empty:
  assumes "\<forall>req. writeNotFound (c (length (sent st)) req)"
    and "\<forall>req. writeOk (c (Suc (length (sent st))) req)"
  shows "\<exists>upd new.
           createOrUpdateModel ext (Client c) True st
             = retryModelRead ext (Client c) 8
                 (st\<lparr>uuids_used := Suc (uuids_used st), sent := sent st @ [upd, new],
                     d := (d st)\<lparr>rid := uuid_New ext (uuids_used st)\<rparr>\<rparr>) \<and>
           req_endpoint new = endpointModelNew \<and>
           (\<exists>body. req_body new = Some body \<and>
              mi_ID (mr_ModelInfo body) = uuid_New ext (uuids_used st)) \<and>
           (\<exists>body. req_body upd = Some body \<and> mi_ID (mr_ModelInfo body) = rid (d st)) \<and>
           (rid (d (snd (createOrUpdateModel ext (Client c) True st)))
               = uuid_New ext (uuids_used st) \<or>
            rid (d (snd (createOrUpdateModel ext (Client c) True st))) = []) \<and>
           uuids_used (snd (createOrUpdateModel ext (Client c) True st))
             = Suc (uuids_used st) \<and>
           ((\<forall>req. modelFound (c (Suc (Suc (length (sent st)))) req)) \<longrightarrow>
              fst (createOrUpdateModel ext (Client c) True st) = None \<and>
              rid (d (snd (createOrUpdateModel ext (Client c) True st)))
                = uuid_New ext (uuids_used st)) \<and>
           ((\<forall>req. modelClears (c (Suc (Suc (length (sent st)))) req)) \<longrightarrow>
              fst (createOrUpdateModel ext (Client c) True st) = None \<and>
              rid (d (snd (createOrUpdateModel ext (Client c) True st))) = []) \<and>
           (uuid_New ext (uuids_used st) \<noteq> rid (d st) \<and> rid (d st) \<noteq> [] \<longrightarrow>
              rid (d (snd (createOrUpdateModel ext (Client c) True st))) \<noteq> rid (d st))"
proof -
  obtain upd where u: "createOrUpdateModel ext (Client c) True st =
       (case c (length (sent st)) upd of
          TransportError e \<Rightarrow>
            (Some (''failed to update model: '' @ e), st\<lparr>sent := sent st @ [upd]\<rparr>)
        | Reply status (Inl e) \<Rightarrow>
            if e = ''model_not_found''
            then createOrUpdateModel ext (Client c) False (st\<lparr>sent := sent st @ [upd]\<rparr>)
            else (Some (''failed to update model: '' @ e), st\<lparr>sent := sent st @ [upd]\<rparr>)
        | Reply status (Inr body) \<Rightarrow>
            retryModelRead ext (Client c) 8 (st\<lparr>sent := sent st @ [upd]\<rparr>))"
    and pu: "req_body upd = Some (buildModelRequest ext (attrs (d st)) (rid (d st)))"
    by (rule update_cases)
  let ?st1 = "st\<lparr>sent := sent st @ [upd]\<rparr>"
  have "writeNotFound (c (length (sent st)) upd)" using assms(1) by simp
  then obtain status where "c (length (sent st)) upd = Reply status (Inl ''model_not_found'')"
    by (auto simp: writeNotFound_iff)
  then have fb: "createOrUpdateModel ext (Client c) True st
      = createOrUpdateModel ext (Client c) False ?st1"
    using u by simp
  obtain new where n: "createOrUpdateModel ext (Client c) False ?st1 =
       (case c (length (sent ?st1)) new of
          TransportError e \<Rightarrow>
            (Some (''failed to create model: '' @ e),
             ?st1\<lparr>uuids_used := Suc (uuids_used ?st1), sent := sent ?st1 @ [new]\<rparr>)
        | Reply status (Inl e) \<Rightarrow>
            (Some (''failed to create model: '' @ e),
             ?st1\<lparr>uuids_used := Suc (uuids_used ?st1), sent := sent ?st1 @ [new]\<rparr>)
        | Reply status (Inr body) \<Rightarrow>
            retryModelRead ext (Client c) 8
              (?st1\<lparr>uuids_used := Suc (uuids_used ?st1), sent := sent ?st1 @ [new],
                  d := (d ?st1)\<lparr>rid := uuid_New ext (uuids_used ?st1)\<rparr>\<rparr>))"
    and pn: "req_endpoint new = endpointModelNew"
      "req_body new = Some (buildModelRequest ext (attrs (d ?st1)) (uuid_New ext (uuids_used ?st1)))"
    by (rule create_cases)
  let ?st2 = "st\<lparr>uuids_used := Suc (uuids_used st), sent := sent st @ [upd, new],
                     d := (d st)\<lparr>rid := uuid_New ext (uuids_used st)\<rparr>\<rparr>"
  have "writeOk (c (Suc (length (sent st))) new)" using assms(2) by simp
  then obtain status' body where "c (Suc (length (sent st))) new = Reply status' (Inr body)"
    by (auto simp: writeOk_iff)
  then have r: "createOrUpdateModel ext (Client c) True st = retryModelRead ext (Client c) 8 ?st2"
    using n fb by simp
  have g: "(rid (d (snd (retryModelRead ext (Client c) 8 ?st2))) = rid (d ?st2) \<or>
            rid (d (snd (retryModelRead ext (Client c) 8 ?st2))) = []) \<and>
           uuids_used (snd (retryModelRead ext (Client c) 8 ?st2)) = uuids_used ?st2"
    using retryModelRead_general [of ext "Client c" 8 ?st2] by blast
  have b1: "\<exists>body. req_body new = Some body \<and>
              mi_ID (mr_ModelInfo body) = uuid_New ext (uuids_used st)"
    using pn(2) by (simp add: buildModelRequest_def)
  have b2: "\<exists>body. req_body upd = Some body \<and> mi_ID (mr_ModelInfo body) = rid (d st)"
    using pu by (simp add: buildModelRequest_def)
  have b8: "(1::int) \<le> 8" by simp
  have len: "length (sent ?st2) = Suc (Suc (length (sent st)))" by simp
  have f: "fst (retryModelRead ext (Client c) 8 ?st2) = None \<and>
           rid (d (snd (retryModelRead ext (Client c) 8 ?st2))) = uuid_New ext (uuids_used st)"
    if h: "\<forall>req. modelFound (c (Suc (Suc (length (sent st)))) req)"
  proof -
    have h': "\<forall>req. modelFound (c (length (sent ?st2)) req)" using h unfolding len .
    show ?thesis
      using model_reconciler_keeps_found_identifier
        [where c = c and st = ?st2 and maxRetries = 8 and ext = ext, OF b8 h']
      by simp
  qed
  have e: "fst (retryModelRead ext (Client c) 8 ?st2) = None \<and>
           rid (d (snd (retryModelRead ext (Client c) 8 ?st2))) = []"
    if h: "\<forall>req. modelClears (c (Suc (Suc (length (sent st)))) req)"
  proof -
    have h': "\<forall>req. modelClears (c (length (sent ?st2)) req)" using h unfolding len .
    obtain req where "retryModelRead ext (Client c) 8 ?st2 =
           (None, ?st2\<lparr>d := (d ?st2)\<lparr>rid := []\<rparr>, sent := sent ?st2 @ [req],
                     slept := slept ?st2 @ [200 * Millisecond]\<rparr>)"
      using model_reconciler_accepts_cleared_identifier
        [where c = c and st = ?st2 and maxRetries = 8 and ext = ext, OF b8 h']
      by (elim exE)
    then show ?thesis by simp
  qed
  have n: "rid (d (snd (retryModelRead ext (Client c) 8 ?st2))) \<noteq> rid (d st)"
    if h: "uuid_New ext (uuids_used st) \<noteq> rid (d st) \<and> rid (d st) \<noteq> []"
    using g h by auto
  have all: "(rid (d (snd (retryModelRead ext (Client c) 8 ?st2)))
               = uuid_New ext (uuids_used st) \<or>
            rid (d (snd (retryModelRead ext (Client c) 8 ?st2))) = []) \<and>
           uuids_used (snd (retryModelRead ext (Client c) 8 ?st2))
             = Suc (uuids_used st) \<and>
           ((\<forall>req. modelFound (c (Suc (Suc (length (sent st)))) req)) \<longrightarrow>
              fst (retryModelRead ext (Client c) 8 ?st2) = None \<and>
              rid (d (snd (retryModelRead ext (Client c) 8 ?st2)))
                = uuid_New ext (uuids_used st)) \<and>
           ((\<forall>req. modelClears (c (Suc (Suc (length (sent st)))) req)) \<longrightarrow>
              fst (retryModelRead ext (Client c) 8 ?st2) = None \<and>
              rid (d (snd (retryModelRead ext (Client c) 8 ?st2))) = []) \<and>
           (uuid_New ext (uuids_used st) \<noteq> rid (d st) \<and> rid (d st) \<noteq> [] \<longrightarrow>
              rid (d (snd (retryModelRead ext (Client c) 8 ?st2))) \<noteq> rid (d st))"
    using g f e n by simp
  show ?thesis
    using r all pn(1) b1 b2 by (intro exI [of _ upd] exI [of _ new]) simp
qed

theorem fallback_identifier_is_uuid_or_empty_witness:
  "(\<forall>req. writeNotFound ((modelServerRecreate :: (model_request, model_response) client)
            (length (sent exampleModelState)) req)) \<and>
   (\<forall>req. writeOk ((modelServerRecreate :: (model_request, model_response) client)
            (Suc (length (sent exampleModelState))) req)) \<and>
   (\<forall>req. modelFound ((modelServerRecreate :: (model_request, model_response) client)
            (Suc (Suc (length (sent exampleModelState)))) req)) \<and>
   rid (d exampleModelState) = ''model-1'' \<and>
   fst (createOrUpdateModel exampleExternals (Client modelServerRecreate) True
        exampleModelState) = None \<and>
   rid (d (snd (createOrUpdateModel exampleExternals (Client modelServerRecreate) True
        exampleModelState))) = ''3b241101-e2bb-4255-8caf-4136c566a962'' \<and>
   uuids_used (snd (createOrUpdateModel exampleExternals (Client modelServerRecreate) True
        exampleModelState)) = 1 \<and>
   (\<forall>req. writeNotFound
            ((modelServerRecreateThenGone :: (model_request, model_response) client)
            (length (sent exampleModelState)) req)) \<and>
   (\<forall>req. writeOk ((modelServerRecreateThenGone :: (model_request, model_response) client)
            (Suc (length (sent exampleModelState))) req)) \<and>
   (\<forall>req. modelClears
            ((modelServerRecreateThenGone :: (model_request, model_response) client)
            (Suc (Suc (length (sent exampleModelState)))) req)) \<and>
   fst (createOrUpdateModel exampleExternals (Client modelServerRecreateThenGone) True
        exampleModelState) = None \<and>
   rid (d (snd (createOrUpdateModel exampleExternals (Client modelServerRecreateThenGone) True
        exampleModelState))) = []"
proof -
  have e: "sent exampleModelState = []" "uuids_used exampleModelState = 0"
    "rid (d exampleModelState) = ''model-1''"
    by (simp_all add: exampleModelState_def)
  have h1: "\<forall>req. writeNotFound ((modelServerRecreate :: (model_request, model_response) client)
            (length (sent exampleModelState)) req)"
    by (simp add: e modelServerRecreate_def writeNotFound_def)
  have h2: "\<forall>req. writeOk ((modelServerRecreate :: (model_request, model_response) client)
            (Suc (length (sent exampleModelState))) req)"
    by (simp add: modelServerRecreate_def writeOk_def)
  have h3: "\<forall>req. modelFound ((modelServerRecreate :: (model_request, model_response) client)
            (Suc (Suc (length (sent exampleModelState)))) req)"
    by (simp add: modelServerRecreate_def modelFound_def)
  have k1: "\<forall>req. writeNotFound
            ((modelServerRecreateThenGone :: (model_request, model_response) client)
            (length (sent exampleModelState)) req)"
    by (simp add: e modelServerRecreateThenGone_def writeNotFound_def)
  have k2: "\<forall>req. writeOk
            ((modelServerRecreateThenGone :: (model_request, model_response) client)
            (Suc (length (sent exampleModelState))) req)"
    by (simp add: e modelServerRecreateThenGone_def writeOk_def)
  have k3: "\<forall>req. modelClears
            ((modelServerRecreateThenGone :: (model_request, model_response) client)
            (Suc (Suc (length (sent exampleModelState)))) req)"
    by (simp add: e modelServerRecreateThenGone_def modelClears_def)
  have u: "uuid_New exampleExternals (uuids_used exampleModelState)
      = ''3b241101-e2bb-4255-8caf-4136c566a962''"
    by (simp add: e exampleExternals_def)
  note t = fallback_identifier_is_uuid_or_empty
      [where c = "modelServerRecreate :: (model_request, model_response) client"
         and st = exampleModelState and ext = exampleExternals, OF h1 h2]
  note t' = fallback_identifier_is_uuid_or_empty
      [where c = "modelServerRecreateThenGone :: (model_request, model_response) client"
         and st = exampleModelState and ext = exampleExternals, OF k1 k2]
  from t have r1:
    "(\<forall>req. modelFound ((modelServerRecreate :: (model_request, model_response) client)
            (Suc (Suc (length (sent exampleModelState)))) req)) \<longrightarrow>
     fst (createOrUpdateModel exampleExternals (Client modelServerRecreate) True
        exampleModelState) = None \<and>
     rid (d (snd (createOrUpdateModel exampleExternals (Client modelServerRecreate) True
        exampleModelState))) = uuid_New exampleExternals (uuids_used exampleModelState)"
    by (elim exE conjE)
  from t have r2:
    "uuids_used (snd (createOrUpdateModel exampleExternals (Client modelServerRecreate) True
        exampleModelState)) = Suc (uuids_used exampleModelState)"
    by (elim exE conjE)
  from t' have r3:
    "(\<forall>req. modelClears
            ((modelServerRecreateThenGone :: (model_request, model_response) client)
            (Suc (Suc (length (sent exampleModelState)))) req)) \<longrightarrow>
     fst (createOrUpdateModel exampleExternals (Client modelServerRecreateThenGone) True
        exampleModelState) = None \<and>
     rid (d (snd (createOrUpdateModel exampleExternals (Client modelServerRecreateThenGone)
        True exampleModelState))) = []"
    by (elim exE conjE)
  have p1: "fst (createOrUpdateModel exampleExternals (Client modelServerRecreate) True
        exampleModelState) = None"
    "rid (d (snd (createOrUpdateModel exampleExternals (Client modelServerRecreate) True
        exampleModelState))) = ''3b241101-e2bb-4255-8caf-4136c566a962''"
    using r1 h3 unfolding u by simp_all
  have p2: "uuids_used (snd (createOrUpdateModel exampleExternals (Client modelServerRecreate)
        True exampleModelState)) = 1"
    using r2 by (simp add: e)
  have p3: "fst (createOrUpdateModel exampleExternals (Client modelServerRecreateThenGone) True
        exampleModelState) = None"
    "rid (d (snd (createOrUpdateModel exampleExternals (Client modelServerRecreateThenGone)
        True exampleModelState))) = []"
    using r3 k3 by simp_all
  show ?thesis using h1 h2 h3 e(3) p1 p2 k1 k2 k3 p3 by (intro conjI)
qed

section \<open>Identifier restoration\<close>

text \<open>
  Claim C1.  The claim holds for \<open>retryCredentialRead\<close> (lemma
  \<open>retryCredentialRead_keeps_identifier\<close>) and fails for \<open>retryModelRead\<close>.  The server's
  handler reports \<open>model_not_found\<close> on the first read of the model \<open>model-1\<close> with a budget
  of 8: the read clears the identifier and returns \<open>nil\<close>, and the reconciler returns \<open>nil\<close>
  at once, after one request and the settle delay alone, with the identifier left empty.
  It neither restores the identifier nor retries.  On the matching input the credential
  reconciler ends with the identifier it started with.
\<close>

theorem model_reconciler_returns_nil_with_empty_identifier:
  "rid (d exampleModelState) = ''model-1'' \<and>
   fst (retryModelRead exampleExternals (Client modelServerGone) 8 exampleModelState) = None \<and>
   rid (d (snd (retryModelRead exampleExternals (Client modelServerGone) 8 exampleModelState)))
     = [] \<and>
   length (sent (snd (retryModelRead exampleExternals (Client modelServerGone) 8
     exampleModelState))) = 1 \<and>
   slept (snd (retryModelRead exampleExternals (Client modelServerGone) 8 exampleModelState))
     = [200000000] \<and>
   rid (d (snd (retryCredentialRead
      (server404 :: (credential_request, credential_response) client) 8
      exampleCredentialState))) = ''test-cred''"
proof -
  have b: "(1::int) \<le> 8" by simp
  have h: "\<forall>req. modelClears ((modelServerGone :: (model_request, model_response) client)
      (length (sent exampleModelState)) req)"
    by (simp add: modelServerGone_def modelClears_def)
  from model_reconciler_accepts_cleared_identifier
    [where c = "modelServerGone :: (model_request, model_response) client" and st = exampleModelState
       and ext = exampleExternals and maxRetries = 8, OF b h]
  obtain req where r:
    "retryModelRead exampleExternals (Client modelServerGone) 8 exampleModelState =
       (None, exampleModelState\<lparr>d := (d exampleModelState)\<lparr>rid := []\<rparr>,
                sent := sent exampleModelState @ [req],
                slept := slept exampleModelState @ [200 * Millisecond]\<rparr>)"
    by (elim exE)
  have e: "sent exampleModelState = []" "slept exampleModelState = []"
    "rid (d exampleModelState) = ''model-1''"
    by (simp_all add: exampleModelState_def)
  have k: "rid (d (snd (retryCredentialRead
      (server404 :: (credential_request, credential_response) client) 8
      exampleCredentialState))) = ''test-cred''"
    using retryCredentialRead_keeps_identifier
      [of "server404 :: (credential_request, credential_response) client" 8
         exampleCredentialState]
    by (simp add: exampleCredentialState_def)
  show ?thesis using k by (simp add: r e Millisecond_def)
qed

section \<open>The error that reaches the caller when the budget is exhausted\<close>

text \<open>
  Claim C4, as stated, says that the error of an exhausted budget reaches the caller wrapped
  with an operation-kind prefix.  It does not for a credential: after a successful write
  and five reads answered with 404, \<open>resourceLiteLLMCredentialCreate\<close> returns the bare
  sentinel \<open>credential_not_found\<close>, which starts with none of the operation prefixes (the
  repository's test of an exhausted budget expects exactly this message).
\<close>

theorem exhausted_credential_error_has_no_prefix:
  "fst (resourceLiteLLMCredentialCreate serverThen404 exampleCredentialState)
     = Some ''credential_not_found'' \<and>
   \<not> hasOperationPrefix ''credential_not_found''"
proof -
  let ?m = "serverThen404 :: (credential_request, credential_response) client"
  have w: "\<forall>req. writeOk (?m (length (sent exampleCredentialState)) req)"
    by (simp add: serverThen404_def writeOk_def exampleCredentialState_def)
  from credential_create_write_ok [where m = ?m and st = exampleCredentialState, OF w]
  obtain st2 where s:
    "resourceLiteLLMCredentialCreate ?m exampleCredentialState = retryCredentialRead ?m 5 st2"
    "length (sent st2) = Suc (length (sent exampleCredentialState))"
    by (elim exE conjE)
  have l: "length (sent st2) = 1" using s(2) by (simp add: exampleCredentialState_def)
  have b: "(1::int) \<le> 5" by simp
  have h: "\<forall>j < nat 5. \<forall>req. credentialNotFound (?m (length (sent st2) + j) req)"
    by (simp add: l serverThen404_def credentialNotFound_def credentialClears_def)
  have f: "\<forall>req. ?m (length (sent st2) + (nat 5 - 1)) req = Reply 404 (Inl [])"
    by (simp add: l serverThen404_def)
  have "fst (retryCredentialRead ?m 5 st2) = credentialAttemptError (Reply 404 (Inl []))"
    by (rule credential_exhausted_last_error [OF b h f])
  then have "fst (resourceLiteLLMCredentialCreate ?m exampleCredentialState)
     = Some ''credential_not_found''"
    by (simp add: s(1) credentialAttemptError_def credentialClears_def)
  moreover have "\<not> hasOperationPrefix ''credential_not_found''"
    by (simp add: hasOperationPrefix_def operationPrefixes_def)
  ultimately show ?thesis by (intro conjI)
qed

text \<open>
  Claim C4, amended.  When the budget is exhausted with not-found attempts only, either
  reconciler returns the error of the final attempt unchanged, so that it depends on the
  last reply alone, and the operations that call the reconciler (\<open>createOrUpdateModel\<close>,
  \<open>resourceLiteLLMCredentialCreate\<close>) return it unchanged as well.  That error carries the
  prefix the read itself put on it (\<open>failed to read model: \<close>, \<open>failed to read credential: \<close>)
  when the read returned an error, and it is the bare sentinel \<open>credential_not_found\<close> when
  the credential read cleared the identifier.
\<close>

theorem exhausted_budget_returns_last_error_unchanged:
  assumes "1 \<le> maxRetries"
  shows "((\<forall>j < nat maxRetries. \<forall>req. credentialNotFound (m (length (sent st) + j) req)) \<and>
          (\<forall>req. m (length (sent st) + (nat maxRetries - 1)) req = r) \<longrightarrow>
            fst (retryCredentialRead m maxRetries st) = credentialAttemptError r \<and>
            (credentialClears r \<longrightarrow>
               fst (retryCredentialRead m maxRetries st) = Some ''credential_not_found'') \<and>
            (\<not> credentialClears r \<longrightarrow>
               (\<exists>e. fst (retryCredentialRead m maxRetries st)
                      = Some (''failed to read credential: '' @ e)))) \<and>
         ((\<forall>j < nat maxRetries. \<forall>req. modelNotFound (c (length (sent mst) + j) req)) \<and>
          (\<forall>req. c (length (sent mst) + (nat maxRetries - 1)) req = r') \<longrightarrow>
            fst (retryModelRead ext (Client c) maxRetries mst) = modelReadError r' \<and>
            (\<exists>e. fst (retryModelRead ext (Client c) maxRetries mst)
                   = Some (''failed to read model: '' @ e))) \<and>
         ((\<forall>req. writeOk (mw (length (sent stw)) req)) \<and>
          (\<forall>j < 5. \<forall>req. credentialNotFound (mw (Suc (length (sent stw)) + j) req)) \<and>
          (\<forall>req. mw (Suc (length (sent stw)) + 4) req = r) \<longrightarrow>
            fst (resourceLiteLLMCredentialCreate mw stw) = credentialAttemptError r) \<and>
         ((\<forall>req. writeOk (cw (length (sent mstw)) req)) \<and>
          (\<forall>j < 8. \<forall>req. modelNotFound (cw (Suc (length (sent mstw)) + j) req)) \<and>
          (\<forall>req. cw (Suc (length (sent mstw)) + 7) req = r') \<longrightarrow>
            fst (createOrUpdateModel ext (Client cw) isUpdate mstw) = modelReadError r')"
proof -
  have A: "fst (retryCredentialRead m maxRetries st) = credentialAttemptError r \<and>
            (credentialClears r \<longrightarrow>
               fst (retryCredentialRead m maxRetries st) = Some ''credential_not_found'') \<and>
            (\<not> credentialClears r \<longrightarrow>
               (\<exists>e. fst (retryCredentialRead m maxRetries st)
                      = Some (''failed to read credential: '' @ e)))"
    if h: "\<forall>j < nat maxRetries. \<forall>req. credentialNotFound (m (length (sent st) + j) req)"
      and f: "\<forall>req. m (length (sent st) + (nat maxRetries - 1)) req = r"
  proof -
    have e: "fst (retryCredentialRead m maxRetries st) = credentialAttemptError r"
      by (rule credential_exhausted_last_error [OF assms h f])
    have nf: "credentialNotFound r"
    proof -
      have lt: "nat maxRetries - 1 < nat maxRetries" using assms by simp
      have "credentialNotFound (m (length (sent st) + (nat maxRetries - 1)) undefined)"
        using h lt by blast
      moreover have "m (length (sent st) + (nat maxRetries - 1)) undefined = r"
        using f by (rule spec)
      ultimately show ?thesis by metis
    qed
    have c1: "fst (retryCredentialRead m maxRetries st) = Some ''credential_not_found''"
      if "credentialClears r"
      using e that by (simp add: credentialAttemptError_def)
    have c2: "\<exists>e. fst (retryCredentialRead m maxRetries st)
                      = Some (''failed to read credential: '' @ e)"
      if nc: "\<not> credentialClears r"
    proof -
      obtain msg where msg: "credentialReadError r = Some msg"
        using nf nc by (cases "credentialReadError r") (simp_all add: credentialNotFound_def)
      obtain e' where "msg = ''failed to read credential: '' @ e'"
        using credentialReadError_prefix [OF msg] by (elim exE)
      then have "fst (retryCredentialRead m maxRetries st)
                      = Some (''failed to read credential: '' @ e')"
        using e nc msg by (simp add: credentialAttemptError_def)
      then show ?thesis by (rule exI)
    qed
    show ?thesis using e c1 c2 by (intro conjI impI)
  qed
  have B: "fst (retryModelRead ext (Client c) maxRetries mst) = modelReadError r' \<and>
            (\<exists>e. fst (retryModelRead ext (Client c) maxRetries mst)
                   = Some (''failed to read model: '' @ e))"
    if h: "\<forall>j < nat maxRetries. \<forall>req. modelNotFound (c (length (sent mst) + j) req)"
      and f: "\<forall>req. c (length (sent mst) + (nat maxRetries - 1)) req = r'"
  proof -
    have e: "fst (retryModelRead ext (Client c) maxRetries mst) = modelReadError r'"
      by (rule model_exhausted_last_error [OF assms h f])
    have lt: "nat maxRetries - 1 < nat maxRetries" using assms by simp
    have "modelNotFound (c (length (sent mst) + (nat maxRetries - 1)) undefined)"
      using h lt by blast
    moreover have "c (length (sent mst) + (nat maxRetries - 1)) undefined = r'"
      using f by (rule spec)
    ultimately have "modelNotFound r'" by metis
    then have "isRetryableModelError (modelReadError r')"
      by (simp add: modelNotFound_def)
    then obtain msg where msg: "modelReadError r' = Some msg"
      by (cases "modelReadError r'") (simp_all add: isRetryableModelError_def)
    obtain e' where "msg = ''failed to read model: '' @ e'"
      using modelReadError_prefix [OF msg] by (elim exE)
    then have "fst (retryModelRead ext (Client c) maxRetries mst)
                   = Some (''failed to read model: '' @ e')"
      using e msg by simp
    then have "\<exists>e. fst (retryModelRead ext (Client c) maxRetries mst)
                   = Some (''failed to read model: '' @ e)"
      by (rule exI)
    then show ?thesis using e by (intro conjI)
  qed
  have C: "fst (resourceLiteLLMCredentialCreate mw stw) = credentialAttemptError r"
    if w: "\<forall>req. writeOk (mw (length (sent stw)) req)"
      and h: "\<forall>j < 5. \<forall>req. credentialNotFound (mw (Suc (length (sent stw)) + j) req)"
      and f: "\<forall>req. mw (Suc (length (sent stw)) + 4) req = r"
  proof -
    from credential_create_write_ok [where m = mw and st = stw, OF w]
    obtain st2 where s: "resourceLiteLLMCredentialCreate mw stw = retryCredentialRead mw 5 st2"
      "length (sent st2) = Suc (length (sent stw))"
      by (elim exE conjE)
    have b: "(1::int) \<le> 5" by simp
    have h': "\<forall>j < nat 5. \<forall>req. credentialNotFound (mw (length (sent st2) + j) req)"
      using h s(2) by simp
    have f': "\<forall>req. mw (length (sent st2) + (nat 5 - 1)) req = r"
      using f s(2) by simp
    show ?thesis unfolding s(1) by (rule credential_exhausted_last_error [OF b h' f'])
  qed
  have D: "fst (createOrUpdateModel ext (Client cw) isUpdate mstw) = modelReadError r'"
    if w: "\<forall>req. writeOk (cw (length (sent mstw)) req)"
      and h: "\<forall>j < 8. \<forall>req. modelNotFound (cw (Suc (length (sent mstw)) + j) req)"
      and f: "\<forall>req. cw (Suc (length (sent mstw)) + 7) req = r'"
  proof -
    from upsert_write_ok [where c = cw and st = mstw and ext = ext and isUpdate = isUpdate, OF w]
    obtain st2 where s:
      "createOrUpdateModel ext (Client cw) isUpdate mstw = retryModelRead ext (Client cw) 8 st2"
      "length (sent st2) = Suc (length (sent mstw))"
      by (elim exE conjE)
    have b: "(1::int) \<le> 8" by simp
    have h': "\<forall>j < nat 8. \<forall>req. modelNotFound (cw (length (sent st2) + j) req)"
      using h s(2) by simp
    have f': "\<forall>req. cw (length (sent st2) + (nat 8 - 1)) req = r'"
      using f s(2) by simp
    show ?thesis unfolding s(1) by (rule model_exhausted_last_error [OF b h' f'])
  qed
  show ?thesis
  proof (intro conjI)
    show "(\<forall>j < nat maxRetries. \<forall>req. credentialNotFound (m (length (sent st) + j) req)) \<and>
          (\<forall>req. m (length (sent st) + (nat maxRetries - 1)) req = r) \<longrightarrow>
            fst (retryCredentialRead m maxRetries st) = credentialAttemptError r \<and>
            (credentialClears r \<longrightarrow>
               fst (retryCredentialRead m maxRetries st) = Some ''credential_not_found'') \<and>
            (\<not> credentialClears r \<longrightarrow>
               (\<exists>e. fst (retryCredentialRead m maxRetries st)
                      = Some (''failed to read credential: '' @ e)))"
      by (intro impI, elim conjE, rule A, assumption+)
    show "(\<forall>j < nat maxRetries. \<forall>req. modelNotFound (c (length (sent mst) + j) req)) \<and>
          (\<forall>req. c (length (sent mst) + (nat maxRetries - 1)) req = r') \<longrightarrow>
            fst (retryModelRead ext (Client c) maxRetries mst) = modelReadError r' \<and>
            (\<exists>e. fst (retryModelRead ext (Client c) maxRetries mst)
                   = Some (''failed to read model: '' @ e))"
      by (intro impI, elim conjE, rule B, assumption+)
    show "(\<forall>req. writeOk (mw (length (sent stw)) req)) \<and>
          (\<forall>j < 5. \<forall>req. credentialNotFound (mw (Suc (length (sent stw)) + j) req)) \<and>
          (\<forall>req. mw (Suc (length (sent stw)) + 4) req = r) \<longrightarrow>
            fst (resourceLiteLLMCredentialCreate mw stw) = credentialAttemptError r"
      by (intro impI, elim conjE, rule C, assumption+)
    show "(\<forall>req. writeOk (cw (length (sent mstw)) req)) \<and>
          (\<forall>j < 8. \<forall>req. modelNotFound (cw (Suc (length (sent mstw)) + j) req)) \<and>
          (\<forall>req. cw (Suc (length (sent mstw)) + 7) req = r') \<longrightarrow>
            fst (createOrUpdateModel ext (Client cw) isUpdate mstw) = modelReadError r'"
      by (intro impI, elim conjE, rule D, assumption+)
  qed
qed


theorem exhausted_budget_returns_last_error_unchanged_witness:
  "(1::int) \<le> 2 \<and>
   (\<forall>n req. credentialNotFound
      ((server404 :: (credential_request, credential_response) client) n req)) \<and>
   (\<forall>req. (server404 :: (credential_request, credential_response) client)
      (length (sent exampleCredentialState) + (nat 2 - 1)) req = Reply 404 (Inl [])) \<and>
   credentialClears (Reply 404 (Inl [])) \<and>
   fst (retryCredentialRead (server404 :: (credential_request, credential_response) client) 2
          exampleCredentialState) = Some ''credential_not_found'' \<and>
   (\<forall>n req. modelNotFound ((modelServerNotFound :: (model_request, model_response) client) n req)) \<and>
   (\<forall>req. (modelServerNotFound :: (model_request, model_response) client)
      (length (sent exampleModelState) + (nat 2 - 1)) req
        = Reply 404 (Inl ''API request failed: model not found'')) \<and>
   fst (retryModelRead exampleExternals (Client modelServerNotFound) 2 exampleModelState)
     = Some ''failed to read model: API request failed: model not found'' \<and>
   (\<forall>req. writeOk ((serverThen404 :: (credential_request, credential_response) client)
      (length (sent exampleCredentialState)) req)) \<and>
   (\<forall>n req. credentialNotFound
      ((serverThen404 :: (credential_request, credential_response) client) (Suc n) req)) \<and>
   (\<forall>req. (serverThen404 :: (credential_request, credential_response) client)
      (Suc (length (sent exampleCredentialState)) + 4) req = Reply 404 (Inl [])) \<and>
   fst (resourceLiteLLMCredentialCreate serverThen404 exampleCredentialState)
     = Some ''credential_not_found'' \<and>
   (\<forall>req. writeOk ((modelServerThenNotFound :: (model_request, model_response) client)
      (length (sent exampleModelState)) req)) \<and>
   (\<forall>n req. modelNotFound
      ((modelServerThenNotFound :: (model_request, model_response) client) (Suc n) req)) \<and>
   (\<forall>req. (modelServerThenNotFound :: (model_request, model_response) client)
      (Suc (length (sent exampleModelState)) + 7) req
        = Reply 404 (Inl ''API request failed: model not found'')) \<and>
   fst (createOrUpdateModel exampleExternals (Client modelServerThenNotFound) False
          exampleModelState)
     = Some ''failed to read model: API request failed: model not found''"
proof -
  let ?m = "server404 :: (credential_request, credential_response) client"
  let ?c = "modelServerNotFound :: (model_request, model_response) client"
  let ?mw = "serverThen404 :: (credential_request, credential_response) client"
  let ?cw = "modelServerThenNotFound :: (model_request, model_response) client"
  let ?r = "Reply 404 (Inl []) :: credential_response http_result"
  let ?r' = "Reply 404 (Inl ''API request failed: model not found'') :: model_response http_result"
  have e: "sent exampleCredentialState = []" "sent exampleModelState = []"
    by (simp_all add: exampleCredentialState_def exampleModelState_def)
  have b: "(1::int) \<le> 2" by simp
  have a1: "\<forall>n req. credentialNotFound (?m n req)"
    by (simp add: server404_def credentialNotFound_def credentialClears_def)
  have a2: "\<forall>n req. modelNotFound (?c n req)"
    by (simp add: modelServerNotFound_def modelNotFound_def modelReadError_def
        isRetryableModelError_def)
  have a3: "\<forall>n req. credentialNotFound (?mw (Suc n) req)"
    by (simp add: serverThen404_def credentialNotFound_def credentialClears_def)
  have a4: "\<forall>n req. modelNotFound (?cw (Suc n) req)"
    by (simp add: modelServerThenNotFound_def modelNotFound_def modelReadError_def
        isRetryableModelError_def)
  have h1: "\<forall>j < nat 2. \<forall>req. credentialNotFound (?m (length (sent exampleCredentialState) + j) req)"
    by (simp add: server404_def credentialNotFound_def credentialClears_def)
  have f1: "\<forall>req. ?m (length (sent exampleCredentialState) + (nat 2 - 1)) req = ?r"
    by (simp add: server404_def)
  have cl: "credentialClears ?r" by (simp add: credentialClears_def)
  have h2: "\<forall>j < nat 2. \<forall>req. modelNotFound (?c (length (sent exampleModelState) + j) req)"
    by (simp add: modelServerNotFound_def modelNotFound_def modelReadError_def
        isRetryableModelError_def)
  have f2: "\<forall>req. ?c (length (sent exampleModelState) + (nat 2 - 1)) req = ?r'"
    by (simp add: modelServerNotFound_def)
  have w3: "\<forall>req. writeOk (?mw (length (sent exampleCredentialState)) req)"
    by (simp add: e serverThen404_def writeOk_def)
  have h3: "\<forall>j < 5. \<forall>req. credentialNotFound
      (?mw (Suc (length (sent exampleCredentialState)) + j) req)"
    by (simp add: serverThen404_def credentialNotFound_def credentialClears_def)
  have f3: "\<forall>req. ?mw (Suc (length (sent exampleCredentialState)) + 4) req = ?r"
    by (simp add: serverThen404_def)
  have w4: "\<forall>req. writeOk (?cw (length (sent exampleModelState)) req)"
    by (simp add: e modelServerThenNotFound_def writeOk_def)
  have h4: "\<forall>j < 8. \<forall>req. modelNotFound (?cw (Suc (length (sent exampleModelState)) + j) req)"
    by (simp add: modelServerThenNotFound_def modelNotFound_def modelReadError_def
        isRetryableModelError_def)
  have f4: "\<forall>req. ?cw (Suc (length (sent exampleModelState)) + 7) req = ?r'"
    by (simp add: modelServerThenNotFound_def)
  note t = exhausted_budget_returns_last_error_unchanged
      [where maxRetries = 2 and m = ?m and st = exampleCredentialState and r = ?r
         and c = ?c and mst = exampleModelState and r' = ?r' and ext = exampleExternals
         and mw = ?mw and stw = exampleCredentialState
         and cw = ?cw and mstw = exampleModelState and isUpdate = False, OF b]
  have "fst (retryCredentialRead ?m 2 exampleCredentialState) = credentialAttemptError ?r"
    using t [THEN conjunct1, rule_format, OF conjI, OF h1 f1] by (rule conjunct1)
  then have c1: "fst (retryCredentialRead ?m 2 exampleCredentialState)
      = Some ''credential_not_found''"
    by (simp add: credentialAttemptError_def credentialClears_def)
  have "fst (retryModelRead exampleExternals (Client ?c) 2 exampleModelState) = modelReadError ?r'"
    using t [THEN conjunct2, THEN conjunct1, rule_format, OF conjI, OF h2 f2]
    by (rule conjunct1)
  then have c2: "fst (retryModelRead exampleExternals (Client ?c) 2 exampleModelState)
      = Some ''failed to read model: API request failed: model not found''"
    by (simp add: modelReadError_def)
  have "fst (resourceLiteLLMCredentialCreate ?mw exampleCredentialState)
      = credentialAttemptError ?r"
    by (rule t [THEN conjunct2, THEN conjunct2, THEN conjunct1, THEN mp])
      (intro conjI w3 h3 f3)
  then have c3: "fst (resourceLiteLLMCredentialCreate ?mw exampleCredentialState)
      = Some ''credential_not_found''"
    by (simp add: credentialAttemptError_def credentialClears_def)
  have "fst (createOrUpdateModel exampleExternals (Client ?cw) False exampleModelState)
      = modelReadError ?r'"
    by (rule t [THEN conjunct2, THEN conjunct2, THEN conjunct2, THEN mp])
      (intro conjI w4 h4 f4)
  then have c4: "fst (createOrUpdateModel exampleExternals (Client ?cw) False exampleModelState)
      = Some ''failed to read model: API request failed: model not found''"
    by (simp add: modelReadError_def)
  show ?thesis
    using b a1 f1 cl c1 a2 f2 c2 w3 a3 f3 c3 w4 a4 f4 c4 by (intro conjI)
qed

section \<open>Coercion and dropping of additional parameters\<close>

text \<open>
  Claim C8, as stated, has every string value tried as JSON first.  The code tries JSON only
  on a string that starts, after trimming, with \<open>[\<close> or \<open>{\<close>.  The additional parameter
  \<open>user_tag = "null"\<close> is a JSON text, so the stated order yields the JSON value \<open>null\<close>; the
  payload that the code builds carries the string \<open>"null"\<close>.
\<close>

theorem json_is_not_tried_on_every_string:
  "mr_LiteLLMParams (buildModelRequest exampleExternals (attrs (d exampleModelState)) ''id'')
     ''user_tag'' = Some (VString ''null'') \<and>
   specCoerce exampleExternals ''null'' = VNil"
proof -
  let ?a = "attrs (d exampleModelState)"
  have bag: "additional_litellm_params ?a =
      [(''user_tag'', VString ''null''), (''additional_drop_params'', VString dropListText),
       (''max_retries'', VString ''42'')]"
    by (simp add: exampleModelState_def)
  have dl: "dropListText \<noteq> ''null''" "dropListText \<noteq> ''42''"
    by (simp_all add: dropListText_def)
  have x: "json_Unmarshal exampleExternals dropListText = Some (VList [VString ''tpm''])"
    "json_Unmarshal exampleExternals ''42'' = None"
    "json_Unmarshal exampleExternals ''null'' = Some VNil"
    "strconv_Atoi exampleExternals ''null'' = None"
    "strconv_ParseFloat exampleExternals ''null'' = None"
    "strconv_Atoi exampleExternals ''42'' = Some 42"
    "strings_TrimSpace exampleExternals = (\<lambda>s. s)"
    using dl by (simp_all add: exampleExternals_def)
  have g1: "looksLikeJSON exampleExternals dropListText"
    by (simp add: looksLikeJSON_def exampleExternals_def) (simp add: dropListText_def)
  have g2: "\<not> looksLikeJSON exampleExternals ''42''"
    "\<not> looksLikeJSON exampleExternals ''null''"
    by (simp_all add: looksLikeJSON_def exampleExternals_def)
  note g = g1 g2
  have hp: "HasPrefix dropListText ''[''" by (simp add: dropListText_def)
  have dr: "dropParamsOf exampleExternals ?a = [''tpm'']"
    by (simp add: dropParamsOf_def bag mergeAdditionalParam_def x hp dl)
  have "fst (mergeAdditionalParams exampleExternals (additional_litellm_params ?a)
                  (baseLitellmParams exampleExternals ?a, [])) ''user_tag''
      = Some (VString ''null'')"
    by (simp add: bag mergeAdditionalParam_def x hp dl convertString_def Let_def)
  then have "mr_LiteLLMParams (buildModelRequest exampleExternals ?a ''id'') ''user_tag''
      = Some (VString ''null'')"
    by (simp add: payload_params dr)
  moreover have "specCoerce exampleExternals ''null'' = VNil"
    by (simp add: specCoerce_def x)
  ultimately show ?thesis by (intro conjI)
qed

text \<open>
  Claim C8, amended.  The bag has each key once.  For every string value under a key other
  than \<open>additional_drop_params\<close> that is not dropped, the value in the request payload is:
  when the trimmed string starts with \<open>[\<close> or \<open>{\<close>, the result of JSON parsing, then the
  boolean literals, then integer parsing, then float parsing, else the string; and for any
  other string the same chain without the JSON step (the two agree wherever JSON parsing
  fails).  Every string item of the JSON list under \<open>additional_drop_params\<close>, and so every
  collected drop key, is absent from the payload's parameters, also when the base
  parameters or the bag itself had set it: drops are applied after all merging.
\<close>

theorem additional_params_coerced_then_dropped:
  assumes "distinct (map fst (additional_litellm_params a))"
  shows "(\<forall>key s. (key, VString s) \<in> set (additional_litellm_params a) \<and>
            key \<noteq> ''additional_drop_params'' \<and> key \<notin> set (dropParamsOf ext a) \<longrightarrow>
            mr_LiteLLMParams (buildModelRequest ext a modelID) key =
              Some (if looksLikeJSON ext s then specCoerce ext s else convertString ext s)) \<and>
         (\<forall>s. json_Unmarshal ext s = None \<longrightarrow> convertString ext s = specCoerce ext s) \<and>
         (\<forall>s items p. (''additional_drop_params'', VString s) \<in> set (additional_litellm_params a) \<and>
            looksLikeJSON ext s \<and> json_Unmarshal ext s = Some (VList items) \<and>
            VString p \<in> set items \<longrightarrow>
            mr_LiteLLMParams (buildModelRequest ext a modelID) p = None) \<and>
         (\<forall>p \<in> set (dropParamsOf ext a).
            mr_LiteLLMParams (buildModelRequest ext a modelID) p = None)"
proof (intro conjI allI impI ballI)
  fix key s
  assume h: "(key, VString s) \<in> set (additional_litellm_params a) \<and>
            key \<noteq> ''additional_drop_params'' \<and> key \<notin> set (dropParamsOf ext a)"
  then have "fst (mergeAdditionalParams ext (additional_litellm_params a)
                  (baseLitellmParams ext a, [])) key
      = Some (if looksLikeJSON ext s then specCoerce ext s else convertString ext s)"
    using mergeAdditionalParams_string [OF assms, of key s ext] by simp
  then show "mr_LiteLLMParams (buildModelRequest ext a modelID) key =
              Some (if looksLikeJSON ext s then specCoerce ext s else convertString ext s)"
    using h by (simp add: payload_params)
next
  fix s
  assume "json_Unmarshal ext s = None"
  then show "convertString ext s = specCoerce ext s" by (simp add: specCoerce_no_json)
next
  fix s items p
  assume h: "(''additional_drop_params'', VString s) \<in> set (additional_litellm_params a) \<and>
            looksLikeJSON ext s \<and> json_Unmarshal ext s = Some (VList items) \<and>
            VString p \<in> set items"
  then have "p \<in> set (stringItems items)" by (simp add: stringItems_set)
  moreover have "set (stringItems items) \<subseteq> set (dropParamsOf ext a)"
  proof -
    have h1: "(''additional_drop_params'', VString s) \<in> set (additional_litellm_params a)"
      and h2: "looksLikeJSON ext s" and h3: "json_Unmarshal ext s = Some (VList items)"
      using h by simp_all
    show ?thesis unfolding dropParamsOf_def
      by (rule mergeAdditionalParams_drop_list [OF h1 h2 h3])
  qed
  ultimately have "p \<in> set (dropParamsOf ext a)" by auto
  then show "mr_LiteLLMParams (buildModelRequest ext a modelID) p = None"
    by (simp add: payload_params)
next
  fix p
  assume "p \<in> set (dropParamsOf ext a)"
  then show "mr_LiteLLMParams (buildModelRequest ext a modelID) p = None"
    by (simp add: payload_params)
qed


theorem additional_params_coerced_then_dropped_witness:
  "distinct (map fst (additional_litellm_params (attrs (d exampleModelState)))) \<and>
   (''max_retries'', VString ''42'') \<in> set (additional_litellm_params (attrs (d exampleModelState))) \<and>
   ''max_retries'' \<noteq> ''additional_drop_params'' \<and>
   ''max_retries'' \<notin> set (dropParamsOf exampleExternals (attrs (d exampleModelState))) \<and>
   mr_LiteLLMParams (buildModelRequest exampleExternals (attrs (d exampleModelState)) ''id'')
     ''max_retries'' = Some (VInt 42) \<and>
   (''additional_drop_params'', VString dropListText)
     \<in> set (additional_litellm_params (attrs (d exampleModelState))) \<and>
   looksLikeJSON exampleExternals dropListText \<and>
   json_Unmarshal exampleExternals dropListText = Some (VList [VString ''tpm'']) \<and>
   VString ''tpm'' \<in> set [VString ''tpm''] \<and>
   ''tpm'' \<in> set (dropParamsOf exampleExternals (attrs (d exampleModelState))) \<and>
   baseLitellmParams exampleExternals (attrs (d exampleModelState)) ''tpm'' = Some (VInt 100) \<and>
   mr_LiteLLMParams (buildModelRequest exampleExternals (attrs (d exampleModelState)) ''id'')
     ''tpm'' = None"
proof -
  let ?a = "attrs (d exampleModelState)"
  have bag: "additional_litellm_params ?a =
      [(''user_tag'', VString ''null''), (''additional_drop_params'', VString dropListText),
       (''max_retries'', VString ''42'')]"
    by (simp add: exampleModelState_def)
  have dl: "dropListText \<noteq> ''null''" "dropListText \<noteq> ''42''"
    "dropListText \<noteq> ''true''" "dropListText \<noteq> ''false''"
    by (simp_all add: dropListText_def)
  have x: "json_Unmarshal exampleExternals dropListText = Some (VList [VString ''tpm''])"
    "json_Unmarshal exampleExternals ''42'' = None"
    "strconv_Atoi exampleExternals ''42'' = Some 42"
    "strings_TrimSpace exampleExternals = (\<lambda>s. s)"
    using dl by (simp_all add: exampleExternals_def)
  have g1: "looksLikeJSON exampleExternals dropListText"
    by (simp add: looksLikeJSON_def exampleExternals_def) (simp add: dropListText_def)
  have g2: "\<not> looksLikeJSON exampleExternals ''42''"
    "\<not> looksLikeJSON exampleExternals ''null''"
    by (simp_all add: looksLikeJSON_def exampleExternals_def)
  note g = g1 g2
  have dist: "distinct (map fst (additional_litellm_params ?a))"
    by (simp add: bag)
  have m1: "(''max_retries'', VString ''42'') \<in> set (additional_litellm_params ?a)"
    by (simp add: bag)
  have m2: "(''additional_drop_params'', VString dropListText) \<in> set (additional_litellm_params ?a)"
    by (simp add: bag)
  have ne: "''max_retries'' \<noteq> ''additional_drop_params''" by simp
  have hp: "HasPrefix dropListText ''[''" by (simp add: dropListText_def)
  have dr: "dropParamsOf exampleExternals ?a = [''tpm'']"
    by (simp add: dropParamsOf_def bag mergeAdditionalParam_def x hp dl)
  have nd: "''max_retries'' \<notin> set (dropParamsOf exampleExternals ?a)"
    and td: "''tpm'' \<in> set (dropParamsOf exampleExternals ?a)"
    by (simp_all add: dr)
  have base: "baseLitellmParams exampleExternals ?a ''tpm'' = Some (VInt 100)"
    by (simp add: baseLitellmParams_def exampleModelState_def float64_positive_def)
  note t = additional_params_coerced_then_dropped
      [where a = ?a and ext = exampleExternals and modelID = "''id''", OF dist]
  have "mr_LiteLLMParams (buildModelRequest exampleExternals ?a ''id'') ''max_retries''
      = Some (if looksLikeJSON exampleExternals ''42'' then specCoerce exampleExternals ''42''
              else convertString exampleExternals ''42'')"
    by (rule t [THEN conjunct1, rule_format]) (intro conjI m1 ne nd)
  then have c1: "mr_LiteLLMParams (buildModelRequest exampleExternals ?a ''id'') ''max_retries''
      = Some (VInt 42)"
    by (simp add: g convertString_def x)
  have i: "VString ''tpm'' \<in> set [VString ''tpm'']" by simp
  have hyp: "(''additional_drop_params'', VString dropListText)
        \<in> set (additional_litellm_params ?a) \<and>
      looksLikeJSON exampleExternals dropListText \<and>
      json_Unmarshal exampleExternals dropListText = Some (VList [VString ''tpm'']) \<and>
      VString ''tpm'' \<in> set [VString ''tpm'']"
    using m2 g1 x(1) i by (intro conjI)
  have c2: "mr_LiteLLMParams (buildModelRequest exampleExternals ?a ''id'') ''tpm'' = None"
    by (rule t [THEN conjunct2, THEN conjunct2, THEN conjunct1, rule_format, OF hyp])
  show ?thesis using dist m1 ne nd c1 m2 g(1) x(1) i td base c2 by (intro conjI)
qed

end
